(* ===== verification/Prelude.thy ===== *)
theory Prelude
  imports Main "HOL-Library.Sublist"
begin

text \<open>
  Shared vocabulary of the development: Go's way of failing (error values, panics,
  \<open>log.Fatal\<close>), the file system the program reads and writes (a map from cleaned
  absolute paths to plain files and directories), the path operations of
  \<open>path/filepath\<close> and \<open>strings\<close> that the code relies on, the data produced by the
  libraries it calls (decoded JSON, tar headers), the world state threaded through
  every effectful operation, and the record of oracles that stand for the network,
  subprocesses, OpenPGP and the decompressor.
\<close>

named_theorems fs_simps "facts about the file-system model used by the component proofs"
named_theorems steady_rules "operations that run no subprocess and keep the file system well formed"

section \<open>Go results\<close>

type_synonym bytes = string
type_synonym goerror = string

text \<open>\<open>fmt.Errorf("prefix: %s", err)\<close>: a new error whose message wraps the old one.\<close>

definition errorf :: "string \<Rightarrow> goerror \<Rightarrow> goerror" where
  "errorf pfx e = pfx @ '': '' @ e"

text \<open>
  A Go call either returns (its ordinary results, an \<open>error\<close> among them), or
  panics (a failed type assertion, \<open>log.Panic\<close>) or ends the process
  (\<open>log.Fatal\<close>). The last two unwind every caller, so they are a separate layer.
\<close>

datatype abort = Panic string | Fatal string

datatype 'a outcome = Ret 'a | Abort abort

definition obind :: "'a outcome \<times> 's \<Rightarrow> ('a \<Rightarrow> 's \<Rightarrow> 'b outcome \<times> 's) \<Rightarrow> 'b outcome \<times> 's" where
  "obind m f = (case m of (Ret a, s) \<Rightarrow> f a s | (Abort x, s) \<Rightarrow> (Abort x, s))"

lemma obind_Ret [simp]: "obind (Ret a, s) f = f a s"
  by (simp add: obind_def)

lemma obind_Abort [simp]: "obind (Abort x, s) f = (Abort x, s)"
  by (simp add: obind_def)

section \<open>Paths\<close>

text \<open>
  A path is the list of components of a cleaned absolute path: \<open>[]\<close> is \<open>/\<close>.
  \<open>split_on\<close> is \<open>strings.Split\<close> with a one-character separator (it never returns
  the empty list); \<open>clean_comps\<close> is the component walk of \<open>filepath.Clean\<close> on an
  absolute path (\<open>..\<close> at the root stays at the root).
\<close>

type_synonym path = "string list"

fun split_on :: "char \<Rightarrow> string \<Rightarrow> string list" where
  "split_on d [] = [[]]"
| "split_on d (c # cs) =
     (if c = d then [] # split_on d cs
      else (case split_on d cs of w # ws \<Rightarrow> (c # w) # ws | [] \<Rightarrow> [[c]]))"

fun clean_comps :: "path \<Rightarrow> string list \<Rightarrow> path" where
  "clean_comps acc [] = acc"
| "clean_comps acc (c # cs) =
     (if c = [] \<or> c = ''.'' then clean_comps acc cs
      else if c = ''..'' then clean_comps (butlast acc) cs
      else clean_comps (acc @ [c]) cs)"

text \<open>\<open>filepath.Join(base, name)\<close> for an absolute, clean \<open>base\<close>.\<close>

definition join :: "path \<Rightarrow> string \<Rightarrow> path" where
  "join base name = clean_comps base (split_on (CHR ''/'') name)"

definition path_str :: "path \<Rightarrow> string" where
  "path_str p = (if p = [] then ''/'' else concat (map (\<lambda>c. ''/'' @ c) p))"

section \<open>File system\<close>

datatype node = Dir | File bytes nat

type_synonym fsys = "path \<rightharpoonup> node"

text \<open>Every entry but the root hangs below a directory, and the root is a directory.\<close>

definition fs_wf :: "fsys \<Rightarrow> bool" where
  "fs_wf f \<longleftrightarrow> f [] = Some Dir \<and> (\<forall>p n. p \<noteq> [] \<longrightarrow> f p = Some n \<longrightarrow> f (butlast p) = Some Dir)"

definition is_file :: "node option \<Rightarrow> bool" where
  "is_file n = (case n of Some (File _ _) \<Rightarrow> True | _ \<Rightarrow> False)"

text \<open>
  \<open>os.Stat\<close>: the node, or \<open>ENOTDIR\<close> when a proper prefix of the path is a
  plain file, or \<open>ENOENT\<close>.
\<close>

definition stat :: "fsys \<Rightarrow> path \<Rightarrow> goerror + node" where
  "stat f p = (case f p of Some n \<Rightarrow> Inr n
     | None \<Rightarrow> if list_ex (\<lambda>i. is_file (f (take i p))) [0..<length p]
               then Inl ''ENOTDIR'' else Inl ''ENOENT'')"

text \<open>
  \<open>FileExists\<close> (get.go): \<open>!os.IsNotExist(err)\<close> of \<open>os.Stat\<close>; so an
  \<open>ENOTDIR\<close> failure counts as existing.
\<close>

definition FileExists :: "fsys \<Rightarrow> path \<Rightarrow> bool" where
  "FileExists f p \<longleftrightarrow> stat f p \<noteq> Inl ''ENOENT''"

text \<open>
  \<open>os.MkdirAll\<close>: walk the components from the root, creating missing directories;
  a plain file on the way is \<open>ENOTDIR\<close>.
\<close>

fun mkdirs :: "fsys \<Rightarrow> path \<Rightarrow> path \<Rightarrow> goerror option \<times> fsys" where
  "mkdirs f pre [] = (None, f)"
| "mkdirs f pre (c # cs) =
     (case f (pre @ [c]) of
        Some Dir \<Rightarrow> mkdirs f (pre @ [c]) cs
      | Some (File _ _) \<Rightarrow> (Some ''ENOTDIR'', f)
      | None \<Rightarrow> mkdirs (f(pre @ [c] \<mapsto> Dir)) (pre @ [c]) cs)"

definition mkdir_all :: "fsys \<Rightarrow> path \<Rightarrow> goerror option \<times> fsys" where
  "mkdir_all f p = mkdirs f [] p"

text \<open>
  Opening for writing with \<open>O_CREATE|O_TRUNC\<close> (\<open>ioutil.WriteFile\<close>,
  \<open>os.Create\<close>): the parent must be a directory; an existing file keeps its mode,
  a new one gets \<open>perm\<close>.
\<close>

definition write_file :: "fsys \<Rightarrow> path \<Rightarrow> bytes \<Rightarrow> nat \<Rightarrow> goerror option \<times> fsys" where
  "write_file f p d perm =
     (if p = [] then (Some ''EISDIR'', f)
      else case stat f (butlast p) of
        Inl e \<Rightarrow> (Some e, f)
      | Inr (File _ _) \<Rightarrow> (Some ''ENOTDIR'', f)
      | Inr Dir \<Rightarrow>
          (case f p of
             Some Dir \<Rightarrow> (Some ''EISDIR'', f)
           | Some (File _ m) \<Rightarrow> (None, f(p \<mapsto> File d m))
           | None \<Rightarrow> (None, f(p \<mapsto> File d perm))))"

definition read_file :: "fsys \<Rightarrow> path \<Rightarrow> goerror + bytes" where
  "read_file f p = (case stat f p of
     Inl e \<Rightarrow> Inl e | Inr Dir \<Rightarrow> Inl ''EISDIR'' | Inr (File d _) \<Rightarrow> Inr d)"

definition chmod :: "fsys \<Rightarrow> path \<Rightarrow> nat \<Rightarrow> fsys" where
  "chmod f p m = (case f p of Some (File d _) \<Rightarrow> f(p \<mapsto> File d m) | _ \<Rightarrow> f)"

subsection \<open>Facts about the file-system operations\<close>

lemma butlast_neq [simp]: "p \<noteq> [] \<Longrightarrow> butlast p \<noteq> p"
proof
  assume "p \<noteq> []" and "butlast p = p"
  then have "length (butlast p) = length p" and "length p > 0" by simp_all
  then show False by (simp only: length_butlast)
qed

lemma stat_Inr [fs_simps]: "stat f p = Inr n \<longleftrightarrow> f p = Some n"
  by (auto simp: stat_def split: option.splits)

lemma stat_Some [fs_simps]: "f p = Some n \<Longrightarrow> stat f p = Inr n"
  by (simp add: stat_def)

lemma FileExists_Some [fs_simps]: "f p = Some n \<Longrightarrow> FileExists f p"
  by (simp add: FileExists_def stat_def)

lemma not_FileExists_None: "\<not> FileExists f p \<Longrightarrow> f p = None"
  by (cases "f p") (auto simp: FileExists_def stat_def)

lemma mkdirs_keeps:
  "mkdirs f pre cs = (r, f') \<Longrightarrow> f p = Some n \<Longrightarrow> f' p = Some n"
proof (induction cs arbitrary: f pre)
  case Nil
  then show ?case by simp
next
  case (Cons c cs)
  show ?case
  proof (cases "f (pre @ [c])")
    case None
    with Cons.prems have "mkdirs (f(pre @ [c] \<mapsto> Dir)) (pre @ [c]) cs = (r, f')" by simp
    moreover from None Cons.prems(2) have "(f(pre @ [c] \<mapsto> Dir)) p = Some n" by auto
    ultimately show ?thesis by (rule Cons.IH)
  next
    case (Some m)
    with Cons show ?thesis by (cases m) auto
  qed
qed

lemma mkdirs_idem:
  "mkdirs f pre cs = (r, f') \<Longrightarrow> mkdirs f' pre cs = (r, f')"
proof (induction cs arbitrary: f pre)
  case Nil
  then show ?case by simp
next
  case (Cons c cs)
  show ?case
  proof (cases "f (pre @ [c])")
    case None
    with Cons.prems have run: "mkdirs (f(pre @ [c] \<mapsto> Dir)) (pre @ [c]) cs = (r, f')" by simp
    then have "f' (pre @ [c]) = Some Dir" by (rule mkdirs_keeps) simp
    with Cons.IH [OF run] show ?thesis by simp
  next
    case (Some m)
    show ?thesis
    proof (cases m)
      case Dir
      with Cons.prems Some have run: "mkdirs f (pre @ [c]) cs = (r, f')" by simp
      from mkdirs_keeps [OF run] Some Dir have "f' (pre @ [c]) = Some Dir" by simp
      with Cons.IH [OF run] show ?thesis by simp
    next
      case (File d m')
      with Cons.prems Some show ?thesis by simp
    qed
  qed
qed

lemma mkdir_all_idem [fs_simps]:
  "mkdir_all f p = (r, f') \<Longrightarrow> mkdir_all f' p = (r, f')"
  unfolding mkdir_all_def by (rule mkdirs_idem)

lemma mkdirs_wf:
  "fs_wf f \<Longrightarrow> f pre = Some Dir \<Longrightarrow> mkdirs f pre cs = (r, f') \<Longrightarrow> fs_wf f'"
proof (induction cs arbitrary: f pre)
  case Nil
  then show ?case by simp
next
  case (Cons c cs)
  show ?case
  proof (cases "f (pre @ [c])")
    case None
    have wf: "fs_wf (f(pre @ [c] \<mapsto> Dir))"
      using Cons.prems(1,2) None by (auto simp: fs_wf_def)
    from None Cons.prems(3)
    have run: "mkdirs (f(pre @ [c] \<mapsto> Dir)) (pre @ [c]) cs = (r, f')" by simp
    have "(f(pre @ [c] \<mapsto> Dir)) (pre @ [c]) = Some Dir" by simp
    from Cons.IH [OF wf this run] show ?thesis .
  next
    case (Some m)
    with Cons show ?thesis by (cases m) auto
  qed
qed

lemma mkdir_all_wf [fs_simps]:
  "fs_wf f \<Longrightarrow> mkdir_all f p = (r, f') \<Longrightarrow> fs_wf f'"
  unfolding mkdir_all_def by (rule mkdirs_wf) (auto simp: fs_wf_def)

lemma mkdirs_creates:
  "mkdirs f pre cs = (None, f') \<Longrightarrow> f pre = Some Dir \<Longrightarrow> f' (pre @ cs) = Some Dir"
proof (induction cs arbitrary: f pre)
  case Nil
  then show ?case by simp
next
  case (Cons c cs)
  show ?case
  proof (cases "f (pre @ [c])")
    case None
    with Cons.prems have run: "mkdirs (f(pre @ [c] \<mapsto> Dir)) (pre @ [c]) cs = (None, f')" by simp
    from Cons.IH [OF run] show ?thesis by simp
  next
    case (Some m)
    show ?thesis
    proof (cases m)
      case Dir
      with Cons.prems Some have run: "mkdirs f (pre @ [c]) cs = (None, f')" by simp
      from Cons.IH [OF run] Some Dir show ?thesis by simp
    next
      case (File d m')
      with Cons.prems Some show ?thesis by simp
    qed
  qed
qed

lemma mkdir_all_creates [fs_simps]:
  "fs_wf f \<Longrightarrow> mkdir_all f p = (None, f') \<Longrightarrow> f' p = Some Dir"
  using mkdirs_creates [of f "[]" p f'] by (simp add: mkdir_all_def fs_wf_def)

lemma write_file_wf [fs_simps]:
  "fs_wf f \<Longrightarrow> write_file f p d m = (r, f') \<Longrightarrow> fs_wf f'"
  by (auto simp: write_file_def fs_wf_def stat_Inr split: if_splits sum.splits node.splits option.splits)

lemma write_file_ok [fs_simps]:
  "write_file f p d m = (None, f') \<Longrightarrow> \<exists>m'. f' = f(p \<mapsto> File d m')"
  by (auto simp: write_file_def split: if_splits sum.splits node.splits option.splits)

lemma write_file_err [fs_simps]:
  "write_file f p d m = (Some e, f') \<Longrightarrow> f' = f"
  by (auto simp: write_file_def split: if_splits sum.splits node.splits option.splits)

lemma write_file_new [fs_simps]:
  "f (butlast p) = Some Dir \<Longrightarrow> p \<noteq> [] \<Longrightarrow> f p = None \<Longrightarrow>
   write_file f p d m = (None, f(p \<mapsto> File d m))"
  by (simp add: write_file_def stat_Some)

lemma read_file_File [fs_simps]: "f p = Some (File d m) \<Longrightarrow> read_file f p = Inr d"
  by (simp add: read_file_def stat_Some)

lemma chmod_wf [fs_simps]: "fs_wf f \<Longrightarrow> fs_wf (chmod f p m)"
  by (auto simp: chmod_def fs_wf_def split: option.splits node.splits)

subsection \<open>Growth of the file system\<close>

text \<open>
  The program never deletes: every operation keeps each entry, a directory stays a
  directory and a plain file stays a plain file (its content may change).
\<close>

definition fs_grows :: "fsys \<Rightarrow> fsys \<Rightarrow> bool" where
  "fs_grows f g \<longleftrightarrow> (\<forall>p n. f p = Some n \<longrightarrow>
     g p = Some n \<or> (\<exists>d m d' m'. n = File d m \<and> g p = Some (File d' m')))"

lemma fs_grows_refl [fs_simps]: "fs_grows f f"
  by (simp add: fs_grows_def)

lemma fs_grows_trans [fs_simps]: "fs_grows f g \<Longrightarrow> fs_grows g h \<Longrightarrow> fs_grows f h"
  unfolding fs_grows_def by (metis node.inject)

lemma fs_grows_Dir: "fs_grows f g \<Longrightarrow> f p = Some Dir \<Longrightarrow> g p = Some Dir"
  by (auto simp: fs_grows_def)

lemma fs_grows_File: "fs_grows f g \<Longrightarrow> f p = Some (File d m) \<Longrightarrow> \<exists>d' m'. g p = Some (File d' m')"
  by (auto simp: fs_grows_def)

lemma mkdirs_grows: "mkdirs f pre cs = (r, f') \<Longrightarrow> fs_grows f f'"
  by (auto simp: fs_grows_def dest: mkdirs_keeps)

lemma mkdir_all_keeps [fs_simps]: "f p = Some n \<Longrightarrow> snd (mkdir_all f q) p = Some n"
  unfolding mkdir_all_def by (metis mkdirs_keeps prod.collapse)

lemma mkdir_all_grows [fs_simps]: "mkdir_all f p = (r, f') \<Longrightarrow> fs_grows f f'"
  unfolding mkdir_all_def by (rule mkdirs_grows)

lemma write_file_grows [fs_simps]: "write_file f p d m = (r, f') \<Longrightarrow> fs_grows f f'"
  by (auto simp: write_file_def fs_grows_def split: if_splits sum.splits node.splits option.splits)

lemma is_file_grows: "fs_grows f g \<Longrightarrow> is_file (f p) \<Longrightarrow> is_file (g p)"
  unfolding is_file_def fs_grows_def
  by (cases "f p"; cases "g p") (fastforce split: node.splits)+

lemma FileExists_grows [fs_simps]: "fs_grows f g \<Longrightarrow> FileExists f p \<Longrightarrow> FileExists g p"
proof -
  assume gr: "fs_grows f g" and ex: "FileExists f p"
  show "FileExists g p"
  proof (cases "f p")
    case (Some n)
    with gr obtain n' where "g p = Some n'" by (auto simp: fs_grows_def)
    then show ?thesis by (rule FileExists_Some)
  next
    case None
    with ex have "list_ex (\<lambda>i. is_file (f (take i p))) [0..<length p]"
      by (auto simp: FileExists_def stat_def split: if_splits)
    then have "list_ex (\<lambda>i. is_file (g (take i p))) [0..<length p]"
      by (auto simp: list_ex_iff intro: is_file_grows [OF gr])
    then show ?thesis by (auto simp: FileExists_def stat_def split: option.splits)
  qed
qed

text \<open>Running \<open>MkdirAll\<close> again on a file system that has only grown changes nothing.\<close>

lemma mkdirs_replay:
  "mkdirs f pre cs = (r, f1) \<Longrightarrow> fs_grows f1 g \<Longrightarrow> mkdirs g pre cs = (r, g)"
proof (induction cs arbitrary: f pre)
  case Nil
  then show ?case by simp
next
  case (Cons c cs)
  let ?q = "pre @ [c]"
  show ?case
  proof (cases "f ?q")
    case None
    with Cons.prems have run: "mkdirs (f(?q \<mapsto> Dir)) ?q cs = (r, f1)" by simp
    have "f1 ?q = Some Dir" by (rule mkdirs_keeps [OF run]) simp
    with Cons.prems(2) have "g ?q = Some Dir" by (rule fs_grows_Dir)
    with Cons.IH [OF run Cons.prems(2)] show ?thesis by simp
  next
    case (Some n)
    show ?thesis
    proof (cases n)
      case Dir
      with Cons.prems Some have run: "mkdirs f ?q cs = (r, f1)" by simp
      from mkdirs_keeps [OF run] Some Dir have "f1 ?q = Some Dir" by simp
      with Cons.prems(2) have "g ?q = Some Dir" by (rule fs_grows_Dir)
      with Cons.IH [OF run Cons.prems(2)] show ?thesis by simp
    next
      case (File d m)
      with Cons.prems Some have "r = Some ''ENOTDIR''" and "f1 = f" by simp_all
      with Cons.prems(2) Some File obtain d' m' where "g ?q = Some (File d' m')"
        using fs_grows_File by blast
      with \<open>r = Some ''ENOTDIR''\<close> show ?thesis by simp
    qed
  qed
qed

lemma mkdir_all_replay [fs_simps]:
  "mkdir_all f p = (r, f1) \<Longrightarrow> fs_grows f1 g \<Longrightarrow> mkdir_all g p = (r, g)"
  unfolding mkdir_all_def by (rule mkdirs_replay)

text \<open>\<open>MkdirAll\<close> changes only the components of its own path, from nothing to a directory.\<close>

lemma mkdirs_changes:
  "mkdirs f pre cs = (r, f') \<Longrightarrow> f' p \<noteq> f p \<Longrightarrow>
   f p = None \<and> f' p = Some Dir \<and> (\<exists>q. prefix q cs \<and> p = pre @ q)"
proof (induction cs arbitrary: f pre)
  case Nil
  then show ?case by simp
next
  case (Cons c cs)
  let ?q = "pre @ [c]"
  show ?case
  proof (cases "f ?q")
    case None
    with Cons.prems(1) have run: "mkdirs (f(?q \<mapsto> Dir)) ?q cs = (r, f')" by simp
    show ?thesis
    proof (cases "p = ?q")
      case True
      have "f' ?q = Some Dir" by (rule mkdirs_keeps [OF run]) simp
      with None True show ?thesis by (metis Cons_prefix_Cons Nil_prefix)
    next
      case False
      with Cons.prems(2) have "f' p \<noteq> (f(?q \<mapsto> Dir)) p" by simp
      from Cons.IH [OF run this] False obtain q where "prefix q cs" "p = ?q @ q" "f p = None"
        "f' p = Some Dir" by auto
      then show ?thesis by (metis Cons_prefix_Cons append_Cons append_assoc self_append_conv2)
    qed
  next
    case (Some n)
    show ?thesis
    proof (cases n)
      case Dir
      with Cons.prems(1) Some have run: "mkdirs f ?q cs = (r, f')" by simp
      from Cons.IH [OF run Cons.prems(2)] obtain q where "prefix q cs" "p = ?q @ q" "f p = None"
        "f' p = Some Dir" by auto
      then show ?thesis by (metis Cons_prefix_Cons append_Cons append_assoc self_append_conv2)
    next
      case (File d m)
      with Cons.prems Some show ?thesis by simp
    qed
  qed
qed

lemma mkdir_all_FileExists:
  assumes run: "mkdir_all f q = (r, f')" and ex: "FileExists f' p" and np: "\<not> prefix p q"
  shows "FileExists f p"
proof -
  have same: "f' p = f p"
    using mkdirs_changes [of f "[]" q r f' p] run np by (auto simp: mkdir_all_def)
  have kind: "is_file (f' x) \<Longrightarrow> is_file (f x)" for x
    using mkdirs_changes [of f "[]" q r f' x] run
    by (cases "f' x = f x") (auto simp: mkdir_all_def is_file_def)
  show ?thesis
  proof (cases "f p")
    case (Some n)
    then show ?thesis by (rule FileExists_Some)
  next
    case None
    with same ex have "list_ex (\<lambda>i. is_file (f' (take i p))) [0..<length p]"
      by (auto simp: FileExists_def stat_def split: if_splits)
    then have "list_ex (\<lambda>i. is_file (f (take i p))) [0..<length p]"
      by (auto simp: list_ex_iff intro: kind)
    with None show ?thesis by (simp add: FileExists_def stat_def)
  qed
qed

lemma write_file_None_new [fs_simps]:
  "write_file f p d m = (None, f') \<Longrightarrow> f p = None \<Longrightarrow> f' p = Some (File d m)"
  by (auto simp: write_file_def split: if_splits sum.splits node.splits option.splits)

subsection \<open>Joining a plain name\<close>

text \<open>A name \<open>filepath.Join\<close> appends as one component.\<close>

definition plain_name :: "string \<Rightarrow> bool" where
  "plain_name n \<longleftrightarrow> CHR ''/'' \<notin> set n \<and> n \<noteq> [] \<and> n \<noteq> ''.'' \<and> n \<noteq> ''..''"

lemma split_on_nosep: "d \<notin> set s \<Longrightarrow> split_on d s = [s]"
  by (induction s) auto

lemma join_simple [fs_simps]:
  "CHR ''/'' \<notin> set n \<Longrightarrow> n \<noteq> [] \<Longrightarrow> n \<noteq> ''.'' \<Longrightarrow> n \<noteq> ''..'' \<Longrightarrow> join b n = b @ [n]"
  by (simp add: join_def split_on_nosep)

section \<open>Data produced by libraries\<close>

text \<open>A value decoded by \<open>encoding/json\<close> into \<open>interface{}\<close>.\<close>

datatype json = JNull | JBool bool | JNum int | JStr string | JArr "json list"
  | JObj "(string \<times> json) list"

text \<open>A header of \<open>archive/tar\<close> with the entry's content.\<close>

datatype tar_type = TypeReg | TypeLink | TypeSymlink | TypeChar | TypeBlock | TypeDir | TypeFifo

record tar_header =
  Name :: string
  Typeflag :: tar_type
  Mode :: nat
  Body :: bytes

section \<open>The world and the oracles\<close>

text \<open>
  The state a run of the program changes: the file system, the URLs requested with
  \<open>http.Get\<close> (in order), the argument vectors of the subprocesses run, the seconds
  slept, the TCP addresses this process listens on, the working directory and the
  package variables of get.go.
\<close>

record world =
  fs :: fsys
  fetched :: "string list"
  ran :: "string list list"
  slept :: nat
  listening :: "string list"
  WORKING_DIR :: string
  cwd :: path
  pkgOS :: string
  pkgARCH :: string

text \<open>
  What the program does not compute itself: the runtime platform, the network
  (\<open>http.Get\<close> of a URL: the body or an error), the JSON decoder, the OpenPGP library
  (\<open>pgp.GetEntity\<close>, \<open>pgp.Verify(entity, message, signature)\<close>: \<open>None\<close> is a nil
  error), a subprocess (its exit error and its effect on the file system), the xz+tar
  reader (a \<open>NewReader\<close> error, or the headers up to the end of the stream or a read
  error), the I2P proxy (the answer to \<open>GET http://proxy.i2p/\<close> through a proxy URL)
  and other processes holding a TCP address (both as functions of the seconds slept),
  the Markdown renderer, and the SAM bridge (\<open>sam.I2PListener\<close>: an error or none)
  with the connections its listener accepts (the n-th \<open>Accept\<close>: an error or the
  request path the connection asks for).
\<close>

record env =
  GOOS :: string
  GOARCH :: string
  http_get :: "string \<Rightarrow> goerror + bytes"
  json_decode :: "bytes \<Rightarrow> goerror + json"
  pgp_entity :: "bytes \<Rightarrow> goerror + bytes"
  pgp_verify :: "bytes \<Rightarrow> bytes \<Rightarrow> bytes \<Rightarrow> goerror option"
  run_cmd :: "string list \<Rightarrow> fsys \<Rightarrow> goerror option \<times> fsys"
  xz_tar :: "bytes \<Rightarrow> goerror + tar_header list \<times> goerror option"
  proxy_get :: "string \<Rightarrow> nat \<Rightarrow> goerror + bytes"
  port_in_use :: "string \<Rightarrow> nat \<Rightarrow> bool"
  markdown :: "bytes \<Rightarrow> bytes"
  sam_listen :: "goerror option"
  accept :: "nat \<Rightarrow> goerror + string"

text \<open>\<open>http.Get\<close>: ask the network, and record the request.\<close>

definition http_get_w :: "env \<Rightarrow> string \<Rightarrow> world \<Rightarrow> (goerror + bytes) \<times> world" where
  "http_get_w e u w = (http_get e u, w\<lparr>fetched := fetched w @ [u]\<rparr>)"

text \<open>\<open>exec.Command(argv...).Run()\<close>: run, and record the argument vector.\<close>

definition run_w :: "env \<Rightarrow> string list \<Rightarrow> world \<Rightarrow> goerror option \<times> world" where
  "run_w e argv w = (let (r, f') = run_cmd e argv (fs w) in (r, w\<lparr>fs := f', ran := ran w @ [argv]\<rparr>))"

text \<open>
  A reference environment for concrete runs: a 64-bit Linux host with no network,
  a decoder and OpenPGP library that fail, subprocesses that succeed and do nothing,
  an empty archive, no I2P proxy and a free port.
\<close>

definition offline_env :: env where
  "offline_env = \<lparr>GOOS = ''linux'', GOARCH = ''amd64'',
     http_get = (\<lambda>_. Inl ''dial tcp: network unreachable''),
     json_decode = (\<lambda>_. Inl ''unexpected end of JSON input''),
     pgp_entity = (\<lambda>_. Inl ''openpgp: invalid data''),
     pgp_verify = (\<lambda>_ _ _. Some ''openpgp: invalid signature''),
     run_cmd = (\<lambda>_ f. (None, f)),
     xz_tar = (\<lambda>_. Inr ([], None)),
     proxy_get = (\<lambda>_ _. Inl ''proxyconnect tcp: connection refused''),
     port_in_use = (\<lambda>_ _. False),
     markdown = id,
     sam_listen = Some ''dial tcp 127.0.0.1:7656: connect: connection refused'',
     accept = (\<lambda>_. Inl ''use of closed network connection'')\<rparr>"

text \<open>A fresh process: only the root directory, nothing fetched or run, \<open>/home/user\<close> as cwd.\<close>

definition fresh_world :: world where
  "fresh_world = \<lparr>fs = [[] \<mapsto> Dir], fetched = [], ran = [], slept = 0, listening = [],
     WORKING_DIR = [], cwd = [''home'', ''user''], pkgOS = ''linux'', pkgARCH = ''64''\<rparr>"

section \<open>Steps that run nothing and keep the file system well formed\<close>

text \<open>
  Most operations of the program touch the world only through the file-system
  operations above and the request log: they run no subprocess and keep \<open>fs_wf\<close>.
  \<open>steady w w'\<close> says that of a step from \<open>w\<close> to \<open>w'\<close>; the rules below chain.
\<close>

definition steady :: "world \<Rightarrow> world \<Rightarrow> bool" where
  "steady w w' \<longleftrightarrow> ran w' = ran w \<and> (fs_wf (fs w) \<longrightarrow> fs_wf (fs w'))"

lemma steady_refl [steady_rules]: "steady w w"
  by (simp add: steady_def)

lemma steady_trans: "steady w1 w2 \<Longrightarrow> steady w2 w3 \<Longrightarrow> steady w1 w3"
  by (simp add: steady_def)

lemma steady_wf: "steady w w' \<Longrightarrow> fs_wf (fs w) \<Longrightarrow> fs_wf (fs w')"
  by (simp add: steady_def)

lemma steady_ran: "steady w w' \<Longrightarrow> ran w' = ran w"
  by (simp add: steady_def)

lemma steady_write [steady_rules]: "write_file (fs w) p d m = (r, f) \<Longrightarrow> steady w (w\<lparr>fs := f\<rparr>)"
  by (auto simp: steady_def dest: write_file_wf)

lemma steady_write_snd [steady_rules]: "steady w (w\<lparr>fs := snd (write_file (fs w) p d m)\<rparr>)"
  using steady_write [of w p d m "fst (write_file (fs w) p d m)"] by simp

lemma steady_mkdir [steady_rules]: "steady w (w\<lparr>fs := snd (mkdir_all (fs w) p)\<rparr>)"
  using mkdir_all_wf [of "fs w" p "fst (mkdir_all (fs w) p)"] by (simp add: steady_def)

lemma steady_chmod [steady_rules]: "steady w (w\<lparr>fs := chmod (fs w) p m\<rparr>)"
  by (simp add: steady_def chmod_wf)

lemma steady_fetched [steady_rules]: "steady w (w\<lparr>fetched := x\<rparr>)"
  by (simp add: steady_def)

lemma steady_http [steady_rules]: "steady w (snd (http_get_w e u w))"
  by (simp add: steady_def http_get_w_def)

end
