(* ===== verification/Platform.thy ===== *)
theory Platform
  imports Prelude
begin

text \<open>
  The downloader's configuration (get.go): the \<open>TBDownloader\<close> struct, the working
  directory and the two directories below it (\<open>DefaultDir\<close>, \<open>UNPACK_PATH\<close>,
  \<open>DOWNLOAD_PATH\<close>), the constructor \<open>NewTBDownloader\<close>, the platform key
  \<open>GetRuntimePair\<close> (which fills in \<open>OS\<close> and \<open>ARCH\<close> on first use), the artifact
  name \<open>NamePerPlatform\<close> and the install directory \<open>BrowserDir\<close>.
\<close>

section \<open>The downloader\<close>

text \<open>
  \<open>Profile\<close> is the embedded file system (\<open>embed.FS\<close>) as a map from its paths to
  contents: \<open>ReadFile\<close> of a missing path is an error.
\<close>

record TBDownloader =
  UnpackPath :: path
  DownloadPath :: path
  Lang :: string
  OS :: string
  ARCH :: string
  Verbose :: bool
  Profile :: "string \<rightharpoonup> bytes"

definition TOR_UPDATES_URL :: string where
  "TOR_UPDATES_URL = ''https://aus1.torproject.org/torbrowser/update_3/release/downloads.json''"

text \<open>\<open>filepath.Abs\<close>: an absolute string is cleaned, a relative one joined to the cwd.\<close>

definition abs_path :: "path \<Rightarrow> string \<Rightarrow> path" where
  "abs_path wd s = (if take 1 s = ''/'' then join [] s else join wd s)"

definition DefaultDir :: "world \<Rightarrow> path \<times> world" where
  "DefaultDir w =
     (let w1 = (if WORKING_DIR w = [] then w\<lparr>WORKING_DIR := path_str (cwd w)\<rparr> else w);
          d = abs_path (cwd w1) (WORKING_DIR w1);
          w2 = (if \<not> FileExists (fs w1) d then w1\<lparr>fs := snd (mkdir_all (fs w1) d)\<rparr> else w1)
      in (d, w2))"

definition UNPACK_PATH :: "world \<Rightarrow> path \<times> world" where
  "UNPACK_PATH w = (let (d, w') = DefaultDir w in (join d ''unpack'', w'))"

definition DOWNLOAD_PATH :: "world \<Rightarrow> path \<times> world" where
  "DOWNLOAD_PATH w = (let (d, w') = DefaultDir w in (join d ''tor-browser'', w'))"

text \<open>
  \<open>NewTBDownloader\<close> also overwrites the package variables \<open>OS\<close> and \<open>ARCH\<close>; the
  fields of the literal are evaluated in the order written.
\<close>

definition NewTBDownloader ::
  "string \<Rightarrow> string \<Rightarrow> string \<Rightarrow> (string \<rightharpoonup> bytes) \<Rightarrow> world \<Rightarrow> TBDownloader \<times> world" where
  "NewTBDownloader lang os arch content w =
     (let w0 = w\<lparr>pkgOS := os, pkgARCH := arch\<rparr>;
          (dl, w1) = DOWNLOAD_PATH w0;
          (up, w2) = UNPACK_PATH w1
      in (\<lparr>UnpackPath = up, DownloadPath = dl, Lang = lang, OS = os, ARCH = arch,
           Verbose = False, Profile = content\<rparr>, w2))"

section \<open>Platform key and artifact names\<close>

text \<open>
  \<open>GetRuntimePair\<close>: with both fields set, their concatenation; otherwise both are
  detected from \<open>runtime.GOOS\<close>/\<open>runtime.GOARCH\<close>, stored in the struct, and the key
  is their concatenation except on macOS.
\<close>

definition GetRuntimePair :: "env \<Rightarrow> TBDownloader \<Rightarrow> string \<times> TBDownloader" where
  "GetRuntimePair e t =
     (if OS t \<noteq> [] \<and> ARCH t \<noteq> [] then (OS t @ ARCH t, t)
      else
        let os = (if GOOS e = ''darwin'' then ''osx''
                  else if GOOS e = ''linux'' then ''linux''
                  else if GOOS e = ''windows'' then ''win''
                  else ''unknown'');
            arch = (if GOARCH e = ''amd64'' then ''64''
                    else if GOARCH e = ''386'' then ''32''
                    else ''unknown'');
            t' = t\<lparr>OS := os, ARCH := arch\<rparr>
        in (if os \<noteq> ''osx'' then os @ arch else os, t'))"

text \<open>The switch reads \<open>t.OS\<close> before \<open>GetRuntimePair\<close> runs.\<close>

definition NamePerPlatform :: "env \<Rightarrow> TBDownloader \<Rightarrow> string \<Rightarrow> string \<times> TBDownloader" where
  "NamePerPlatform e t ietf =
     (let (extension, windowsonly) =
            (if OS t = ''osx'' then (''dmg'', '''')
             else if OS t = ''win'' then (''exe'', ''-installer'')
             else (''tar.xz'', ''''));
          (rtp, t') = GetRuntimePair e t
      in (''torbrowser'' @ windowsonly @ ''-'' @ rtp @ ''-'' @ ietf @ ''.'' @ extension, t'))"

definition BrowserDir :: "TBDownloader \<Rightarrow> path" where
  "BrowserDir t = join (UnpackPath t) (''tor-browser_'' @ Lang t)"

section \<open>Properties\<close>

lemma GetRuntimePair_set [simp]:
  "OS t \<noteq> [] \<Longrightarrow> ARCH t \<noteq> [] \<Longrightarrow> GetRuntimePair e t = (OS t @ ARCH t, t)"
  by (simp add: GetRuntimePair_def)

lemma runtime_pair_detected_shape:
  assumes "OS t = [] \<or> ARCH t = []"
  obtains os arch where
    "os \<in> {''osx'', ''linux'', ''win'', ''unknown''}" and "arch \<in> {''64'', ''32'', ''unknown''}"
    and "GetRuntimePair e t = (if os \<noteq> ''osx'' then os @ arch else os, t\<lparr>OS := os, ARCH := arch\<rparr>)"
proof -
  define os where "os = (if GOOS e = ''darwin'' then ''osx'' else if GOOS e = ''linux'' then ''linux''
                  else if GOOS e = ''windows'' then ''win'' else ''unknown'')"
  define arch where "arch = (if GOARCH e = ''amd64'' then ''64'' else if GOARCH e = ''386'' then ''32''
                    else ''unknown'')"
  have "os \<in> {''osx'', ''linux'', ''win'', ''unknown''}" by (simp add: os_def)
  moreover have "arch \<in> {''64'', ''32'', ''unknown''}" by (simp add: arch_def)
  moreover have "GetRuntimePair e t = (if os \<noteq> ''osx'' then os @ arch else os, t\<lparr>OS := os, ARCH := arch\<rparr>)"
    using assms unfolding GetRuntimePair_def Let_def os_def [symmetric] arch_def [symmetric] by auto
  ultimately show ?thesis by (rule that)
qed

text \<open>Property: when \<open>OS\<close> or \<open>ARCH\<close> is unset, \<open>GetRuntimePair\<close>
  detects both from the runtime into the documented ranges, stores them and nothing
  else, and returns their concatenation, except \<open>osx\<close> alone on macOS.\<close>

theorem runtime_pair_detect:
  "OS t = [] \<or> ARCH t = [] \<Longrightarrow> GetRuntimePair e t = (k, t') \<Longrightarrow>
   OS t' \<in> {''osx'', ''linux'', ''win'', ''unknown''} \<and> ARCH t' \<in> {''64'', ''32'', ''unknown''} \<and>
   k = (if OS t' = ''osx'' then ''osx'' else OS t' @ ARCH t') \<and>
   t' = t\<lparr>OS := OS t', ARCH := ARCH t'\<rparr>"
  by (erule runtime_pair_detected_shape [where e = e]) auto

text \<open>C22: the key of a second call equals the key of the first
  exactly when the fields were already set or the host is not macOS: on macOS the first
  call answers \<open>osx\<close> and every later one \<open>osx64\<close> (or \<open>osx32\<close>, \<open>osxunknown\<close>).\<close>

theorem runtime_pair_key_stable:
  "fst (GetRuntimePair e (snd (GetRuntimePair e t))) = fst (GetRuntimePair e t) \<longleftrightarrow>
   (OS t \<noteq> [] \<and> ARCH t \<noteq> []) \<or> GOOS e \<noteq> ''darwin''"
proof (cases "OS t \<noteq> [] \<and> ARCH t \<noteq> []")
  case True
  then show ?thesis by simp
next
  case False
  then have "OS t = [] \<or> ARCH t = []" by simp
  then obtain os arch where os: "os \<in> {''osx'', ''linux'', ''win'', ''unknown''}"
    and arch: "arch \<in> {''64'', ''32'', ''unknown''}"
    and g: "GetRuntimePair e t = (if os \<noteq> ''osx'' then os @ arch else os, t\<lparr>OS := os, ARCH := arch\<rparr>)"
    by (rule runtime_pair_detected_shape)
  have osx: "os = ''osx'' \<longleftrightarrow> GOOS e = ''darwin''"
  proof -
    have "OS (snd (GetRuntimePair e t)) = os" using g by simp
    moreover have "OS (snd (GetRuntimePair e t)) = ''osx'' \<longleftrightarrow> GOOS e = ''darwin''"
      using False by (auto simp: GetRuntimePair_def Let_def)
    ultimately show ?thesis by simp
  qed
  have ne: "os \<noteq> [] \<and> arch \<noteq> []" using os arch by auto
  show ?thesis
  proof (cases "GOOS e = ''darwin''")
    case True
    with osx g ne False show ?thesis by simp
  next
    case False
    with osx g ne show ?thesis by simp
  qed
qed

lemma path_str_nonempty: "path_str p \<noteq> []"
  by (cases p) (auto simp: path_str_def)

lemma DefaultDir_set:
  "WORKING_DIR w \<noteq> [] \<Longrightarrow> DefaultDir w =
     (abs_path (cwd w) (WORKING_DIR w),
      if \<not> FileExists (fs w) (abs_path (cwd w) (WORKING_DIR w))
      then w\<lparr>fs := snd (mkdir_all (fs w) (abs_path (cwd w) (WORKING_DIR w)))\<rparr> else w)"
  by (simp add: DefaultDir_def Let_def)

text \<open>Property: \<open>DefaultDir\<close> is idempotent: a second call returns the same
  directory and changes nothing more.\<close>

theorem DefaultDir_idem:
  "DefaultDir (snd (DefaultDir w)) = DefaultDir w"
proof -
  define w1 where "w1 = (if WORKING_DIR w = [] then w\<lparr>WORKING_DIR := path_str (cwd w)\<rparr> else w)"
  define d where "d = abs_path (cwd w1) (WORKING_DIR w1)"
  have wd: "WORKING_DIR w1 \<noteq> []" by (simp add: w1_def path_str_nonempty)
  have dw: "DefaultDir w = (d, if \<not> FileExists (fs w1) d then w1\<lparr>fs := snd (mkdir_all (fs w1) d)\<rparr> else w1)"
    by (simp add: DefaultDir_def Let_def w1_def d_def)
  show ?thesis
  proof (cases "FileExists (fs w1) d")
    case True
    with dw have "snd (DefaultDir w) = w1" by simp
    with DefaultDir_set [OF wd] True dw show ?thesis by (simp add: d_def)
  next
    case False
    obtain r f' where m: "mkdir_all (fs w1) d = (r, f')" by fastforce
    then have idem: "mkdir_all f' d = (r, f')" by (rule mkdir_all_idem)
    let ?w2 = "w1\<lparr>fs := f'\<rparr>"
    from False dw m have s: "snd (DefaultDir w) = ?w2" by simp
    have "WORKING_DIR ?w2 \<noteq> []" using wd by simp
    from DefaultDir_set [OF this] idem have "DefaultDir ?w2 = (d, ?w2)" by (simp add: d_def)
    with s dw False m show ?thesis by simp
  qed
qed

text \<open>C28: with \<open>OS\<close> unset, \<open>NamePerPlatform\<close> chooses the
  extension before \<open>GetRuntimePair\<close> fills \<open>OS\<close> in, so the first name is always a
  \<open>.tar.xz\<close> name without \<open>-installer\<close>, also on Windows and macOS.\<close>

theorem name_per_platform_first_call:
  "OS t = [] \<Longrightarrow> NamePerPlatform e t ietf =
     (''torbrowser-'' @ fst (GetRuntimePair e t) @ ''-'' @ ietf @ ''.tar.xz'', snd (GetRuntimePair e t))"
  by (simp add: NamePerPlatform_def split: prod.splits)

subsection \<open>Witnesses\<close>

theorem runtime_pair_detect_witness:
  "GetRuntimePair (offline_env\<lparr>GOOS := ''darwin''\<rparr>)
     \<lparr>UnpackPath = [], DownloadPath = [], Lang = ''en-US'', OS = [], ARCH = [], Verbose = False,
      Profile = Map.empty\<rparr> =
   (''osx'', \<lparr>UnpackPath = [], DownloadPath = [], Lang = ''en-US'', OS = ''osx'', ARCH = ''64'',
      Verbose = False, Profile = Map.empty\<rparr>) \<and> ''osx'' \<in> {''osx'', ''linux'', ''win'', ''unknown''}"
proof -
  let ?e = "offline_env\<lparr>GOOS := ''darwin''\<rparr>"
  let ?t = "\<lparr>UnpackPath = [], DownloadPath = [], Lang = ''en-US'', OS = [], ARCH = [], Verbose = False,
      Profile = Map.empty :: string \<rightharpoonup> bytes\<rparr>"
  have g: "GetRuntimePair ?e ?t = (''osx'', ?t\<lparr>OS := ''osx'', ARCH := ''64''\<rparr>)"
    by (simp add: GetRuntimePair_def offline_env_def Let_def)
  have "OS ?t = [] \<or> ARCH ?t = []" by simp
  from runtime_pair_detect [OF this g] g show ?thesis by simp
qed

theorem runtime_pair_key_stable_witness:
  "fst (GetRuntimePair (offline_env\<lparr>GOOS := ''darwin''\<rparr>)
      (snd (GetRuntimePair (offline_env\<lparr>GOOS := ''darwin''\<rparr>)
        \<lparr>UnpackPath = [], DownloadPath = [], Lang = ''en-US'', OS = [], ARCH = [], Verbose = False,
         Profile = Map.empty\<rparr>))) \<noteq>
   fst (GetRuntimePair (offline_env\<lparr>GOOS := ''darwin''\<rparr>)
        \<lparr>UnpackPath = [], DownloadPath = [], Lang = ''en-US'', OS = [], ARCH = [], Verbose = False,
         Profile = Map.empty\<rparr>)"
  using runtime_pair_key_stable [of "offline_env\<lparr>GOOS := ''darwin''\<rparr>"
      "\<lparr>UnpackPath = [], DownloadPath = [], Lang = ''en-US'', OS = [], ARCH = [], Verbose = False,
         Profile = Map.empty\<rparr>"]
  by simp

theorem name_per_platform_first_call_witness:
  "NamePerPlatform (offline_env\<lparr>GOOS := ''windows''\<rparr>)
     \<lparr>UnpackPath = [], DownloadPath = [], Lang = ''en-US'', OS = [], ARCH = [], Verbose = False,
      Profile = Map.empty\<rparr> ''en-US'' =
   (''torbrowser-win64-en-US.tar.xz'', \<lparr>UnpackPath = [], DownloadPath = [], Lang = ''en-US'',
      OS = ''win'', ARCH = ''64'', Verbose = False, Profile = Map.empty\<rparr>)"
proof -
  let ?e = "offline_env\<lparr>GOOS := ''windows''\<rparr>"
  let ?t = "\<lparr>UnpackPath = [], DownloadPath = [], Lang = ''en-US'', OS = [], ARCH = [], Verbose = False,
      Profile = Map.empty :: string \<rightharpoonup> bytes\<rparr>"
  have "OS ?t = []" by simp
  from name_per_platform_first_call [OF this, of ?e "''en-US''"]
  have n: "NamePerPlatform ?e ?t ''en-US'' =
     (''torbrowser-'' @ fst (GetRuntimePair ?e ?t) @ ''-'' @ ''en-US'' @ ''.tar.xz'', snd (GetRuntimePair ?e ?t))" .
  have g: "GetRuntimePair ?e ?t = (''win64'', ?t\<lparr>OS := ''win'', ARCH := ''64''\<rparr>)"
    by (simp add: GetRuntimePair_def offline_env_def Let_def)
  from n g show ?thesis by simp
qed

end
