(* ===== verification/Bootstrap.thy ===== *)
theory Bootstrap
  imports Platform
begin

text \<open>
  First-run bootstrap (get.go, \<open>MakeTBDirectory\<close>): create the download directory,
  copy the trusted signing key out of the embedded assets unless a key file is already
  there, and do the same for the browser extension (written to both the unpack and the
  download directory). Reading an embedded asset or writing a file that fails ends the
  process (\<open>log.Fatal\<close>); the \<open>MkdirAll\<close> errors are ignored, as in the code.
\<close>

section \<open>Definitions\<close>

definition key_path :: "TBDownloader \<Rightarrow> path" where
  "key_path t = join (DownloadPath t) ''TPO-signing-key.pub''"

definition xpi_download_path :: "TBDownloader \<Rightarrow> path" where
  "xpi_download_path t = join (DownloadPath t) ''awo@eyedeekay.github.io.xpi''"

definition xpi_unpack_path :: "TBDownloader \<Rightarrow> path" where
  "xpi_unpack_path t = join (UnpackPath t) ''awo@eyedeekay.github.io.xpi''"

text \<open>The signing-key block of \<open>MakeTBDirectory\<close> (mode \<open>0644\<close> = 420).\<close>

definition make_key :: "TBDownloader \<Rightarrow> fsys \<Rightarrow> unit outcome \<times> fsys" where
  "make_key t f =
     (if \<not> FileExists f (key_path t) then
        (case Profile t ''tor-browser/TPO-signing-key.pub'' of
           None \<Rightarrow> (Abort (Fatal ''open tor-browser/TPO-signing-key.pub: file does not exist''), f)
         | Some b \<Rightarrow>
             (case write_file f (key_path t) b 420 of
                (Some err, f1) \<Rightarrow> (Abort (Fatal err), f1)
              | (None, f1) \<Rightarrow> (Ret (), f1)))
      else (Ret (), f))"

text \<open>The extension block: \<open>filepath.Dir\<close> of a joined path is its parent.\<close>

definition make_xpi :: "TBDownloader \<Rightarrow> fsys \<Rightarrow> unit outcome \<times> fsys" where
  "make_xpi t f =
     (if \<not> FileExists f (xpi_unpack_path t) then
        (case Profile t ''tor-browser/unpack/awo@eyedeekay.github.io.xpi'' of
           None \<Rightarrow> (Abort (Fatal ''open tor-browser/unpack/awo@eyedeekay.github.io.xpi: file does not exist''), f)
         | Some b \<Rightarrow>
             (let f1 = snd (mkdir_all f (butlast (xpi_download_path t)));
                  f2 = snd (mkdir_all f1 (butlast (xpi_unpack_path t)))
              in case write_file f2 (xpi_unpack_path t) b 420 of
                   (Some err, f3) \<Rightarrow> (Abort (Fatal err), f3)
                 | (None, f3) \<Rightarrow>
                     (case write_file f3 (xpi_download_path t) b 420 of
                        (Some err, f4) \<Rightarrow> (Abort (Fatal err), f4)
                      | (None, f4) \<Rightarrow> (Ret (), f4))))
      else (Ret (), f))"

definition MakeTBDirectory :: "TBDownloader \<Rightarrow> world \<Rightarrow> unit outcome \<times> world" where
  "MakeTBDirectory t w =
     (let f0 = snd (mkdir_all (fs w) (DownloadPath t));
          (r, f) = obind (make_key t f0) (\<lambda>_ f1. make_xpi t f1)
      in (r, w\<lparr>fs := f\<rparr>))"

text \<open>The state after a successful bootstrap: both files present, the directory made.\<close>

definition bootstrapped :: "TBDownloader \<Rightarrow> fsys \<Rightarrow> bool" where
  "bootstrapped t f \<longleftrightarrow> FileExists f (key_path t) \<and> FileExists f (xpi_unpack_path t) \<and>
     snd (mkdir_all f (DownloadPath t)) = f"

text \<open>A downloader below \<open>/tb\<close> and \<open>/up\<close> whose embedded assets hold both files.\<close>

definition sample_downloader :: TBDownloader where
  "sample_downloader = \<lparr>UnpackPath = [''up''], DownloadPath = [''tb''], Lang = ''en-US'',
     OS = ''linux'', ARCH = ''64'', Verbose = False,
     Profile = [''tor-browser/TPO-signing-key.pub'' \<mapsto> ''KEY'',
                ''tor-browser/unpack/awo@eyedeekay.github.io.xpi'' \<mapsto> ''XPI'']\<rparr>"

section \<open>Lemmas\<close>

lemma key_path_simple: "key_path t = DownloadPath t @ [''TPO-signing-key.pub'']"
  by (simp add: key_path_def join_simple)

lemma xpi_paths_simple:
  "xpi_download_path t = DownloadPath t @ [''awo@eyedeekay.github.io.xpi'']"
  "xpi_unpack_path t = UnpackPath t @ [''awo@eyedeekay.github.io.xpi'']"
  by (simp_all add: xpi_download_path_def xpi_unpack_path_def join_simple)

lemma key_path_not_xpi: "key_path t \<noteq> xpi_download_path t" "key_path t \<noteq> xpi_unpack_path t"
  by (simp_all add: key_path_simple xpi_paths_simple)

lemma make_key_grows: "make_key t f = (r, f') \<Longrightarrow> fs_grows f f'"
  by (auto simp: make_key_def fs_grows_refl dest: write_file_grows
           split: if_splits option.splits prod.splits)

lemma make_xpi_grows: "make_xpi t f = (r, f') \<Longrightarrow> fs_grows f f'"
proof -
  assume run: "make_xpi t f = (r, f')"
  obtain e1 f1 where m1: "mkdir_all f (butlast (xpi_download_path t)) = (e1, f1)" by fastforce
  obtain e2 f2 where m2: "mkdir_all f1 (butlast (xpi_unpack_path t)) = (e2, f2)" by fastforce
  have g12: "fs_grows f f2" using m1 m2 by (blast intro: fs_grows_trans mkdir_all_grows)
  show ?thesis
    using run m1 m2 g12
    by (auto simp: make_xpi_def Let_def fs_grows_refl
             intro: fs_grows_trans dest!: write_file_grows
             split: if_splits option.splits prod.splits)
qed

lemma make_key_exists: "make_key t f = (Ret (), f') \<Longrightarrow> FileExists f' (key_path t)"
  by (auto simp: make_key_def dest!: write_file_ok intro: FileExists_Some
           split: if_splits option.splits prod.splits)

lemma make_xpi_exists: "make_xpi t f = (Ret (), f') \<Longrightarrow> FileExists f' (xpi_unpack_path t)"
proof -
  assume run: "make_xpi t f = (Ret (), f')"
  show ?thesis
  proof (cases "FileExists f (xpi_unpack_path t)")
    case True
    with run show ?thesis by (simp add: make_xpi_def)
  next
    case False
    obtain f2 where "f2 = snd (mkdir_all (snd (mkdir_all f (butlast (xpi_download_path t))))
                                          (butlast (xpi_unpack_path t)))" by simp
    with run False obtain b f3 where
      w3: "write_file f2 (xpi_unpack_path t) b 420 = (None, f3)" and
      w4: "write_file f3 (xpi_download_path t) b 420 = (None, f')"
      by (auto simp: make_xpi_def Let_def split: option.splits prod.splits)
    from write_file_ok [OF w3] have "FileExists f3 (xpi_unpack_path t)"
      by (auto intro: FileExists_Some)
    with write_file_grows [OF w4] show ?thesis by (rule FileExists_grows)
  qed
qed


lemma MakeTBDirectory_Ret:
  assumes "MakeTBDirectory t w = (Ret (), w')"
  obtains e0 f0 f1 where "mkdir_all (fs w) (DownloadPath t) = (e0, f0)"
    and "make_key t f0 = (Ret (), f1)" and "make_xpi t f1 = (Ret (), fs w')"
    and "w' = w\<lparr>fs := fs w'\<rparr>"
proof -
  obtain e0 f0 where m: "mkdir_all (fs w) (DownloadPath t) = (e0, f0)" by fastforce
  obtain r1 f1 where k: "make_key t f0 = (r1, f1)" by fastforce
  obtain r2 f2 where x: "make_xpi t f1 = (r2, f2)" by fastforce
  show ?thesis
  proof (cases r1)
    case (Ret u)
    with assms m k x have "r2 = Ret ()" "w' = w\<lparr>fs := f2\<rparr>"
      by (simp_all add: MakeTBDirectory_def)
    with m k x Ret show ?thesis by (intro that) simp_all
  next
    case (Abort a)
    with assms m k show ?thesis by (simp add: MakeTBDirectory_def)
  qed
qed

lemma bootstrapped_noop: "bootstrapped t (fs w) \<Longrightarrow> MakeTBDirectory t w = (Ret (), w)"
  by (simp add: bootstrapped_def MakeTBDirectory_def make_key_def make_xpi_def)

lemma make_tb_bootstraps:
  assumes "MakeTBDirectory t w = (Ret (), w')"
  shows "bootstrapped t (fs w')"
proof -
  from assms obtain e0 f0 f1 where m: "mkdir_all (fs w) (DownloadPath t) = (e0, f0)"
    and k: "make_key t f0 = (Ret (), f1)" and x: "make_xpi t f1 = (Ret (), fs w')"
    by (rule MakeTBDirectory_Ret)
  have g1: "fs_grows f1 (fs w')" using x by (rule make_xpi_grows)
  have g0: "fs_grows f0 (fs w')" using make_key_grows [OF k] g1 by (rule fs_grows_trans)
  have "FileExists (fs w') (key_path t)" using g1 make_key_exists [OF k] by (rule FileExists_grows)
  moreover have "FileExists (fs w') (xpi_unpack_path t)" using x by (rule make_xpi_exists)
  moreover have "mkdir_all (fs w') (DownloadPath t) = (e0, fs w')" using m g0 by (rule mkdir_all_replay)
  ultimately show ?thesis by (simp add: bootstrapped_def)
qed

lemma make_key_wf: "fs_wf f \<Longrightarrow> make_key t f = (r, f') \<Longrightarrow> fs_wf f'"
  by (auto simp: make_key_def dest: write_file_wf split: if_splits option.splits prod.splits)

lemma make_xpi_wf: "fs_wf f \<Longrightarrow> make_xpi t f = (r, f') \<Longrightarrow> fs_wf f'"
proof -
  assume wf: "fs_wf f" and run: "make_xpi t f = (r, f')"
  obtain e1 f1 where m1: "mkdir_all f (butlast (xpi_download_path t)) = (e1, f1)" by fastforce
  obtain e2 f2 where m2: "mkdir_all f1 (butlast (xpi_unpack_path t)) = (e2, f2)" by fastforce
  have wf2: "fs_wf f2" using mkdir_all_wf [OF mkdir_all_wf [OF wf m1] m2] .
  show ?thesis
    using run m1 m2 wf wf2
    by (auto simp: make_xpi_def Let_def dest!: write_file_wf [rotated]
             split: if_splits option.splits prod.splits)
qed

lemma bootstrapped_grows:
  assumes b: "bootstrapped t f" and g: "fs_grows f f'"
  shows "bootstrapped t f'"
proof -
  obtain r where m: "mkdir_all f (DownloadPath t) = (r, f)"
    using b by (metis bootstrapped_def prod.collapse)
  from b g show ?thesis
    using mkdir_all_replay [OF m g] by (auto simp: bootstrapped_def intro: FileExists_grows)
qed

lemma MakeTBDirectory_other_fields [simp]:
  "fetched (snd (MakeTBDirectory t w)) = fetched w"
  "ran (snd (MakeTBDirectory t w)) = ran w"
  "slept (snd (MakeTBDirectory t w)) = slept w"
  by (simp_all add: MakeTBDirectory_def split: prod.splits)

text \<open>Property: once \<open>MakeTBDirectory\<close> has succeeded, calling it again
  succeeds and changes nothing.\<close>

theorem make_tb_idem:
  "MakeTBDirectory t w = (Ret (), w') \<Longrightarrow> MakeTBDirectory t w' = (Ret (), w')"
  by (rule bootstrapped_noop) (rule make_tb_bootstraps)

lemma make_xpi_frame:
  "make_xpi t f = (r, f') \<Longrightarrow> p \<noteq> xpi_unpack_path t \<Longrightarrow> p \<noteq> xpi_download_path t \<Longrightarrow>
   f p = Some n \<Longrightarrow> f' p = Some n"
  unfolding make_xpi_def Let_def
  by (auto dest!: write_file_ok write_file_err simp: mkdir_all_keeps
           split: if_splits option.splits prod.splits)

text \<open>C23: a key file already on disk is never overwritten by the
  bootstrap, whatever it contains.\<close>

theorem make_tb_key_kept:
  assumes "fs w (key_path t) = Some n"
  shows "fs (snd (MakeTBDirectory t w)) (key_path t) = Some n"
proof -
  obtain e0 f0 where m: "mkdir_all (fs w) (DownloadPath t) = (e0, f0)" by fastforce
  have f0: "f0 (key_path t) = Some n" using m assms unfolding mkdir_all_def by (rule mkdirs_keeps)
  then have k: "make_key t f0 = (Ret (), f0)" by (simp add: make_key_def FileExists_Some)
  obtain r f' where x: "make_xpi t f0 = (r, f')" by fastforce
  from make_xpi_frame [OF x key_path_not_xpi(2) key_path_not_xpi(1) f0]
  have "f' (key_path t) = Some n" .
  with m k x show ?thesis by (simp add: MakeTBDirectory_def)
qed


text \<open>C24: when no key file exists, a successful bootstrap leaves
  exactly the embedded key there, with mode 0644.\<close>

theorem make_tb_installs_key:
  assumes nex: "\<not> FileExists (fs w) (key_path t)"
    and prof: "Profile t ''tor-browser/TPO-signing-key.pub'' = Some b"
    and run: "MakeTBDirectory t w = (Ret (), w')"
  shows "fs w' (key_path t) = Some (File b 420)"
proof -
  from run obtain e0 f0 f1 where m: "mkdir_all (fs w) (DownloadPath t) = (e0, f0)"
    and k: "make_key t f0 = (Ret (), f1)" and x: "make_xpi t f1 = (Ret (), fs w')"
    by (rule MakeTBDirectory_Ret)
  have np: "\<not> prefix (key_path t) (DownloadPath t)"
    by (simp add: key_path_simple prefix_def)
  have nex0: "\<not> FileExists f0 (key_path t)"
    using mkdir_all_FileExists [OF m _ np] nex by blast
  with k prof have w: "write_file f0 (key_path t) b 420 = (None, f1)"
    by (auto simp: make_key_def split: option.splits prod.splits)
  have "f1 (key_path t) = Some (File b 420)"
    using w not_FileExists_None [OF nex0] by (rule write_file_None_new)
  from make_xpi_frame [OF x key_path_not_xpi(2) key_path_not_xpi(1) this] show ?thesis .
qed



lemma make_tb_keeps_wf:
  assumes wf: "fs_wf (fs w)"
  shows "fs_wf (fs (snd (MakeTBDirectory t w)))"
proof -
  obtain e0 f0 where m: "mkdir_all (fs w) (DownloadPath t) = (e0, f0)" by fastforce
  obtain r1 f1 where k: "make_key t f0 = (r1, f1)" by fastforce
  obtain r2 f2 where x: "make_xpi t f1 = (r2, f2)" by fastforce
  have wf0: "fs_wf f0" using mkdir_all_wf [OF wf m] .
  have wf1: "fs_wf f1" using make_key_wf [OF wf0 k] .
  have wf2: "fs_wf f2" using make_xpi_wf [OF wf1 x] .
  show ?thesis using m k x wf1 wf2 by (cases r1) (simp_all add: MakeTBDirectory_def)
qed

lemma make_tb_steady [steady_rules]: "steady w (snd (MakeTBDirectory t w))"
  by (simp add: steady_def make_tb_keeps_wf)

text \<open>Property: the bootstrap keeps the file system well formed, whatever its outcome.\<close>

theorem make_tb_wf:
  assumes "fs_wf (fs w)"
  shows "fs_wf (fs (snd (MakeTBDirectory t w)))"
  using assms by (rule make_tb_keeps_wf)

subsection \<open>Witnesses\<close>

lemma sample_bootstrap_runs:
  "MakeTBDirectory sample_downloader fresh_world =
     (Ret (), snd (MakeTBDirectory sample_downloader fresh_world))"
proof -
  have "fst (MakeTBDirectory sample_downloader fresh_world) = Ret ()"
    by (simp add: MakeTBDirectory_def make_key_def make_xpi_def key_path_simple xpi_paths_simple
        fresh_world_def sample_downloader_def mkdir_all_def FileExists_def stat_def is_file_def
        write_file_def)
  then show ?thesis by (metis prod.collapse)
qed

theorem make_tb_idem_witness:
  "MakeTBDirectory sample_downloader (snd (MakeTBDirectory sample_downloader fresh_world)) =
     (Ret (), snd (MakeTBDirectory sample_downloader fresh_world))"
  by (rule make_tb_idem [OF sample_bootstrap_runs])

theorem make_tb_key_kept_witness:
  "fs (snd (MakeTBDirectory sample_downloader
      (fresh_world\<lparr>fs := [[] \<mapsto> Dir, [''tb''] \<mapsto> Dir, [''tb'', ''TPO-signing-key.pub''] \<mapsto> File ''USERKEY'' 384]\<rparr>)))
      (key_path sample_downloader) = Some (File ''USERKEY'' 384)"
proof -
  let ?w = "fresh_world\<lparr>fs := [[] \<mapsto> Dir, [''tb''] \<mapsto> Dir, [''tb'', ''TPO-signing-key.pub''] \<mapsto> File ''USERKEY'' 384]\<rparr>"
  have "fs ?w (key_path sample_downloader) = Some (File ''USERKEY'' 384)"
    by (simp add: key_path_simple sample_downloader_def)
  from make_tb_key_kept [OF this] show ?thesis by simp
qed

theorem make_tb_installs_key_witness:
  "\<not> FileExists (fs fresh_world) (key_path sample_downloader) \<and>
   fs (snd (MakeTBDirectory sample_downloader fresh_world)) (key_path sample_downloader) =
     Some (File ''KEY'' 420)"
proof -
  have nex: "\<not> FileExists (fs fresh_world) (key_path sample_downloader)"
    by (simp add: key_path_simple sample_downloader_def fresh_world_def FileExists_def stat_def is_file_def)
  have prof: "Profile sample_downloader ''tor-browser/TPO-signing-key.pub'' = Some ''KEY''"
    by (simp add: sample_downloader_def)
  from make_tb_installs_key [OF nex prof sample_bootstrap_runs] nex show ?thesis by simp
qed


theorem make_tb_wf_witness:
  "fs_wf (fs (snd (MakeTBDirectory sample_downloader fresh_world)))"
proof -
  have "fs_wf (fs fresh_world)" by (simp add: fs_wf_def fresh_world_def)
  then show ?thesis by (rule make_tb_wf)
qed

end
