(* ===== verification/Manifest.thy ===== *)
theory Manifest
  imports Bootstrap
begin

text \<open>
  The manifest resolver (get.go): \<open>GetUpdater\<close>, \<open>GetUpdaterForLang\<close>,
  \<open>GetUpdaterForLangFromJSON\<close> and \<open>GetUpdaterForLangFromJSONBytes\<close>. The JSON
  document is decoded by the library (an oracle of the environment) into Go maps;
  every lookup and type assertion of the code is explicit, a failed single-valued
  assertion being a panic. The fallback to the default language recurses without a
  bound, so the resolver is a \<open>partial_function (option)\<close>: \<open>None\<close> is the run
  that never returns (in Go: a stack overflow that kills the process).
\<close>

section \<open>Decoded JSON as Go maps\<close>

text \<open>A JSON object as a Go map: with duplicate keys the last one wins.\<close>

definition obj_lookup :: "(string \<times> json) list \<Rightarrow> string \<rightharpoonup> json" where
  "obj_lookup kvs = map_of (rev kvs)"

text \<open>\<open>json.Unmarshal\<close> into \<open>map[string]interface{}\<close>: \<open>null\<close> gives a nil map.\<close>

definition unmarshal_map :: "goerror + json \<Rightarrow> goerror + (string \<rightharpoonup> json)" where
  "unmarshal_map r = (case r of
      Inl e \<Rightarrow> Inl e
    | Inr (JObj kvs) \<Rightarrow> Inr (obj_lookup kvs)
    | Inr JNull \<Rightarrow> Inr Map.empty
    | Inr _ \<Rightarrow> Inl ''json: cannot unmarshal into Go value of type map[string]interface {}'')"

text \<open>The assertion \<open>x.(map[string]interface{})\<close>.\<close>

definition as_map :: "json \<Rightarrow> (string \<rightharpoonup> json) option" where
  "as_map j = (case j of JObj kvs \<Rightarrow> Some (obj_lookup kvs) | _ \<Rightarrow> None)"

text \<open>The assertion \<open>m[k].(string)\<close>: a missing key is a nil interface, which fails too.\<close>

definition as_string :: "json option \<Rightarrow> string option" where
  "as_string j = (case j of Some (JStr s) \<Rightarrow> Some s | _ \<Rightarrow> None)"

text \<open>\<open>strings.Split(ietf, "-")[0]\<close>.\<close>

definition lang_prefix :: "string \<Rightarrow> string" where
  "lang_prefix ietf = hd (split_on (CHR ''-'') ietf)"

text \<open>The return statement of a found entry: \<open>binary\<close> is asserted first, then \<open>sig\<close>.\<close>

definition updater_urls :: "json \<Rightarrow> (goerror + string \<times> string) outcome" where
  "updater_urls lu = (case as_map lu of
      None \<Rightarrow> Abort (Panic ''interface conversion: interface {} is not map[string]interface {}'')
    | Some m \<Rightarrow> (case as_string (m ''binary'') of
        None \<Rightarrow> Abort (Panic ''interface conversion: interface {} is not string'')
      | Some b \<Rightarrow> (case as_string (m ''sig'') of
          None \<Rightarrow> Abort (Panic ''interface conversion: interface {} is not string'')
        | Some s \<Rightarrow> Ret (Inr (b, s)))))"

type_synonym resolution = "(goerror + string \<times> string) outcome \<times> TBDownloader \<times> world"

section \<open>The resolver\<close>

partial_function (option) GetUpdaterForLangFromJSONBytes ::
  "env \<Rightarrow> bytes \<Rightarrow> string \<Rightarrow> TBDownloader \<Rightarrow> world \<Rightarrow> resolution option" where
  "GetUpdaterForLangFromJSONBytes e jb ietf t w =
     (case MakeTBDirectory t w of
        (Abort a, w1) \<Rightarrow> Some (Abort a, t, w1)
      | (Ret _, w1) \<Rightarrow>
        (case unmarshal_map (json_decode e jb) of
           Inl err \<Rightarrow> Some (Ret (Inl (errorf ''func (t *TBDownloader)Name'' err)), t, w1)
         | Inr dat \<Rightarrow>
           (case dat ''downloads'' of
              None \<Rightarrow> Some (Ret (Inl (errorf ''t.GetUpdaterForLangFromJSONBytes'' ietf)), t, w1)
            | Some platform \<Rightarrow>
              (case GetRuntimePair e t of (rtp, t1) \<Rightarrow>
                (case as_map platform of
                   None \<Rightarrow> Some (Abort (Panic ''interface conversion: interface {} is not map[string]interface {}''), t1, w1)
                 | Some pm \<Rightarrow>
                   (case pm rtp of
                      None \<Rightarrow> Some (Ret (Inl (''t.GetUpdaterForLangFromJSONBytes: no updater for platform '' @ rtp)), t1, w1)
                    | Some updater \<Rightarrow>
                      (case as_map updater of
                         None \<Rightarrow> Some (Abort (Panic ''interface conversion: interface {} is not map[string]interface {}''), t1, w1)
                       | Some um \<Rightarrow>
                         (case um ietf of
                            Some lu \<Rightarrow> Some (updater_urls lu, t1, w1)
                          | None \<Rightarrow>
                            (case um (lang_prefix ietf) of
                               Some lu \<Rightarrow> Some (updater_urls lu, t1, w1)
                             | None \<Rightarrow> GetUpdaterForLangFromJSONBytes e jb (Lang t1) t1 w1)))))))))"


definition GetUpdaterForLangFromJSON ::
  "env \<Rightarrow> goerror + bytes \<Rightarrow> string \<Rightarrow> TBDownloader \<Rightarrow> world \<Rightarrow> resolution option" where
  "GetUpdaterForLangFromJSON e body ietf t w =
     (case body of
        Inl err \<Rightarrow> Some (Ret (Inl (errorf ''t.GetUpdaterForLangFromJSON'' err)), t, w)
      | Inr jb \<Rightarrow>
          (case MakeTBDirectory t w of
             (Abort a, w1) \<Rightarrow> Some (Abort a, t, w1)
           | (Ret _, w1) \<Rightarrow>
               (case write_file (fs w1) (join (DownloadPath t) ''downloads.json'') jb 420 of
                  (Some err, f) \<Rightarrow>
                    Some (Ret (Inl (errorf ''t.GetUpdaterForLangFromJSON'' err)), t, w1\<lparr>fs := f\<rparr>)
                | (None, f) \<Rightarrow> GetUpdaterForLangFromJSONBytes e jb ietf t (w1\<lparr>fs := f\<rparr>))))"

definition GetUpdaterForLang :: "env \<Rightarrow> string \<Rightarrow> TBDownloader \<Rightarrow> world \<Rightarrow> resolution option" where
  "GetUpdaterForLang e ietf t w =
     (case http_get_w e TOR_UPDATES_URL w of
        (Inl err, w1) \<Rightarrow> Some (Ret (Inl (errorf ''t.GetUpdaterForLang'' err)), t, w1)
      | (Inr body, w1) \<Rightarrow> GetUpdaterForLangFromJSON e (Inr body) ietf t w1)"

definition GetUpdater :: "env \<Rightarrow> TBDownloader \<Rightarrow> world \<Rightarrow> resolution option" where
  "GetUpdater e t w = GetUpdaterForLang e (Lang t) t w"

text \<open>
  The updater map the code reaches for a platform key: the document decodes to a map,
  its \<open>downloads\<close> entry and the key's entry are objects.
\<close>

definition manifest_updater :: "env \<Rightarrow> bytes \<Rightarrow> string \<Rightarrow> (string \<rightharpoonup> json) option" where
  "manifest_updater e jb key =
     (case unmarshal_map (json_decode e jb) of
        Inl _ \<Rightarrow> None
      | Inr dat \<Rightarrow> (case dat ''downloads'' of
          None \<Rightarrow> None
        | Some p \<Rightarrow> (case as_map p of
            None \<Rightarrow> None
          | Some pm \<Rightarrow> (case pm key of None \<Rightarrow> None | Some u \<Rightarrow> as_map u))))"

text \<open>
  The resolution order the spec prescribes (its section 3), over the language map of the
  platform key: the exact tag, else its primary subtag; then the same for the default
  language; \<open>None\<close> is its \<open>LanguageUnresolved\<close>.
\<close>

definition spec_lookup :: "(string \<rightharpoonup> json) \<Rightarrow> string \<Rightarrow> json option" where
  "spec_lookup um tag = (case um tag of Some lu \<Rightarrow> Some lu | None \<Rightarrow> um (lang_prefix tag))"

definition spec_resolve :: "(string \<rightharpoonup> json) \<Rightarrow> string \<Rightarrow> string \<Rightarrow> json option" where
  "spec_resolve um ietf dflt = (case spec_lookup um ietf of Some lu \<Rightarrow> Some lu | None \<Rightarrow> spec_lookup um dflt)"

text \<open>Sample manifests and an environment that serves them.\<close>

definition entry :: "string \<Rightarrow> json" where
  "entry u = JObj [(''binary'', JStr u), (''sig'', JStr (u @ ''.asc''))]"

definition sample_manifest :: json where
  "sample_manifest = JObj [(''downloads'', JObj [(''linux64'', JObj [
     (''en-US'', entry ''https://dist/en-US.tar.xz''),
     (''fr'', entry ''https://dist/fr.tar.xz''),
     (''de'', JObj [(''binary'', JStr ''https://dist/de.tar.xz'')])])])]"

definition fr_only_manifest :: json where
  "fr_only_manifest = JObj [(''downloads'', JObj [(''linux64'', JObj [(''fr'', entry ''https://dist/fr.tar.xz'')])])]"

definition manifest_env :: "json \<Rightarrow> env" where
  "manifest_env j = offline_env\<lparr>http_get := (\<lambda>_. Inr ''{}''), json_decode := (\<lambda>_. Inr j)\<rparr>"

section \<open>One level of the resolver\<close>

lemma Lang_runtime_pair [simp]: "Lang (snd (GetRuntimePair e t)) = Lang t"
  by (simp add: GetRuntimePair_def Let_def)

lemma paths_runtime_pair [simp]:
  "DownloadPath (snd (GetRuntimePair e t)) = DownloadPath t"
  "UnpackPath (snd (GetRuntimePair e t)) = UnpackPath t"
  "Profile (snd (GetRuntimePair e t)) = Profile t"
  by (simp_all add: GetRuntimePair_def Let_def)

lemma runtime_pair_stable [simp]:
  "snd (GetRuntimePair e (snd (GetRuntimePair e t))) = snd (GetRuntimePair e t)"
  by (auto simp: GetRuntimePair_def Let_def)

lemma MakeTBDirectory_cong:
  assumes "DownloadPath t' = DownloadPath t" "UnpackPath t' = UnpackPath t" "Profile t' = Profile t"
  shows "MakeTBDirectory t' w = MakeTBDirectory t w"
  unfolding MakeTBDirectory_def make_key_def make_xpi_def key_path_def xpi_download_path_def
    xpi_unpack_path_def by (simp only: assms)

lemma resolve_found:
  assumes "MakeTBDirectory t w = (Ret (), w1)" and "GetRuntimePair e t = (rtp, t1)"
    and "manifest_updater e jb rtp = Some um" and "um l = Some lu"
  shows "GetUpdaterForLangFromJSONBytes e jb l t w = Some (updater_urls lu, t1, w1)"
  using assms by (subst GetUpdaterForLangFromJSONBytes.simps)
    (auto simp: manifest_updater_def split: sum.splits option.splits)

lemma resolve_prefix_found:
  assumes "MakeTBDirectory t w = (Ret (), w1)" and "GetRuntimePair e t = (rtp, t1)"
    and "manifest_updater e jb rtp = Some um" and "um l = None" and "um (lang_prefix l) = Some lu"
  shows "GetUpdaterForLangFromJSONBytes e jb l t w = Some (updater_urls lu, t1, w1)"
  using assms by (subst GetUpdaterForLangFromJSONBytes.simps)
    (auto simp: manifest_updater_def split: sum.splits option.splits)

lemma resolve_recurs:
  assumes "MakeTBDirectory t w = (Ret (), w1)" and "GetRuntimePair e t = (rtp, t1)"
    and "manifest_updater e jb rtp = Some um" and "um l = None" and "um (lang_prefix l) = None"
  shows "GetUpdaterForLangFromJSONBytes e jb l t w = GetUpdaterForLangFromJSONBytes e jb (Lang t) t1 w1"
proof -
  have "Lang t1 = Lang t" using assms(2) Lang_runtime_pair [of e t] by simp
  with assms show ?thesis by (subst GetUpdaterForLangFromJSONBytes.simps)
    (auto simp: manifest_updater_def split: sum.splits option.splits)
qed

lemma resolve_None_recurs:
  assumes "GetUpdaterForLangFromJSONBytes e jb l t w = None"
  obtains w1 um where "MakeTBDirectory t w = (Ret (), w1)"
    and "manifest_updater e jb (fst (GetRuntimePair e t)) = Some um"
    and "um l = None" and "um (lang_prefix l) = None"
    and "GetUpdaterForLangFromJSONBytes e jb (Lang t) (snd (GetRuntimePair e t)) w1 = None"
proof -
  obtain r w1 where mk: "MakeTBDirectory t w = (r, w1)" by fastforce
  obtain rtp t1 where g: "GetRuntimePair e t = (rtp, t1)" by fastforce
  have "Lang t1 = Lang t" using g Lang_runtime_pair [of e t] by simp
  with assms mk g show ?thesis
    by (subst (asm) GetUpdaterForLangFromJSONBytes.simps)
      (auto intro: that simp: manifest_updater_def split: outcome.splits sum.splits option.splits)
qed




section \<open>Termination of the language fallback\<close>

lemma manifest_updater_Some:
  assumes "manifest_updater e jb key = Some um"
  obtains dat p pm u where "unmarshal_map (json_decode e jb) = Inr dat" and "dat ''downloads'' = Some p"
    and "as_map p = Some pm" and "pm key = Some u" and "as_map u = Some um"
  using assms by (auto simp: manifest_updater_def split: sum.splits option.splits)

text \<open>A level that recurses into itself never returns.\<close>

lemma resolve_loop_None:
  assumes mk: "MakeTBDirectory t w = (Ret (), w)" and g: "GetRuntimePair e t = (rtp, t)"
    and mu: "manifest_updater e jb rtp = Some um"
    and n1: "um (Lang t) = None" and n2: "um (lang_prefix (Lang t)) = None"
  shows "GetUpdaterForLangFromJSONBytes e jb (Lang t) t w = None"
proof (rule ccontr)
  assume "GetUpdaterForLangFromJSONBytes e jb (Lang t) t w \<noteq> None"
  then obtain r where ret: "GetUpdaterForLangFromJSONBytes e jb (Lang t) t w = Some r" by blast
  from mu obtain dat p pm u where d: "unmarshal_map (json_decode e jb) = Inr dat"
    and "dat ''downloads'' = Some p" and "as_map p = Some pm" and "pm rtp = Some u"
    and "as_map u = Some um" by (rule manifest_updater_Some)
  note facts = mk g d this n1 n2
  have "\<not> (e = e \<and> jb = jb \<and> Lang t = Lang t \<and> t = t \<and> w = w)"
    apply (rule GetUpdaterForLangFromJSONBytes.raw_induct
        [where P = "\<lambda>e' jb' l' t' w' r. \<not> (e' = e \<and> jb' = jb \<and> l' = Lang t \<and> t' = t \<and> w' = w)", OF _ ret])
    apply clarify
    apply (simp add: facts)
    apply blast
    done
  then show False by simp
qed


lemma bootstrap_again:
  assumes "MakeTBDirectory t w = (Ret (), w1)"
  shows "MakeTBDirectory (snd (GetRuntimePair e t)) w1 = (Ret (), w1)"
proof -
  have "MakeTBDirectory (snd (GetRuntimePair e t)) w1 = MakeTBDirectory t w1"
    by (rule MakeTBDirectory_cong) simp_all
  also have "\<dots> = (Ret (), w1)" by (rule bootstrapped_noop [OF make_tb_bootstraps [OF assms]])
  finally show ?thesis .
qed

text \<open>C6: the resolver never returns exactly when the bootstrap succeeds and neither the requested tag nor its primary subtag is listed under the platform key, and neither the default language nor its primary subtag is listed under the key of the second call; in every other case it returns. The spec promises a LanguageUnresolved error instead.\<close>

theorem resolve_diverges_iff:
  "GetUpdaterForLangFromJSONBytes e jb ietf t w = None \<longleftrightarrow>
   (\<exists>w1 um um'. MakeTBDirectory t w = (Ret (), w1) \<and>
      manifest_updater e jb (fst (GetRuntimePair e t)) = Some um \<and>
      um ietf = None \<and> um (lang_prefix ietf) = None \<and>
      manifest_updater e jb (fst (GetRuntimePair e (snd (GetRuntimePair e t)))) = Some um' \<and>
      um' (Lang t) = None \<and> um' (lang_prefix (Lang t)) = None)"
  (is "?none \<longleftrightarrow> ?loop")
proof
  assume ?none
  then obtain w1 um where mk: "MakeTBDirectory t w = (Ret (), w1)"
    and mu: "manifest_updater e jb (fst (GetRuntimePair e t)) = Some um"
    and n: "um ietf = None" "um (lang_prefix ietf) = None"
    and rec: "GetUpdaterForLangFromJSONBytes e jb (Lang t) (snd (GetRuntimePair e t)) w1 = None"
    by (rule resolve_None_recurs)
  from rec obtain w2 um' where
    "manifest_updater e jb (fst (GetRuntimePair e (snd (GetRuntimePair e t)))) = Some um'"
    and "um' (Lang t) = None" and "um' (lang_prefix (Lang t)) = None"
    by (rule resolve_None_recurs) simp_all
  with mk mu n show ?loop by blast
next
  assume ?loop
  then obtain w1 um um' where mk: "MakeTBDirectory t w = (Ret (), w1)"
    and mu: "manifest_updater e jb (fst (GetRuntimePair e t)) = Some um"
    and n: "um ietf = None" "um (lang_prefix ietf) = None"
    and mu': "manifest_updater e jb (fst (GetRuntimePair e (snd (GetRuntimePair e t)))) = Some um'"
    and n': "um' (Lang t) = None" "um' (lang_prefix (Lang t)) = None"
    by blast
  let ?t1 = "snd (GetRuntimePair e t)"
  have step: "GetUpdaterForLangFromJSONBytes e jb ietf t w = GetUpdaterForLangFromJSONBytes e jb (Lang t) ?t1 w1"
    using mk _ mu n by (rule resolve_recurs) simp
  have g1: "GetRuntimePair e ?t1 = (fst (GetRuntimePair e ?t1), ?t1)"
    by (metis prod.collapse runtime_pair_stable)
  have "GetUpdaterForLangFromJSONBytes e jb (Lang ?t1) ?t1 w1 = None"
    using n' by (intro resolve_loop_None [OF bootstrap_again [OF mk] g1 mu']) simp_all
  with step show ?none by simp
qed


section \<open>Resolution order and errors\<close>


text \<open>C21: when the tag and its subtag are missing and the default language is listed under the key of the second call, that entry is the answer.\<close>

theorem resolve_default_language:
  assumes mk: "MakeTBDirectory t w = (Ret (), w1)"
    and mu: "manifest_updater e jb (fst (GetRuntimePair e t)) = Some um"
    and n: "um ietf = None" "um (lang_prefix ietf) = None"
    and mu': "manifest_updater e jb (fst (GetRuntimePair e (snd (GetRuntimePair e t)))) = Some um'"
    and d: "um' (Lang t) = Some lu"
  shows "GetUpdaterForLangFromJSONBytes e jb ietf t w = Some (updater_urls lu, snd (GetRuntimePair e t), w1)"
proof -
  let ?t1 = "snd (GetRuntimePair e t)"
  have "GetUpdaterForLangFromJSONBytes e jb ietf t w = GetUpdaterForLangFromJSONBytes e jb (Lang t) ?t1 w1"
    using mk _ mu n by (rule resolve_recurs) simp
  also have "\<dots> = Some (updater_urls lu, ?t1, w1)"
  proof (rule resolve_found [OF bootstrap_again [OF mk] _ mu'])
    show "GetRuntimePair e ?t1 = (fst (GetRuntimePair e ?t1), ?t1)"
      by (metis prod.collapse runtime_pair_stable)
  qed (rule d)
  finally show ?thesis .
qed

text \<open>C26: a manifest without an entry for the platform key gives the error naming that key, after the bootstrap and with the detected platform stored.\<close>

theorem resolve_platform_missing:
  assumes mk: "MakeTBDirectory t w = (Ret (), w1)" and g: "GetRuntimePair e t = (rtp, t1)"
    and d: "unmarshal_map (json_decode e jb) = Inr dat" and p: "dat ''downloads'' = Some plat"
    and pm: "as_map plat = Some m" and none: "m rtp = None"
  shows "GetUpdaterForLangFromJSONBytes e jb ietf t w =
     Some (Ret (Inl (''t.GetUpdaterForLangFromJSONBytes: no updater for platform '' @ rtp)), t1, w1)"
  using assms by (subst GetUpdaterForLangFromJSONBytes.simps) simp

text \<open>Property: a document that does not decode gives the wrapped decoder error, with the downloader unchanged.\<close>

theorem resolve_decode_error:
  assumes mk: "MakeTBDirectory t w = (Ret (), w1)" and d: "json_decode e jb = Inl err"
  shows "GetUpdaterForLangFromJSONBytes e jb ietf t w =
     Some (Ret (Inl (''func (t *TBDownloader)Name: '' @ err)), t, w1)"
  using assms by (subst GetUpdaterForLangFromJSONBytes.simps) (simp add: unmarshal_map_def errorf_def)

text \<open>C27: an entry with a binary URL but no sig field makes the resolver panic (a failed type assertion) instead of returning a manifest error.\<close>

theorem resolve_entry_without_sig_panics:
  assumes mk: "MakeTBDirectory t w = (Ret (), w1)" and g: "GetRuntimePair e t = (rtp, t1)"
    and mu: "manifest_updater e jb rtp = Some um" and f: "um ietf = Some (JObj kvs)"
    and b: "obj_lookup kvs ''binary'' = Some (JStr bin)" and s: "obj_lookup kvs ''sig'' = None"
  shows "\<exists>msg. GetUpdaterForLangFromJSONBytes e jb ietf t w = Some (Abort (Panic msg), t1, w1)"
  using resolve_found [OF mk g mu f] b s by (simp add: updater_urls_def as_map_def as_string_def)


section \<open>The world after resolution and the manifest snapshot\<close>

text \<open>C15: when the bootstrap succeeds and the platform key is the
  same on the second call, the resolver implements the specified order: it returns the URLs
  of the entry the spec selects, and where the spec reports \<open>LanguageUnresolved\<close> it never
  returns.\<close>

theorem resolver_refines_spec:
  assumes mk: "MakeTBDirectory t w = (Ret (), w1)"
    and stable: "fst (GetRuntimePair e (snd (GetRuntimePair e t))) = fst (GetRuntimePair e t)"
    and mu: "manifest_updater e jb (fst (GetRuntimePair e t)) = Some um"
  shows "GetUpdaterForLangFromJSONBytes e jb ietf t w =
    map_option (\<lambda>lu. (updater_urls lu, snd (GetRuntimePair e t), w1)) (spec_resolve um ietf (Lang t))"
proof -
  let ?rtp = "fst (GetRuntimePair e t)" and ?t1 = "snd (GetRuntimePair e t)"
  have g: "GetRuntimePair e t = (?rtp, ?t1)" by simp
  have mk1: "MakeTBDirectory ?t1 w1 = (Ret (), w1)" by (rule bootstrap_again [OF mk])
  have g1: "GetRuntimePair e ?t1 = (?rtp, ?t1)"
    using stable runtime_pair_stable [of e t] by (metis prod.collapse)
  have second: "GetUpdaterForLangFromJSONBytes e jb (Lang t) ?t1 w1 =
    map_option (\<lambda>lu. (updater_urls lu, ?t1, w1)) (spec_lookup um (Lang t))"
  proof (cases "um (Lang t)")
    case (Some lu)
    then show ?thesis using resolve_found [OF mk1 g1 mu, of "Lang t" lu] by (simp add: spec_lookup_def)
  next
    case None
    show ?thesis
    proof (cases "um (lang_prefix (Lang t))")
      case (Some lu)
      then show ?thesis using resolve_prefix_found [OF mk1 g1 mu None] by (simp add: spec_lookup_def None)
    next
      case None2: None
      then show ?thesis using resolve_loop_None [OF mk1 g1 mu] None by (simp add: spec_lookup_def)
    qed
  qed
  show ?thesis
  proof (cases "spec_lookup um ietf")
    case (Some lu)
    then show ?thesis using resolve_found [OF mk g mu] resolve_prefix_found [OF mk g mu]
      by (auto simp: spec_lookup_def spec_resolve_def split: option.splits)
  next
    case None
    then have "um ietf = None" "um (lang_prefix ietf) = None" by (auto simp: spec_lookup_def split: option.splits)
    with resolve_recurs [OF mk g mu] second None show ?thesis by (simp add: spec_resolve_def)
  qed
qed

lemma bootstrap_again_pair:
  "MakeTBDirectory t w = (Ret (), w1) \<Longrightarrow> GetRuntimePair e t = (rtp, t1) \<Longrightarrow>
   MakeTBDirectory t1 w1 = (Ret (), w1)"
  using bootstrap_again [of t w w1 e] by simp

lemma resolve_world:
  assumes "GetUpdaterForLangFromJSONBytes e jb l t w = Some r"
  shows "snd (snd r) = snd (MakeTBDirectory t w)"
  apply (rule GetUpdaterForLangFromJSONBytes.raw_induct
      [where P = "\<lambda>e jb l t w r. snd (snd r) = snd (MakeTBDirectory t w)", OF _ assms])
  apply (auto split: prod.splits outcome.splits sum.splits option.splits dest: bootstrap_again_pair)
  done


lemma getupdater_steady:
  assumes run: "GetUpdaterForLang e l t w = Some (r, t1, w1)"
  shows "steady w w1"
proof -
  obtain b w0 where h: "http_get_w e TOR_UPDATES_URL w = (b, w0)" by fastforce
  have s0: "steady w w0" using steady_http [of w e TOR_UPDATES_URL] h by simp
  show ?thesis
  proof (cases b)
    case (Inl err)
    with run h s0 show ?thesis by (simp add: GetUpdaterForLang_def)
  next
    case (Inr jb)
    obtain m wm where mk: "MakeTBDirectory t w0 = (m, wm)" by fastforce
    have s1: "steady w0 wm" using make_tb_steady [of w0 t] mk by simp
    obtain err f where wr: "write_file (fs wm) (join (DownloadPath t) ''downloads.json'') jb 420 = (err, f)"
      by fastforce
    have s2: "steady wm (wm\<lparr>fs := f\<rparr>)" using steady_write [OF wr] .
    show ?thesis
    proof (cases m)
      case (Abort a)
      with run h Inr mk have "w1 = wm" by (simp add: GetUpdaterForLang_def GetUpdaterForLangFromJSON_def)
      with steady_trans [OF s0 s1] show ?thesis by simp
    next
      case (Ret u)
      show ?thesis
      proof (cases err)
        case (Some x)
        with run h Inr mk Ret wr have "w1 = wm\<lparr>fs := f\<rparr>"
          by (simp add: GetUpdaterForLang_def GetUpdaterForLangFromJSON_def)
        with steady_trans [OF steady_trans [OF s0 s1] s2] show ?thesis by simp
      next
        case None
        with run h Inr mk Ret wr
        have res: "GetUpdaterForLangFromJSONBytes e jb l t (wm\<lparr>fs := f\<rparr>) = Some (r, t1, w1)"
          by (simp add: GetUpdaterForLang_def GetUpdaterForLangFromJSON_def)
        have "steady (wm\<lparr>fs := f\<rparr>) w1"
          using resolve_world [OF res] make_tb_steady [of "wm\<lparr>fs := f\<rparr>" t] by simp
        with steady_trans [OF steady_trans [OF s0 s1] s2] show ?thesis by (rule steady_trans)
      qed
    qed
  qed
qed

text \<open>C25: a resolution that returns URLs has made exactly one network request, for the manifest, and left the fetched bytes in downloads.json.\<close>

theorem manifest_snapshot_written:
  assumes res: "GetUpdaterForLang e ietf t w = Some (Ret (Inr urls), t', w')"
    and net: "http_get e TOR_UPDATES_URL = Inr jb"
  shows "(\<exists>m. fs w' (join (DownloadPath t) ''downloads.json'') = Some (File jb m)) \<and>
    fetched w' = fetched w @ [TOR_UPDATES_URL]"
proof -
  let ?w0 = "w\<lparr>fetched := fetched w @ [TOR_UPDATES_URL]\<rparr>"
  let ?snap = "join (DownloadPath t) ''downloads.json''"
  from res net have r0: "GetUpdaterForLangFromJSON e (Inr jb) ietf t ?w0 = Some (Ret (Inr urls), t', w')"
    by (simp add: GetUpdaterForLang_def http_get_w_def)
  obtain o1 w1 where mk: "MakeTBDirectory t ?w0 = (o1, w1)" by fastforce
  obtain err f where wr: "write_file (fs w1) ?snap jb 420 = (err, f)" by fastforce
  have o1: "o1 = Ret ()" using r0 mk by (cases o1) (auto simp: GetUpdaterForLangFromJSON_def)
  have err: "err = None" using r0 mk wr o1 by (cases err) (auto simp: GetUpdaterForLangFromJSON_def)
  with r0 mk wr o1
  have r1: "GetUpdaterForLangFromJSONBytes e jb ietf t (w1\<lparr>fs := f\<rparr>) = Some (Ret (Inr urls), t', w')"
    by (simp add: GetUpdaterForLangFromJSON_def)
  have "bootstrapped t (fs w1)" using mk o1 by (simp add: make_tb_bootstraps)
  then have "bootstrapped t f" using write_file_grows [OF wr] by (rule bootstrapped_grows)
  then have noop: "MakeTBDirectory t (w1\<lparr>fs := f\<rparr>) = (Ret (), w1\<lparr>fs := f\<rparr>)"
    using bootstrapped_noop [of t "w1\<lparr>fs := f\<rparr>"] by simp
  from resolve_world [OF r1] noop have w': "w' = w1\<lparr>fs := f\<rparr>" by simp
  obtain m where "f = (fs w1)(?snap \<mapsto> File jb m)" using write_file_ok [OF wr [unfolded err]] by blast
  moreover have "fetched w1 = fetched ?w0" using MakeTBDirectory_other_fields(1) [of t ?w0] mk by simp
  ultimately show ?thesis using w' by simp
qed


subsection \<open>Witnesses\<close>

lemma sample_pair: "GetRuntimePair e sample_downloader = (''linux64'', sample_downloader)"
  by (simp add: sample_downloader_def GetRuntimePair_def)

lemma fr_only_updater:
  "manifest_updater (manifest_env fr_only_manifest) jb ''linux64'' =
     Some (obj_lookup [(''fr'', entry ''https://dist/fr.tar.xz'')])"
  by (simp add: manifest_updater_def manifest_env_def fr_only_manifest_def unmarshal_map_def as_map_def
      obj_lookup_def)

theorem resolve_diverges_iff_witness:
  "GetUpdaterForLangFromJSONBytes (manifest_env fr_only_manifest) ''{}'' ''pt-BR'' sample_downloader fresh_world = None"
proof (rule resolve_diverges_iff [THEN iffD2])
  have l: "Lang sample_downloader = ''en-US''" by (simp add: sample_downloader_def)
  show "\<exists>w1 um um'. MakeTBDirectory sample_downloader fresh_world = (Ret (), w1) \<and>
      manifest_updater (manifest_env fr_only_manifest) ''{}'' (fst (GetRuntimePair (manifest_env fr_only_manifest) sample_downloader)) = Some um \<and>
      um ''pt-BR'' = None \<and> um (lang_prefix ''pt-BR'') = None \<and>
      manifest_updater (manifest_env fr_only_manifest) ''{}''
        (fst (GetRuntimePair (manifest_env fr_only_manifest) (snd (GetRuntimePair (manifest_env fr_only_manifest) sample_downloader)))) = Some um' \<and>
      um' (Lang sample_downloader) = None \<and> um' (lang_prefix (Lang sample_downloader)) = None"
    using sample_bootstrap_runs
    by (simp add: sample_pair fr_only_updater l lang_prefix_def obj_lookup_def) blast
qed


lemma sample_updater:
  "manifest_updater (manifest_env sample_manifest) jb ''linux64'' =
     Some (obj_lookup [(''en-US'', entry ''https://dist/en-US.tar.xz''), (''fr'', entry ''https://dist/fr.tar.xz''),
       (''de'', JObj [(''binary'', JStr ''https://dist/de.tar.xz'')])])"
  by (simp add: manifest_updater_def manifest_env_def sample_manifest_def unmarshal_map_def as_map_def
      obj_lookup_def)


theorem resolve_default_language_witness:
  "GetUpdaterForLangFromJSONBytes (manifest_env sample_manifest) ''{}'' ''pt-BR'' sample_downloader fresh_world =
     Some (Ret (Inr (''https://dist/en-US.tar.xz'', ''https://dist/en-US.tar.xz.asc'')), sample_downloader,
           snd (MakeTBDirectory sample_downloader fresh_world))"
proof -
  let ?e = "manifest_env sample_manifest"
  have l: "Lang sample_downloader = ''en-US''" by (simp add: sample_downloader_def)
  have r: "GetUpdaterForLangFromJSONBytes ?e ''{}'' ''pt-BR'' sample_downloader fresh_world =
     Some (updater_urls (entry ''https://dist/en-US.tar.xz''), snd (GetRuntimePair ?e sample_downloader),
           snd (MakeTBDirectory sample_downloader fresh_world))"
  proof (rule resolve_default_language [OF sample_bootstrap_runs])
    let ?um = "obj_lookup [(''en-US'', entry ''https://dist/en-US.tar.xz''), (''fr'', entry ''https://dist/fr.tar.xz''),
       (''de'', JObj [(''binary'', JStr ''https://dist/de.tar.xz'')])]"
    show "manifest_updater ?e ''{}'' (fst (GetRuntimePair ?e sample_downloader)) = Some ?um"
      by (simp add: sample_pair sample_updater)
    show "?um ''pt-BR'' = None" "?um (lang_prefix ''pt-BR'') = None"
      by (simp_all add: obj_lookup_def lang_prefix_def)
    show "manifest_updater ?e ''{}'' (fst (GetRuntimePair ?e (snd (GetRuntimePair ?e sample_downloader)))) = Some ?um"
      by (simp add: sample_pair sample_updater)
    show "?um (Lang sample_downloader) = Some (entry ''https://dist/en-US.tar.xz'')"
      by (simp add: l obj_lookup_def)
  qed
  then show ?thesis
    by (simp add: sample_pair updater_urls_def entry_def as_map_def as_string_def obj_lookup_def)
qed

theorem resolve_platform_missing_witness:
  "GetUpdaterForLangFromJSONBytes (manifest_env (JObj [(''downloads'', JObj [(''win64'', JObj [])])])) ''{}''
      ''en-US'' sample_downloader fresh_world =
   Some (Ret (Inl ''t.GetUpdaterForLangFromJSONBytes: no updater for platform linux64''), sample_downloader,
         snd (MakeTBDirectory sample_downloader fresh_world))"
  using resolve_platform_missing [OF sample_bootstrap_runs sample_pair,
      where jb = "''{}''" and e = "manifest_env (JObj [(''downloads'', JObj [(''win64'', JObj [])])])"
        and ietf = "''en-US''"]
  by (simp add: manifest_env_def unmarshal_map_def as_map_def obj_lookup_def)

theorem resolve_decode_error_witness:
  "GetUpdaterForLangFromJSONBytes offline_env ''{}'' ''en-US'' sample_downloader fresh_world =
   Some (Ret (Inl ''func (t *TBDownloader)Name: unexpected end of JSON input''), sample_downloader,
         snd (MakeTBDirectory sample_downloader fresh_world))"
  using resolve_decode_error [OF sample_bootstrap_runs, where e = offline_env and jb = "''{}''"
      and ietf = "''en-US''"]
  by (simp add: offline_env_def)

theorem resolve_entry_without_sig_panics_witness:
  "\<exists>msg. GetUpdaterForLangFromJSONBytes (manifest_env sample_manifest) ''{}'' ''de'' sample_downloader fresh_world =
     Some (Abort (Panic msg), sample_downloader, snd (MakeTBDirectory sample_downloader fresh_world))"
  by (rule resolve_entry_without_sig_panics [OF sample_bootstrap_runs sample_pair sample_updater,
        where bin = "''https://dist/de.tar.xz''" and kvs = "[(''binary'', JStr ''https://dist/de.tar.xz'')]"])
    (simp_all add: obj_lookup_def)


lemma resolve_json_ok:
  assumes mk: "MakeTBDirectory t w = (Ret (), w1)"
    and wr: "write_file (fs w1) (join (DownloadPath t) ''downloads.json'') jb 420 = (None, f)"
  shows "GetUpdaterForLangFromJSON e (Inr jb) l t w = GetUpdaterForLangFromJSONBytes e jb l t (w1\<lparr>fs := f\<rparr>)"
    and "MakeTBDirectory t (w1\<lparr>fs := f\<rparr>) = (Ret (), w1\<lparr>fs := f\<rparr>)"
proof -
  show "GetUpdaterForLangFromJSON e (Inr jb) l t w = GetUpdaterForLangFromJSONBytes e jb l t (w1\<lparr>fs := f\<rparr>)"
    using mk wr by (simp add: GetUpdaterForLangFromJSON_def)
  have "bootstrapped t (fs w1)" using mk by (simp add: make_tb_bootstraps)
  then have "bootstrapped t f" using write_file_grows [OF wr] by (rule bootstrapped_grows)
  then show "MakeTBDirectory t (w1\<lparr>fs := f\<rparr>) = (Ret (), w1\<lparr>fs := f\<rparr>)"
    using bootstrapped_noop [of t "w1\<lparr>fs := f\<rparr>"] by simp
qed

theorem manifest_snapshot_written_witness:
  "(\<exists>m. fs (snd (snd (the (GetUpdaterForLang (manifest_env sample_manifest) ''en-US'' sample_downloader fresh_world))))
          [''tb'', ''downloads.json''] = Some (File ''{}'' m)) \<and>
   fetched (snd (snd (the (GetUpdaterForLang (manifest_env sample_manifest) ''en-US'' sample_downloader fresh_world))))
     = [TOR_UPDATES_URL]"
proof -
  let ?e = "manifest_env sample_manifest"
  let ?w0 = "fresh_world\<lparr>fetched := [TOR_UPDATES_URL]\<rparr>"
  let ?w1 = "snd (MakeTBDirectory sample_downloader ?w0)"
  let ?snap = "join (DownloadPath sample_downloader) ''downloads.json''"
  let ?f = "snd (write_file (fs ?w1) ?snap ''{}'' 420)"
  have snap: "?snap = [''tb'', ''downloads.json'']" by (simp add: sample_downloader_def join_simple)
  have "fst (MakeTBDirectory sample_downloader ?w0) = Ret ()"
    by (simp add: MakeTBDirectory_def make_key_def make_xpi_def key_path_simple xpi_paths_simple
        fresh_world_def sample_downloader_def mkdir_all_def FileExists_def stat_def is_file_def
        write_file_def)
  then have mk: "MakeTBDirectory sample_downloader ?w0 = (Ret (), ?w1)" by (metis prod.collapse)
  have "fst (write_file (fs ?w1) ?snap ''{}'' 420) = None"
    by (simp add: join_simple MakeTBDirectory_def make_key_def make_xpi_def key_path_simple xpi_paths_simple
        fresh_world_def sample_downloader_def mkdir_all_def FileExists_def stat_def is_file_def
        write_file_def)
  then have wr: "write_file (fs ?w1) ?snap ''{}'' 420 = (None, ?f)" by (metis prod.collapse)
  note j1 = resolve_json_ok(1) [OF mk wr, where e = ?e and l = "''en-US''"]
  note j2 = resolve_json_ok(2) [OF mk wr]
  have "GetUpdaterForLangFromJSONBytes ?e ''{}'' ''en-US'' sample_downloader (?w1\<lparr>fs := ?f\<rparr>) =
     Some (updater_urls (entry ''https://dist/en-US.tar.xz''), sample_downloader, ?w1\<lparr>fs := ?f\<rparr>)"
    by (rule resolve_found [OF j2 sample_pair sample_updater]) (simp add: obj_lookup_def)
  with j1 have res: "GetUpdaterForLang ?e ''en-US'' sample_downloader fresh_world =
     Some (Ret (Inr (''https://dist/en-US.tar.xz'', ''https://dist/en-US.tar.xz.asc'')), sample_downloader, ?w1\<lparr>fs := ?f\<rparr>)"
    by (simp add: GetUpdaterForLang_def http_get_w_def manifest_env_def fresh_world_def updater_urls_def
        entry_def as_map_def as_string_def obj_lookup_def)
  have net: "http_get ?e TOR_UPDATES_URL = Inr ''{}''" by (simp add: manifest_env_def)
  from manifest_snapshot_written [OF res net] res snap show ?thesis by (simp add: fresh_world_def)
qed

theorem resolver_refines_spec_witness:
  "GetUpdaterForLangFromJSONBytes (manifest_env sample_manifest) ''{}'' ''de-AT'' sample_downloader fresh_world =
     Some (Abort (Panic ''interface conversion: interface {} is not string''), sample_downloader,
           snd (MakeTBDirectory sample_downloader fresh_world))"
proof -
  have l: "Lang sample_downloader = ''en-US''" by (simp add: sample_downloader_def)
  let ?e = "manifest_env sample_manifest"
  have st: "fst (GetRuntimePair ?e (snd (GetRuntimePair ?e sample_downloader))) = fst (GetRuntimePair ?e sample_downloader)"
    by (simp add: sample_pair)
  have mu: "manifest_updater ?e ''{}'' (fst (GetRuntimePair ?e sample_downloader)) =
     Some (obj_lookup [(''en-US'', entry ''https://dist/en-US.tar.xz''), (''fr'', entry ''https://dist/fr.tar.xz''),
       (''de'', JObj [(''binary'', JStr ''https://dist/de.tar.xz'')])])"
    by (simp add: sample_pair sample_updater)
  from resolver_refines_spec [OF sample_bootstrap_runs st mu, where ietf = "''de-AT''"]
  show ?thesis
    by (simp add: sample_pair l spec_resolve_def spec_lookup_def obj_lookup_def lang_prefix_def updater_urls_def
        as_map_def as_string_def)
qed

end
