(* ===== verification/Download.thy ===== *)
theory Download
  imports Manifest
begin

text \<open>
  The download cache guard and the artifact fetcher (get.go): \<open>BotherToDownload\<close>
  decides from the file and its \<open>.last-url\<close> marker whether to fetch, and records the
  URL in a deferred write; \<open>SingleFileDownload\<close> fetches a URL into the download
  directory; \<open>DownloadUpdaterForLang\<close> resolves the URLs and fetches the signature,
  then the binary. The body \<open>io.Copy\<close> writes is what the network oracle returns (a
  copy error is ignored by the code, so a truncated body is indistinguishable).
\<close>

section \<open>Definitions\<close>

definition marker_path :: "TBDownloader \<Rightarrow> string \<Rightarrow> path" where
  "marker_path t name = join (DownloadPath t) (name @ ''.last-url'')"

text \<open>
  No marker is written when the file is missing: the \<open>defer\<close> is registered only
  after that early return. Otherwise the old marker is read first, and the deferred
  write (its error ignored) stores the new URL as the function returns.
\<close>

definition BotherToDownload :: "TBDownloader \<Rightarrow> world \<Rightarrow> string \<Rightarrow> string \<Rightarrow> bool \<times> world" where
  "BotherToDownload t w url name =
     (if \<not> FileExists (fs w) (join (DownloadPath t) name) then (True, w)
      else
        let r = (case read_file (fs w) (marker_path t name) of
                   Inl _ \<Rightarrow> True
                 | Inr lastURL \<Rightarrow> lastURL \<noteq> url)
        in (r, w\<lparr>fs := snd (write_file (fs w) (marker_path t name) url 420)\<rparr>))"

text \<open>\<open>os.Create\<close> uses mode \<open>0666\<close> (438).\<close>

definition SingleFileDownload ::
  "env \<Rightarrow> TBDownloader \<Rightarrow> world \<Rightarrow> string \<Rightarrow> string \<Rightarrow> (goerror + path) outcome \<times> world" where
  "SingleFileDownload e t w url name =
     obind (MakeTBDirectory t w) (\<lambda>_ w1.
       let p = join (DownloadPath t) name;
           (bother, w2) = BotherToDownload t w1 url name
       in if \<not> bother then (Ret (Inr p), w2)
          else (case http_get_w e url w2 of
                  (Inl err, w3) \<Rightarrow> (Ret (Inl (errorf ''SingleFileDownload'' err)), w3)
                | (Inr body, w3) \<Rightarrow>
                    (case write_file (fs w3) p body 438 of
                       (Some err, f) \<Rightarrow> (Ret (Inl (errorf ''SingleFileDownload'' err)), w3\<lparr>fs := f\<rparr>)
                     | (None, f) \<Rightarrow> (Ret (Inr p), w3\<lparr>fs := f\<rparr>))))"

text \<open>
  The three results of \<open>DownloadUpdaterForLang\<close>: on an error, the error and the
  signature path that was already fetched when only the binary failed.
\<close>

type_synonym download_result = "((goerror \<times> path option) + path \<times> path) outcome \<times> TBDownloader \<times> world"

definition DownloadUpdaterForLang ::
  "env \<Rightarrow> TBDownloader \<Rightarrow> world \<Rightarrow> string \<Rightarrow> download_result option" where
  "DownloadUpdaterForLang e t w ietf =
     (case GetUpdaterForLang e ietf t w of
        None \<Rightarrow> None
      | Some (Abort a, t1, w1) \<Rightarrow> Some (Abort a, t1, w1)
      | Some (Ret (Inl err), t1, w1) \<Rightarrow> Some (Ret (Inl (errorf ''DownloadUpdaterForLang'' err, None)), t1, w1)
      | Some (Ret (Inr (binary, sig)), t1, w1) \<Rightarrow>
          (case NamePerPlatform e t1 ietf of (n1, t2) \<Rightarrow>
            (case SingleFileDownload e t2 w1 sig (n1 @ ''.asc'') of
               (Abort a, w2) \<Rightarrow> Some (Abort a, t2, w2)
             | (Ret (Inl err), w2) \<Rightarrow> Some (Ret (Inl (errorf ''DownloadUpdaterForLang'' err, None)), t2, w2)
             | (Ret (Inr sigpath), w2) \<Rightarrow>
                 (case NamePerPlatform e t2 ietf of (n2, t3) \<Rightarrow>
                   (case SingleFileDownload e t3 w2 binary n2 of
                      (Abort a, w3) \<Rightarrow> Some (Abort a, t3, w3)
                    | (Ret (Inl err), w3) \<Rightarrow>
                        Some (Ret (Inl (errorf ''DownloadUpdaterForLang'' err, Some sigpath)), t3, w3)
                    | (Ret (Inr binpath), w3) \<Rightarrow> Some (Ret (Inr (binpath, sigpath)), t3, w3))))))"

definition DownloadUpdater :: "env \<Rightarrow> TBDownloader \<Rightarrow> world \<Rightarrow> download_result option" where
  "DownloadUpdater e t w = DownloadUpdaterForLang e t w (Lang t)"


text \<open>A world in which the sample downloader has been bootstrapped.\<close>

definition ready_world :: world where
  "ready_world = fresh_world\<lparr>fs := [[] \<mapsto> Dir, [''tb''] \<mapsto> Dir,
     [''tb'', ''TPO-signing-key.pub''] \<mapsto> File ''KEY'' 420, [''up''] \<mapsto> Dir,
     [''up'', ''awo@eyedeekay.github.io.xpi''] \<mapsto> File ''XPI'' 420,
     [''tb'', ''awo@eyedeekay.github.io.xpi''] \<mapsto> File ''XPI'' 420]\<rparr>"

section \<open>Lemmas on the file system below the download directory\<close>

lemma wf_prefix_dir:
  "fs_wf f \<Longrightarrow> f q = Some n \<Longrightarrow> i < length q \<Longrightarrow> f (take i q) = Some Dir"
proof (induction q arbitrary: n i rule: rev_induct)
  case Nil
  then show ?case by simp
next
  case (snoc x xs)
  from snoc.prems(1,2) have d: "f xs = Some Dir" by (auto simp: fs_wf_def)
  show ?case
  proof (cases "i = length xs")
    case True
    with d show ?thesis by simp
  next
    case False
    with snoc.prems(3) have "i < length xs" by simp
    with snoc.IH [OF snoc.prems(1) d] show ?thesis by simp
  qed
qed

lemma stat_child_missing:
  assumes wf: "fs_wf f" and d: "f dir = Some Dir" and none: "f (dir @ [x]) = None"
  shows "stat f (dir @ [x]) = Inl ''ENOENT''"
proof -
  define p where "p = dir @ [x]"
  have nf: "\<not> is_file (f (take i p))" if "i < length p" for i
  proof (cases "i < length dir")
    case True
    with wf_prefix_dir [OF wf d True] show ?thesis by (simp add: is_file_def p_def)
  next
    case False
    with that have "take i p = dir" by (simp add: p_def)
    with d show ?thesis by (simp add: is_file_def)
  qed
  have "\<not> list_ex (\<lambda>i. is_file (f (take i p))) [0..<length p]"
    unfolding list_ex_iff using nf by auto
  with none show ?thesis by (simp add: stat_def p_def [symmetric])
qed

lemma write_child_new:
  "f dir = Some Dir \<Longrightarrow> f (dir @ [x]) = None \<Longrightarrow>
   write_file f (dir @ [x]) d m = (None, f(dir @ [x] \<mapsto> File d m))"
  by (simp add: write_file_new)

lemma write_child_file:
  "f dir = Some Dir \<Longrightarrow> f (dir @ [x]) = Some (File d0 m0) \<Longrightarrow>
   write_file f (dir @ [x]) d m = (None, f(dir @ [x] \<mapsto> File d m0))"
  by (simp add: write_file_def stat_Some)

lemma fs_grows_new: "f p = None \<Longrightarrow> fs_grows f (f(p \<mapsto> n))"
  by (auto simp: fs_grows_def)

lemma fs_grows_file: "f p = Some (File d0 m0) \<Longrightarrow> fs_grows f (f(p \<mapsto> File d m))"
  by (auto simp: fs_grows_def)

lemma names_simple:
  assumes "CHR ''/'' \<notin> set name" "name \<noteq> []" "name \<noteq> ''.''" "name \<noteq> ''..''"
  shows "join (DownloadPath t) name = DownloadPath t @ [name]"
    and "marker_path t name = DownloadPath t @ [name @ ''.last-url'']"
  using assms by (simp_all add: join_simple marker_path_def)

section \<open>The cache guard\<close>

text \<open>Property: when the artifact is missing the guard asks for a fetch and
  records no marker: the deferred write is registered only after that early return.\<close>

theorem bother_missing_file:
  "\<not> FileExists (fs w) (join (DownloadPath t) name) \<Longrightarrow> BotherToDownload t w url name = (True, w)"
  by (simp add: BotherToDownload_def)

lemma bother_marker_write:
  assumes wf: "fs_wf (fs w)" and ex: "FileExists (fs w) (join (DownloadPath t) name)"
    and mk: "fs w (marker_path t name) = Some (File u m)"
  shows "BotherToDownload t w url name = (u \<noteq> url, w\<lparr>fs := (fs w)(marker_path t name \<mapsto> File url m)\<rparr>)"
proof -
  have ne: "marker_path t name \<noteq> []" using wf mk by (auto simp: fs_wf_def)
  with wf mk have par: "fs w (butlast (marker_path t name)) = Some Dir" by (auto simp: fs_wf_def)
  have "write_file (fs w) (marker_path t name) url 420 = (None, (fs w)(marker_path t name \<mapsto> File url m))"
    using ne par mk by (simp add: write_file_def stat_Some)
  with ex mk show ?thesis by (simp add: BotherToDownload_def read_file_File)
qed

text \<open>C20: when the artifact exists and has a marker, the guard asks for a fetch
  exactly when the recorded URL differs from the new one, and afterwards the marker holds
  the new URL (with its old mode).\<close>

theorem bother_marker:
  assumes "fs_wf (fs w)" and "FileExists (fs w) (join (DownloadPath t) name)"
    and "fs w (marker_path t name) = Some (File u m)"
  shows "BotherToDownload t w url name = (u \<noteq> url, w\<lparr>fs := (fs w)(marker_path t name \<mapsto> File url m)\<rparr>)"
  using assms by (rule bother_marker_write)


section \<open>The fetcher\<close>

lemma sfd_bootstrapped:
  "bootstrapped t (fs w) \<Longrightarrow> SingleFileDownload e t w url name =
     (let p = join (DownloadPath t) name;
          (bother, w2) = BotherToDownload t w url name
      in if \<not> bother then (Ret (Inr p), w2)
         else (case http_get_w e url w2 of
                 (Inl err, w3) \<Rightarrow> (Ret (Inl (errorf ''SingleFileDownload'' err)), w3)
               | (Inr body, w3) \<Rightarrow>
                   (case write_file (fs w3) p body 438 of
                      (Some err, f) \<Rightarrow> (Ret (Inl (errorf ''SingleFileDownload'' err)), w3\<lparr>fs := f\<rparr>)
                    | (None, f) \<Rightarrow> (Ret (Inr p), w3\<lparr>fs := f\<rparr>))))"
  by (simp add: SingleFileDownload_def bootstrapped_noop)

text \<open>The situation of the three calls: a plain file name in an existing download directory.\<close>

lemma sfd_first:
  assumes boot: "bootstrapped t (fs w)" and wf: "fs_wf (fs w)" and dir: "fs w (DownloadPath t) = Some Dir"
    and nm: "plain_name name" and none: "fs w (DownloadPath t @ [name]) = None"
    and net: "http_get e url = Inr body"
  shows "SingleFileDownload e t w url name =
    (Ret (Inr (DownloadPath t @ [name])),
     w\<lparr>fetched := fetched w @ [url], fs := (fs w)(DownloadPath t @ [name] \<mapsto> File body 438)\<rparr>)"
proof -
  have p: "join (DownloadPath t) name = DownloadPath t @ [name]"
    using nm names_simple(1) by (auto simp: plain_name_def)
  have "\<not> FileExists (fs w) (DownloadPath t @ [name])"
    using stat_child_missing [OF wf dir none] by (simp add: FileExists_def)
  with p have "BotherToDownload t w url name = (True, w)" by (simp add: BotherToDownload_def)
  with p show ?thesis
    by (simp add: sfd_bootstrapped [OF boot] http_get_w_def net write_child_new [OF dir none] Let_def)
qed

lemma sfd_no_marker:
  assumes boot: "bootstrapped t (fs w)" and wf: "fs_wf (fs w)" and dir: "fs w (DownloadPath t) = Some Dir"
    and nm: "plain_name name" and fl: "fs w (DownloadPath t @ [name]) = Some (File b0 m0)"
    and nomk: "fs w (DownloadPath t @ [name @ ''.last-url'']) = None"
    and net: "http_get e url = Inr body"
  shows "SingleFileDownload e t w url name =
    (Ret (Inr (DownloadPath t @ [name])),
     w\<lparr>fetched := fetched w @ [url],
       fs := (fs w)(DownloadPath t @ [name @ ''.last-url''] \<mapsto> File url 420,
                    DownloadPath t @ [name] \<mapsto> File body m0)\<rparr>)"
proof -
  let ?p = "DownloadPath t @ [name]" and ?mk = "DownloadPath t @ [name @ ''.last-url'']"
  have p: "join (DownloadPath t) name = ?p" and mk: "marker_path t name = ?mk"
    using nm names_simple by (auto simp: plain_name_def)
  have ne: "?p \<noteq> ?mk" by simp
  have rd: "read_file (fs w) ?mk = Inl ''ENOENT''"
    using stat_child_missing [OF wf dir nomk] by (simp add: read_file_def)
  have "BotherToDownload t w url name = (True, w\<lparr>fs := (fs w)(?mk \<mapsto> File url 420)\<rparr>)"
    using fl rd p mk write_child_new [OF dir nomk]
    by (simp add: BotherToDownload_def FileExists_Some)
  moreover have "write_file ((fs w)(?mk \<mapsto> File url 420)) ?p body 438 =
      (None, (fs w)(?mk \<mapsto> File url 420, ?p \<mapsto> File body m0))"
    using dir fl ne by (intro write_child_file) auto
  ultimately show ?thesis
    using p by (simp add: sfd_bootstrapped [OF boot] http_get_w_def net Let_def)
qed

lemma sfd_same_url:
  assumes boot: "bootstrapped t (fs w)" and wf: "fs_wf (fs w)"
    and nm: "plain_name name" and fl: "fs w (DownloadPath t @ [name]) = Some (File b0 m0)"
    and mk: "fs w (DownloadPath t @ [name @ ''.last-url'']) = Some (File url m)"
  shows "SingleFileDownload e t w url name = (Ret (Inr (DownloadPath t @ [name])), w)"
proof -
  have p: "join (DownloadPath t) name = DownloadPath t @ [name]"
    and mkp: "marker_path t name = DownloadPath t @ [name @ ''.last-url'']"
    using nm names_simple by (auto simp: plain_name_def)
  have "BotherToDownload t w url name = (False, w\<lparr>fs := (fs w)(marker_path t name \<mapsto> File url m)\<rparr>)"
    using bother_marker_write [OF wf _ ] fl mk p mkp by (simp add: FileExists_Some)
  moreover have "(fs w)(marker_path t name \<mapsto> File url m) = fs w" using mk mkp by (simp add: fun_upd_idem)
  ultimately show ?thesis using p by (simp add: sfd_bootstrapped [OF boot])
qed


section \<open>The fetcher runs nothing and keeps the file system well formed\<close>

lemma bother_steady [steady_rules]: "steady w (snd (BotherToDownload t w url name))"
  by (simp add: BotherToDownload_def Let_def steady_rules)

lemma sfd_steady [steady_rules]: "steady w (snd (SingleFileDownload e t w url name))"
proof -
  obtain m w1 where mk: "MakeTBDirectory t w = (m, w1)" by fastforce
  have s1: "steady w w1" using make_tb_steady [of w t] mk by simp
  show ?thesis
  proof (cases m)
    case (Abort a)
    with mk s1 show ?thesis by (simp add: SingleFileDownload_def)
  next
    case (Ret u)
    obtain b w2 where bo: "BotherToDownload t w1 url name = (b, w2)" by fastforce
    have s2: "steady w1 w2" using bother_steady [of w1 t url name] bo by simp
    obtain x w3 where h: "http_get_w e url w2 = (x, w3)" by fastforce
    have s3: "steady w2 w3" using steady_http [of w2 e url] h by simp
    show ?thesis
    proof (cases "b \<and> (\<exists>body. x = Inr body)")
      case False
      then have "snd (SingleFileDownload e t w url name) = w2 \<or> snd (SingleFileDownload e t w url name) = w3"
        using mk Ret bo h by (cases x) (auto simp: SingleFileDownload_def Let_def)
      moreover have "steady w w2" by (rule steady_trans [OF s1 s2])
      moreover have "steady w w3" by (rule steady_trans [OF steady_trans [OF s1 s2] s3])
      ultimately show ?thesis by auto
    next
      case True
      then obtain body where b: b and x: "x = Inr body" by blast
      obtain err f where wr: "write_file (fs w3) (join (DownloadPath t) name) body 438 = (err, f)" by fastforce
      have s4: "steady w3 (w3\<lparr>fs := f\<rparr>)" using steady_write [OF wr] .
      have "snd (SingleFileDownload e t w url name) = w3\<lparr>fs := f\<rparr>"
        using mk Ret bo h b x wr by (cases err) (simp_all add: SingleFileDownload_def Let_def)
      moreover have "steady w (w3\<lparr>fs := f\<rparr>)"
        by (rule steady_trans [OF steady_trans [OF steady_trans [OF s1 s2] s3] s4])
      ultimately show ?thesis by simp
    qed
  qed
qed

lemma download_steady:
  assumes run: "DownloadUpdaterForLang e t w l = Some (r, t', w')"
  shows "steady w w'"
proof -
  obtain o1 t1 w1 where g: "GetUpdaterForLang e l t w = Some (o1, t1, w1)"
    using run by (cases "GetUpdaterForLang e l t w") (auto simp: DownloadUpdaterForLang_def)
  have s1: "steady w w1" by (rule getupdater_steady [OF g])
  obtain n1 t2 where n1: "NamePerPlatform e t1 l = (n1, t2)" by fastforce
  obtain n2 t3 where n2: "NamePerPlatform e t2 l = (n2, t3)" by fastforce
  show ?thesis
  proof (cases "\<exists>b s. o1 = Ret (Inr (b, s))")
    case False
    with run g have "w' = w1"
      by (auto simp: DownloadUpdaterForLang_def split: outcome.splits sum.splits)
    with s1 show ?thesis by simp
  next
    case True
    then obtain b s where o1: "o1 = Ret (Inr (b, s))" by blast
    obtain o2 w2 where d2: "SingleFileDownload e t2 w1 s (n1 @ ''.asc'') = (o2, w2)" by fastforce
    obtain o3 w3 where d3: "SingleFileDownload e t3 w2 b n2 = (o3, w3)" by fastforce
    have s2: "steady w1 w2" using sfd_steady [of w1 e t2 s "n1 @ ''.asc''"] d2 by simp
    have s3: "steady w2 w3" using sfd_steady [of w2 e t3 b n2] d3 by simp
    have "w' = w2 \<or> w' = w3"
      using run g o1 n1 n2 d2 d3
      by (auto simp: DownloadUpdaterForLang_def split: outcome.splits sum.splits)
    moreover have "steady w w2" by (rule steady_trans [OF s1 s2])
    moreover have "steady w w3" by (rule steady_trans [OF steady_trans [OF s1 s2] s3])
    ultimately show ?thesis by auto
  qed
qed

text \<open>C19: three identical downloads of a new artifact fetch the URL
  twice, not once: the first writes no marker, so the second fetches again and writes it,
  and only the third is skipped. Every call returns the artifact's path.\<close>

theorem download_refetches_once:
  assumes boot: "bootstrapped t (fs w)" and wf: "fs_wf (fs w)" and dir: "fs w (DownloadPath t) = Some Dir"
    and nm: "plain_name name" and none: "fs w (DownloadPath t @ [name]) = None"
    and nomk: "fs w (DownloadPath t @ [name @ ''.last-url'']) = None"
    and net: "http_get e url = Inr body"
  shows "let (r1, w1) = SingleFileDownload e t w url name;
             (r2, w2) = SingleFileDownload e t w1 url name;
             (r3, w3) = SingleFileDownload e t w2 url name
         in r1 = Ret (Inr (DownloadPath t @ [name])) \<and> r2 = r1 \<and> r3 = r1 \<and>
            fetched w3 = fetched w @ [url, url] \<and>
            fs w3 (DownloadPath t @ [name]) = Some (File body 438)"
proof -
  let ?p = "DownloadPath t @ [name]" and ?mk = "DownloadPath t @ [name @ ''.last-url'']"
  have ne: "?mk \<noteq> ?p" "DownloadPath t \<noteq> ?p" "DownloadPath t \<noteq> ?mk" by simp_all
  let ?w1 = "w\<lparr>fetched := fetched w @ [url], fs := (fs w)(?p \<mapsto> File body 438)\<rparr>"
  have s1: "SingleFileDownload e t w url name = (Ret (Inr ?p), ?w1)"
    by (rule sfd_first [OF boot wf dir nm none net])
  have boot1: "bootstrapped t (fs ?w1)"
    using boot fs_grows_new [of "fs w" ?p "File body 438", OF none] by (simp add: bootstrapped_grows)
  have wf1: "fs_wf (fs ?w1)" using write_file_wf [OF wf write_child_new [OF dir none]] by simp
  have dir1: "fs ?w1 (DownloadPath t) = Some Dir" using dir ne by simp
  have file1: "fs ?w1 ?p = Some (File body 438)" by simp
  have nomk1: "fs ?w1 ?mk = None" using nomk ne by simp
  let ?w2 = "?w1\<lparr>fetched := fetched ?w1 @ [url],
       fs := (fs ?w1)(?mk \<mapsto> File url 420, ?p \<mapsto> File body 438)\<rparr>"
  have s2: "SingleFileDownload e t ?w1 url name = (Ret (Inr ?p), ?w2)"
    by (rule sfd_no_marker [OF boot1 wf1 dir1 nm file1 nomk1 net])
  have g2: "fs_grows (fs ?w1) (fs ?w2)"
    using fs_grows_new [of "fs ?w1" ?mk "File url 420", OF nomk1] fs_grows_file [of "(fs ?w1)(?mk \<mapsto> File url 420)" ?p body 438]
      file1 ne by (auto intro: fs_grows_trans)
  have boot2: "bootstrapped t (fs ?w2)" using boot1 g2 by (rule bootstrapped_grows)
  have wf2: "fs_wf (fs ?w2)"
  proof -
    have "write_file (fs ?w1) ?mk url 420 = (None, (fs ?w1)(?mk \<mapsto> File url 420))"
      by (rule write_child_new [OF dir1 nomk1])
    from write_file_wf [OF wf1 this] have w: "fs_wf ((fs ?w1)(?mk \<mapsto> File url 420))" .
    have "write_file ((fs ?w1)(?mk \<mapsto> File url 420)) ?p body 438 =
        (None, (fs ?w1)(?mk \<mapsto> File url 420, ?p \<mapsto> File body 438))"
      using dir1 file1 ne by (intro write_child_file) auto
    from write_file_wf [OF w this] show ?thesis by simp
  qed
  have s3: "SingleFileDownload e t ?w2 url name = (Ret (Inr ?p), ?w2)"
    by (rule sfd_same_url [OF boot2 wf2 nm]) (use ne in simp_all)
  show ?thesis using s1 s2 s3 by simp
qed


subsection \<open>Witnesses\<close>

lemma ready_world_facts:
  "bootstrapped sample_downloader (fs ready_world)" "fs_wf (fs ready_world)"
  "fs ready_world [''tb''] = Some Dir"
  by (simp_all add: bootstrapped_def ready_world_def fresh_world_def sample_downloader_def
      key_path_simple xpi_paths_simple FileExists_def stat_def mkdir_all_def fs_wf_def)

theorem bother_missing_file_witness:
  "BotherToDownload sample_downloader fresh_world ''https://dist/a'' ''a.tar.xz'' = (True, fresh_world)"
  by (rule bother_missing_file)
    (simp add: sample_downloader_def fresh_world_def join_simple FileExists_def stat_def is_file_def)

theorem bother_marker_witness:
  "BotherToDownload sample_downloader
     (ready_world\<lparr>fs := (fs ready_world)([''tb'', ''a.tar.xz''] \<mapsto> File ''A'' 438,
        [''tb'', ''a.tar.xz.last-url''] \<mapsto> File ''https://dist/a'' 420)\<rparr>) ''https://dist/b'' ''a.tar.xz'' =
   (True, ready_world\<lparr>fs := (fs ready_world)([''tb'', ''a.tar.xz''] \<mapsto> File ''A'' 438,
        [''tb'', ''a.tar.xz.last-url''] \<mapsto> File ''https://dist/b'' 420)\<rparr>)"
proof -
  let ?w = "ready_world\<lparr>fs := (fs ready_world)([''tb'', ''a.tar.xz''] \<mapsto> File ''A'' 438,
        [''tb'', ''a.tar.xz.last-url''] \<mapsto> File ''https://dist/a'' 420)\<rparr>"
  have mk: "marker_path sample_downloader ''a.tar.xz'' = [''tb'', ''a.tar.xz.last-url'']"
    by (simp add: marker_path_def sample_downloader_def join_simple)
  have p: "join (DownloadPath sample_downloader) ''a.tar.xz'' = [''tb'', ''a.tar.xz'']"
    by (simp add: sample_downloader_def join_simple)
  have n1: "fs ready_world ([''tb''] @ [''a.tar.xz'']) = None"
    and n2: "fs ready_world ([''tb''] @ [''a.tar.xz.last-url'']) = None"
    by (simp_all add: ready_world_def fresh_world_def)
  have w1: "write_file (fs ready_world) ([''tb''] @ [''a.tar.xz'']) ''A'' 438 =
      (None, (fs ready_world)([''tb''] @ [''a.tar.xz''] \<mapsto> File ''A'' 438))"
    by (rule write_child_new [OF ready_world_facts(3) n1])
  have w2: "write_file ((fs ready_world)([''tb''] @ [''a.tar.xz''] \<mapsto> File ''A'' 438))
      ([''tb''] @ [''a.tar.xz.last-url'']) ''https://dist/a'' 420 =
      (None, (fs ready_world)([''tb''] @ [''a.tar.xz''] \<mapsto> File ''A'' 438,
         [''tb''] @ [''a.tar.xz.last-url''] \<mapsto> File ''https://dist/a'' 420))"
    by (rule write_child_new) (use ready_world_facts(3) n2 in simp_all)
  have wf: "fs_wf (fs ?w)"
    using write_file_wf [OF write_file_wf [OF ready_world_facts(2) w1] w2] by simp
  have ex: "FileExists (fs ?w) (join (DownloadPath sample_downloader) ''a.tar.xz'')"
    by (simp add: p FileExists_Some)
  have m: "fs ?w (marker_path sample_downloader ''a.tar.xz'') = Some (File ''https://dist/a'' 420)"
    by (simp add: mk)
  from bother_marker [OF wf ex m, of "''https://dist/b''"] mk show ?thesis
    by (simp add: fun_upd_twist)
qed

theorem download_refetches_once_witness:
  "let (r1, w1) = SingleFileDownload (offline_env\<lparr>http_get := (\<lambda>_. Inr ''BYTES'')\<rparr>) sample_downloader
                    ready_world ''https://dist/a'' ''a.tar.xz'';
       (r2, w2) = SingleFileDownload (offline_env\<lparr>http_get := (\<lambda>_. Inr ''BYTES'')\<rparr>) sample_downloader
                    w1 ''https://dist/a'' ''a.tar.xz'';
       (r3, w3) = SingleFileDownload (offline_env\<lparr>http_get := (\<lambda>_. Inr ''BYTES'')\<rparr>) sample_downloader
                    w2 ''https://dist/a'' ''a.tar.xz''
   in r1 = Ret (Inr (DownloadPath sample_downloader @ [''a.tar.xz''])) \<and> r2 = r1 \<and> r3 = r1 \<and>
      fetched w3 = fetched ready_world @ [''https://dist/a'', ''https://dist/a''] \<and>
      fs w3 (DownloadPath sample_downloader @ [''a.tar.xz'']) = Some (File ''BYTES'' 438)"
proof (rule download_refetches_once [OF ready_world_facts(1,2)])
  show "fs ready_world (DownloadPath sample_downloader) = Some Dir"
    using ready_world_facts(3) by (simp add: sample_downloader_def)
  show "plain_name ''a.tar.xz''" by (simp add: plain_name_def)
  show "fs ready_world (DownloadPath sample_downloader @ [''a.tar.xz'']) = None"
    "fs ready_world (DownloadPath sample_downloader @ [''a.tar.xz'' @ ''.last-url'']) = None"
    by (simp_all add: ready_world_def fresh_world_def sample_downloader_def)
  show "http_get (offline_env\<lparr>http_get := (\<lambda>_. Inr ''BYTES'')\<rparr>) ''https://dist/a'' = Inr ''BYTES''"
    by simp
qed

end
