(* ===== verification/Installer.thy ===== *)
theory Installer
  imports Download
begin

text \<open>
  The platform installer (get.go, \<open>UnpackUpdater\<close>): on Windows the silent NSIS
  installer is run unless the browser directory exists; on macOS the disk image is
  opened with \<open>open\<close>; otherwise, unless the browser directory exists, the xz-compressed
  tar archive is extracted below the unpack directory in one forward pass: directory
  entries by \<open>MkdirAll\<close> (errors ignored), every other entry as a regular file created
  with \<open>os.Create\<close>, filled with the entry's bytes and then given the entry's mode.
\<close>

section \<open>Definitions\<close>

text \<open>\<open>file.Chmod(header.FileInfo().Mode())\<close>: the permission, setuid, setgid and sticky bits.\<close>

definition tar_perm :: "nat \<Rightarrow> nat" where
  "tar_perm m = m mod 4096"

text \<open>The loop over \<open>tarReader.Next()\<close>: the headers, then the end of the stream or an error.\<close>

fun untar_entries :: "path \<Rightarrow> tar_header list \<Rightarrow> goerror option \<Rightarrow> world \<Rightarrow> (goerror + unit) \<times> world" where
  "untar_entries u [] final w =
     (case final of
        None \<Rightarrow> (Inr (), w)
      | Some err \<Rightarrow> (Inl (''UnpackUpdater: Tar looper Error '' @ err), w))"
| "untar_entries u (h # hs) final w =
     (if Typeflag h = TypeDir
      then untar_entries u hs final (w\<lparr>fs := snd (mkdir_all (fs w) (join u (Name h)))\<rparr>)
      else
        (case write_file (fs w) (join u (Name h)) (Body h) 438 of
           (Some err, f) \<Rightarrow> (Inl (''UnpackUpdater: Tar unpacker error '' @ err), w\<lparr>fs := f\<rparr>)
         | (None, f) \<Rightarrow>
             untar_entries u hs final (w\<lparr>fs := chmod f (join u (Name h)) (tar_perm (Mode h))\<rparr>)))"

text \<open>The argument vectors of the two subprocesses, as the code builds them.\<close>

definition nsis_argv :: "TBDownloader \<Rightarrow> path \<Rightarrow> string list" where
  "nsis_argv t binpath = [path_str binpath, ''/S'', ''/D='' @ path_str (BrowserDir t)]"

definition open_argv :: "TBDownloader \<Rightarrow> path \<Rightarrow> string list" where
  "open_argv t binpath =
     [''open'', ''-W'', ''-n'', ''-a'', ''\"'' @ path_str (UnpackPath t) @ ''\"'', ''\"'' @ path_str binpath @ ''\"'']"

text \<open>The archive branch after the existence check.\<close>

definition unpack_archive :: "env \<Rightarrow> TBDownloader \<Rightarrow> world \<Rightarrow> path \<Rightarrow> (goerror + path) \<times> world" where
  "unpack_archive e t w binpath =
     (let w1 = w\<lparr>fs := snd (mkdir_all (fs w) (UnpackPath t))\<rparr>
      in case stat (fs w1) (UnpackPath t) of
           Inl err \<Rightarrow> (Inl (''UnpackUpdater: directory error '' @ err), w1)
         | Inr _ \<Rightarrow>
           (case stat (fs w1) binpath of
              Inl err \<Rightarrow> (Inl (''UnpackUpdater: XZFile error '' @ err), w1)
            | Inr Dir \<Rightarrow> (Inl (''UnpackUpdater: XZReader error EISDIR''), w1)
            | Inr (File data _) \<Rightarrow>
              (case xz_tar e data of
                 Inl err \<Rightarrow> (Inl (''UnpackUpdater: XZReader error '' @ err), w1)
               | Inr (hs, final) \<Rightarrow>
                 (case untar_entries (UnpackPath t) hs final w1 of
                    (Inl err, w2) \<Rightarrow> (Inl err, w2)
                  | (Inr _, w2) \<Rightarrow> (Inr (BrowserDir t), w2)))))"

definition UnpackUpdater :: "env \<Rightarrow> TBDownloader \<Rightarrow> world \<Rightarrow> path \<Rightarrow> (goerror + path) \<times> world" where
  "UnpackUpdater e t w binpath =
     (if OS t = ''win'' then
        (if \<not> FileExists (fs w) (BrowserDir t) then
           (case run_w e (nsis_argv t binpath) w of
              (Some err, w1) \<Rightarrow> (Inl (''UnpackUpdater: windows exec fail '' @ err), w1)
            | (None, w1) \<Rightarrow> (Inr (BrowserDir t), w1))
         else (Inr (BrowserDir t), w))
      else if OS t = ''osx'' then
        (case run_w e (open_argv t binpath) w of
           (Some err, w1) \<Rightarrow> (Inl (''UnpackUpdater: osx open/mount fail '' @ err), w1)
         | (None, w1) \<Rightarrow> (Inr (UnpackPath t), w1))
      else if FileExists (fs w) (BrowserDir t) then (Inr (BrowserDir t), w)
      else unpack_archive e t w binpath)"


text \<open>An environment whose subprocesses leave a well-formed file system well formed.\<close>

definition run_keeps_wf :: "env \<Rightarrow> bool" where
  "run_keeps_wf e \<longleftrightarrow> (\<forall>argv f. fs_wf f \<longrightarrow> fs_wf (snd (run_cmd e argv f)))"

text \<open>An archive whose one regular entry climbs out of the unpack directory.\<close>

definition slip_header :: tar_header where
  "slip_header = \<lparr>Name = ''../evil'', Typeflag = TypeReg, Mode = 493, Body = ''#!/bin/sh''\<rparr>"

definition archive_world :: world where
  "archive_world = ready_world\<lparr>fs := (fs ready_world)([''tb'', ''a.tar.xz''] \<mapsto> File ''XZ'' 438)\<rparr>"

definition win_downloader :: TBDownloader where
  "win_downloader = sample_downloader\<lparr>OS := ''win''\<rparr>"

definition osx_downloader :: TBDownloader where
  "osx_downloader = sample_downloader\<lparr>OS := ''osx''\<rparr>"

definition file_header :: "string \<Rightarrow> bytes \<Rightarrow> nat \<Rightarrow> tar_header" where
  "file_header n d m = \<lparr>Name = n, Typeflag = TypeReg, Mode = m, Body = d\<rparr>"

section \<open>Lemmas\<close>

lemma untar_append:
  "untar_entries u (xs @ ys) fin w =
     (case untar_entries u xs None w of (Inl err, w1) \<Rightarrow> (Inl err, w1) | (Inr _, w1) \<Rightarrow> untar_entries u ys fin w1)"
proof (induction xs arbitrary: w)
  case Nil
  then show ?case by simp
next
  case (Cons h xs)
  then show ?case by (simp split: prod.splits option.splits)
qed

lemma untar_keeps:
  "untar_entries u hs fin w = (r, w') \<Longrightarrow> fs w p = Some (File d m) \<Longrightarrow>
   (\<forall>h\<in>set hs. Typeflag h \<noteq> TypeDir \<longrightarrow> join u (Name h) \<noteq> p) \<Longrightarrow> fs w' p = Some (File d m)"
proof (induction hs arbitrary: w)
  case Nil
  then show ?case by (simp split: option.splits)
next
  case (Cons h hs)
  show ?case
  proof (cases "Typeflag h = TypeDir")
    case True
    with Cons.prems show ?thesis by (auto intro: Cons.IH simp: mkdir_all_keeps)
  next
    case False
    with Cons.prems(3) have ne: "join u (Name h) \<noteq> p" by simp
    obtain err f where wr: "write_file (fs w) (join u (Name h)) (Body h) 438 = (err, f)" by fastforce
    show ?thesis
    proof (cases err)
      case None
      from write_file_ok [OF wr [unfolded None]] ne Cons.prems(2)
      have "(chmod f (join u (Name h)) (tar_perm (Mode h))) p = Some (File d m)"
        by (auto simp: chmod_def split: option.splits node.splits)
      with Cons.prems False wr None show ?thesis by (auto intro: Cons.IH)
    next
      case (Some e')
      with Cons.prems False wr write_file_err [OF wr [unfolded Some]] show ?thesis by auto
    qed
  qed
qed

lemma mkdirs_existing:
  "(\<forall>i. 0 < i \<longrightarrow> i \<le> length cs \<longrightarrow> f (pre @ take i cs) = Some Dir) \<Longrightarrow> mkdirs f pre cs = (None, f)"
proof (induction cs arbitrary: pre)
  case Nil
  then show ?case by simp
next
  case (Cons c cs)
  have c: "f (pre @ [c]) = Some Dir" using Cons.prems [rule_format, of 1] by simp
  have "mkdirs f (pre @ [c]) cs = (None, f)"
  proof (rule Cons.IH, intro allI impI)
    fix i assume "0 < i" "i \<le> length cs"
    then show "f ((pre @ [c]) @ take i cs) = Some Dir"
      using Cons.prems [rule_format, of "Suc i"] by simp
  qed
  with c show ?case by simp
qed

lemma mkdir_all_existing:
  assumes wf: "fs_wf f" and d: "f p = Some Dir"
  shows "mkdir_all f p = (None, f)"
  unfolding mkdir_all_def
proof (rule mkdirs_existing, intro allI impI)
  fix i assume "0 < i" "i \<le> length p"
  then show "f ([] @ take i p) = Some Dir"
    using wf_prefix_dir [OF wf d, of i] d by (cases "i = length p") auto
qed

lemma join_parent:
  "plain_name n \<Longrightarrow> join u (''../'' @ n) = butlast u @ [n]"
  by (simp add: join_def plain_name_def split_on_nosep)

lemma win_downloader_facts:
  "OS win_downloader = ''win''" "DownloadPath win_downloader = [''tb'']"
  "BrowserDir win_downloader = [''up'', ''tor-browser_en-US'']"
  by (simp_all add: win_downloader_def sample_downloader_def BrowserDir_def join_simple)

lemma untar_steady [steady_rules]: "steady w (snd (untar_entries u hs fin w))"
proof (induction hs arbitrary: w)
  case Nil
  show ?case by (cases fin) (simp_all add: steady_refl)
next
  case (Cons h hs)
  show ?case
  proof (cases "Typeflag h = TypeDir")
    case True
    then show ?thesis using steady_trans [OF steady_mkdir Cons.IH] by simp
  next
    case False
    obtain err f where wr: "write_file (fs w) (join u (Name h)) (Body h) 438 = (err, f)" by fastforce
    have s1: "steady w (w\<lparr>fs := f\<rparr>)" by (rule steady_write [OF wr])
    show ?thesis
    proof (cases err)
      case None
      have "steady (w\<lparr>fs := f\<rparr>) (w\<lparr>fs := chmod f (join u (Name h)) (tar_perm (Mode h))\<rparr>)"
        using steady_chmod [of "w\<lparr>fs := f\<rparr>"] by simp
      from steady_trans [OF steady_trans [OF s1 this] Cons.IH] False wr None show ?thesis by simp
    next
      case (Some x)
      with s1 False wr show ?thesis by simp
    qed
  qed
qed

lemma snd_result_case:
  "snd (case p of (Inl err, w2) \<Rightarrow> (Inl err, w2) | (Inr _, w2) \<Rightarrow> (Inr x, w2)) = snd p"
  by (cases p, rename_tac r w2, case_tac r) auto

lemma unpack_archive_steady [steady_rules]: "steady w (snd (unpack_archive e t w b))"
proof -
  let ?w1 = "w\<lparr>fs := snd (mkdir_all (fs w) (UnpackPath t))\<rparr>"
  have s1: "steady w ?w1" by (rule steady_mkdir)
  have s2: "steady w (snd (untar_entries (UnpackPath t) hs fin ?w1))" for hs fin
    by (rule steady_trans [OF s1 untar_steady])
  show ?thesis
    unfolding unpack_archive_def Let_def
    by (simp add: s1 s2 snd_result_case split: sum.splits node.splits prod.splits)
qed

lemma unpack_wf:
  assumes e: "run_keeps_wf e" and wf: "fs_wf (fs w)"
  shows "fs_wf (fs (snd (UnpackUpdater e t w b)))"
proof -
  have run: "fs_wf (fs (snd (run_w e argv w)))" for argv
  proof -
    have "fs_wf (snd (run_cmd e argv (fs w)))" using e wf by (simp add: run_keeps_wf_def)
    then show ?thesis by (simp add: run_w_def case_prod_beta)
  qed
  have "fs_wf (fs (snd (unpack_archive e t w b)))" using steady_wf [OF unpack_archive_steady wf] .
  moreover have "run_w e argv w = (r, w') \<Longrightarrow> fs_wf (fs w')" for argv r w'
    using run [of argv] by simp
  ultimately show ?thesis using wf
    by (auto simp: UnpackUpdater_def split: prod.splits option.splits)
qed

section \<open>Properties\<close>

text \<open>C29: the extraction loop leaves every regular entry that no later entry overwrites as a regular file with the entry's bytes and permission bits, whatever came before it.\<close>

theorem untar_fidelity:
  assumes run: "untar_entries u (pre @ h # post) fin w = (Inr (), w')"
    and reg: "Typeflag h \<noteq> TypeDir"
    and last: "\<forall>h'\<in>set post. Typeflag h' \<noteq> TypeDir \<longrightarrow> join u (Name h') \<noteq> join u (Name h)"
  shows "fs w' (join u (Name h)) = Some (File (Body h) (tar_perm (Mode h)))"
proof -
  obtain r1 w1 where pre: "untar_entries u pre None w = (r1, w1)" by fastforce
  have r1: "r1 = Inr ()" using run pre by (cases r1) (auto simp: untar_append)
  have rest: "untar_entries u (h # post) fin w1 = (Inr (), w')"
    using run by (simp add: untar_append pre r1)
  obtain err f where wr: "write_file (fs w1) (join u (Name h)) (Body h) 438 = (err, f)" by fastforce
  have err: "err = None" using rest reg wr by (cases err) auto
  with rest reg wr have post: "untar_entries u post fin (w1\<lparr>fs := chmod f (join u (Name h)) (tar_perm (Mode h))\<rparr>) = (Inr (), w')"
    by simp
  from write_file_ok [OF wr [unfolded err]]
  have "chmod f (join u (Name h)) (tar_perm (Mode h)) (join u (Name h)) = Some (File (Body h) (tar_perm (Mode h)))"
    by (auto simp: chmod_def)
  from untar_keeps [OF post _ last] this show ?thesis by simp
qed

text \<open>C30: outside macOS, once the browser directory exists UnpackUpdater returns it and changes nothing, whatever the archive holds.\<close>

theorem unpack_idempotent:
  "OS t \<noteq> ''osx'' \<Longrightarrow> FileExists (fs w) (BrowserDir t) \<Longrightarrow> UnpackUpdater e t w b = (Inr (BrowserDir t), w)"
  by (simp add: UnpackUpdater_def)

text \<open>C31: on Windows with no browser directory UnpackUpdater runs the binary as a silent NSIS installer targeting the browser directory and reports its exit status.\<close>

theorem unpack_windows_installer:
  assumes "OS t = ''win''" and "\<not> FileExists (fs w) (BrowserDir t)"
  shows "ran (snd (UnpackUpdater e t w b)) = ran w @ [[path_str b, ''/S'', ''/D='' @ path_str (BrowserDir t)]] \<and>
    fst (UnpackUpdater e t w b) =
      (case fst (run_cmd e (nsis_argv t b) (fs w)) of
         None \<Rightarrow> Inr (BrowserDir t)
       | Some err \<Rightarrow> Inl (''UnpackUpdater: windows exec fail '' @ err))"
  using assms by (simp add: UnpackUpdater_def run_w_def nsis_argv_def split: prod.splits option.splits)

text \<open>C33: on macOS UnpackUpdater always runs open with the unpack directory and binary wrapped in literal double quotes, which exec passes on unchanged.\<close>

theorem unpack_osx_quoted_args:
  "OS t = ''osx'' \<Longrightarrow> ran (snd (UnpackUpdater e t w b)) =
     ran w @ [[''open'', ''-W'', ''-n'', ''-a'', ''\"'' @ path_str (UnpackPath t) @ ''\"'', ''\"'' @ path_str b @ ''\"'']]"
  by (simp add: UnpackUpdater_def run_w_def open_argv_def split: prod.splits option.splits)

text \<open>C32: a tar stream that breaks after some entries reports the looper error and leaves those entries extracted, exactly as a complete run would have.\<close>

theorem untar_stream_error_keeps_files:
  "untar_entries u hs None w = (Inr (), w') \<Longrightarrow>
   untar_entries u hs (Some err) w = (Inl (''UnpackUpdater: Tar looper Error '' @ err), w')"
  using untar_append [of u hs "[]" "Some err" w] by simp

text \<open>C7: an archive entry named ../n is written next to the unpack directory, outside it: the tar loop does not confine entry names.\<close>

theorem unpack_path_traversal:
  assumes os: "OS t \<noteq> ''win''" "OS t \<noteq> ''osx''" and nb: "\<not> FileExists (fs w) (BrowserDir t)"
    and wf: "fs_wf (fs w)" and ud: "fs w (UnpackPath t) = Some Dir" and up: "UnpackPath t \<noteq> []"
    and bin: "fs w b = Some (File data m)" and arc: "xz_tar e data = Inr ([h], None)"
    and ty: "Typeflag h = TypeReg" and nm: "Name h = ''../'' @ n" and pn: "plain_name n"
    and free: "fs w (butlast (UnpackPath t) @ [n]) = None"
  shows "fst (UnpackUpdater e t w b) = Inr (BrowserDir t) \<and>
    fs (snd (UnpackUpdater e t w b)) (butlast (UnpackPath t) @ [n]) = Some (File (Body h) (tar_perm (Mode h))) \<and>
    \<not> prefix (UnpackPath t) (butlast (UnpackPath t) @ [n])"
proof -
  let ?U = "UnpackPath t" let ?q = "butlast (UnpackPath t) @ [n]"
  have par: "fs w (butlast ?U) = Some Dir" using wf ud up by (simp add: fs_wf_def)
  have jq: "join ?U (Name h) = ?q" using join_parent [OF pn] by (simp only: nm)
  have wr: "write_file (fs w) (join ?U (Name h)) (Body h) 438 = (None, (fs w)(?q \<mapsto> File (Body h) 438))"
    unfolding jq by (rule write_child_new [OF par free])
  have run: "UnpackUpdater e t w b =
    (Inr (BrowserDir t), w\<lparr>fs := chmod ((fs w)(?q \<mapsto> File (Body h) 438)) ?q (tar_perm (Mode h))\<rparr>)"
    using os nb wr ty by (simp add: UnpackUpdater_def unpack_archive_def mkdir_all_existing [OF wf ud]
        stat_Some ud bin arc jq)
  have out: "\<not> prefix ?U ?q"
  proof
    assume "prefix ?U ?q"
    moreover have "length ?q = length ?U" using up by simp
    ultimately have "?U = ?q" by (metis prefix_length_le prefix_order.le_less prefix_length_less less_irrefl)
    with ud free show False by simp
  qed
  show ?thesis using run out by (simp add: chmod_def)
qed

subsection \<open>Witnesses\<close>

lemma archive_world_facts:
  "fs_wf (fs archive_world)" "fs archive_world [''up''] = Some Dir"
  "\<not> FileExists (fs archive_world) [''up'', ''tor-browser_en-US'']"
  by (simp_all add: archive_world_def ready_world_def fresh_world_def fs_wf_def FileExists_def stat_def
      is_file_def)

theorem unpack_path_traversal_witness:
  "fst (UnpackUpdater (offline_env\<lparr>xz_tar := \<lambda>_. Inr ([slip_header], None)\<rparr>) sample_downloader
        archive_world [''tb'', ''a.tar.xz'']) = Inr [''up'', ''tor-browser_en-US''] \<and>
   fs (snd (UnpackUpdater (offline_env\<lparr>xz_tar := \<lambda>_. Inr ([slip_header], None)\<rparr>) sample_downloader
        archive_world [''tb'', ''a.tar.xz''])) [''evil''] = Some (File ''#!/bin/sh'' 493) \<and>
   \<not> prefix [''up''] [''evil'']"
proof -
  have bd: "BrowserDir sample_downloader = [''up'', ''tor-browser_en-US'']"
    by (simp add: BrowserDir_def sample_downloader_def join_simple)
  let ?e = "offline_env\<lparr>xz_tar := \<lambda>_. Inr ([slip_header], None)\<rparr>"
  have os: "OS sample_downloader \<noteq> ''win''" "OS sample_downloader \<noteq> ''osx''"
    and up: "UnpackPath sample_downloader = [''up'']"
    by (simp_all add: sample_downloader_def)
  have bin: "fs archive_world [''tb'', ''a.tar.xz''] = Some (File ''XZ'' 438)"
    and free: "fs archive_world [''evil''] = None"
    by (simp_all add: archive_world_def ready_world_def fresh_world_def)
  have arc: "xz_tar ?e ''XZ'' = Inr ([slip_header], None)" by simp
  have hd: "Typeflag slip_header = TypeReg" "Name slip_header = ''../'' @ ''evil''"
    "Body slip_header = ''#!/bin/sh''" "tar_perm (Mode slip_header) = 493"
    by (simp_all add: slip_header_def tar_perm_def)
  have pn: "plain_name ''evil''" by (simp add: plain_name_def)
  from unpack_path_traversal [OF os, of archive_world, unfolded bd up,
      OF archive_world_facts(3) archive_world_facts(1) archive_world_facts(2) _ bin arc hd(1) hd(2) pn]
    free hd(3,4)
  show ?thesis by (simp add: bd)
qed

theorem untar_stream_error_keeps_files_witness:
  "untar_entries [''up''] [slip_header] (Some ''unexpected EOF'') archive_world =
   (Inl ''UnpackUpdater: Tar looper Error unexpected EOF'',
    archive_world\<lparr>fs := (fs archive_world)([''evil''] \<mapsto> File ''#!/bin/sh'' 493)\<rparr>)"
proof -
  have "untar_entries [''up''] [slip_header] None archive_world =
    (Inr (), archive_world\<lparr>fs := (fs archive_world)([''evil''] \<mapsto> File ''#!/bin/sh'' 493)\<rparr>)"
    by (simp add: slip_header_def join_def archive_world_def ready_world_def fresh_world_def write_file_def
        stat_def chmod_def tar_perm_def)
  from untar_stream_error_keeps_files [OF this] show ?thesis by simp
qed

theorem untar_fidelity_witness:
  "fs (snd (untar_entries [''up''] [file_header ''x'' ''old'' 420, file_header ''x'' ''new'' 493] None archive_world))
     [''up'', ''x''] = Some (File ''new'' 493)"
proof -
  have run: "untar_entries [''up''] ([file_header ''x'' ''old'' 420] @ file_header ''x'' ''new'' 493 # []) None archive_world =
    (Inr (), snd (untar_entries [''up''] [file_header ''x'' ''old'' 420, file_header ''x'' ''new'' 493] None archive_world))"
    by (simp add: file_header_def join_def archive_world_def ready_world_def fresh_world_def write_file_def
        stat_def chmod_def)
  from untar_fidelity [OF run] show ?thesis
    by (simp add: file_header_def join_def tar_perm_def)
qed

theorem unpack_idempotent_witness:
  "UnpackUpdater offline_env sample_downloader
     (archive_world\<lparr>fs := (fs archive_world)([''up'', ''tor-browser_en-US''] \<mapsto> Dir)\<rparr>) [''tb'', ''a.tar.xz''] =
   (Inr [''up'', ''tor-browser_en-US''],
    archive_world\<lparr>fs := (fs archive_world)([''up'', ''tor-browser_en-US''] \<mapsto> Dir)\<rparr>)"
proof -
  have bd: "BrowserDir sample_downloader = [''up'', ''tor-browser_en-US'']"
    by (simp add: BrowserDir_def sample_downloader_def join_simple)
  show ?thesis
    by (rule unpack_idempotent [where t = sample_downloader, unfolded bd])
      (simp_all add: sample_downloader_def FileExists_def stat_def)
qed

theorem unpack_windows_installer_witness:
  "ran (snd (UnpackUpdater offline_env win_downloader archive_world [''tb'', ''a.exe''])) =
     [[''/tb/a.exe'', ''/S'', ''/D=/up/tor-browser_en-US'']] \<and>
   fst (UnpackUpdater offline_env win_downloader archive_world [''tb'', ''a.exe'']) = Inr [''up'', ''tor-browser_en-US'']"
proof -
  have "ran (snd (UnpackUpdater offline_env win_downloader archive_world [''tb'', ''a.exe''])) =
      ran archive_world @ [[path_str [''tb'', ''a.exe''], ''/S'', ''/D='' @ path_str [''up'', ''tor-browser_en-US'']]] \<and>
    fst (UnpackUpdater offline_env win_downloader archive_world [''tb'', ''a.exe'']) =
      (case fst (run_cmd offline_env (nsis_argv win_downloader [''tb'', ''a.exe'']) (fs archive_world)) of
         None \<Rightarrow> Inr [''up'', ''tor-browser_en-US'']
       | Some err \<Rightarrow> Inl (''UnpackUpdater: windows exec fail '' @ err))"
    using unpack_windows_installer [OF win_downloader_facts(1), unfolded win_downloader_facts(3),
        OF archive_world_facts(3)] by (simp only: win_downloader_facts(3))
  then show ?thesis
    by (simp add: archive_world_def ready_world_def fresh_world_def offline_env_def path_str_def)
qed

theorem unpack_osx_quoted_args_witness:
  "ran (snd (UnpackUpdater offline_env osx_downloader archive_world [''tb'', ''a.dmg''])) =
     [[''open'', ''-W'', ''-n'', ''-a'', ''\"/up\"'', ''\"/tb/a.dmg\"'']]"
  using unpack_osx_quoted_args [where t = osx_downloader and w = archive_world and e = offline_env
      and b = "[''tb'', ''a.dmg'']"]
  by (simp add: osx_downloader_def sample_downloader_def archive_world_def ready_world_def fresh_world_def
      path_str_def)

end
