(* ===== verification/Signature.thy ===== *)
theory Signature
  imports Installer
begin

text \<open>
  The signature gate (get.go, \<open>CheckSignature\<close> and \<open>BoolCheckSignature\<close>): read the
  signing key from the download directory, parse it, read the binary and the detached
  signature, call \<open>pgp.Verify\<close>, and hand the binary to \<open>UnpackUpdater\<close>.  The oracle
  \<open>pgp_verify entity message signature\<close> is go-pgp's \<open>Verify\<close>; the code passes the
  signature as the message and the binary as the signature, and installs when the call
  returns an error.
\<close>

section \<open>Definitions\<close>

definition CheckSignature :: "env \<Rightarrow> TBDownloader \<Rightarrow> world \<Rightarrow> path \<Rightarrow> path \<Rightarrow> (goerror + path) \<times> world" where
  "CheckSignature e t w binpath sigpath =
     (case read_file (fs w) (join (DownloadPath t) ''TPO-signing-key.pub'') of
        Inl err \<Rightarrow> (Inl (errorf ''CheckSignature pkBytes'' err), w)
      | Inr pkBytes \<Rightarrow>
        (case pgp_entity e pkBytes of
           Inl err \<Rightarrow> (Inl (errorf ''CheckSignature pk'' err), w)
         | Inr pk \<Rightarrow>
           (case read_file (fs w) binpath of
              Inl err \<Rightarrow> (Inl (errorf ''CheckSignature bin'' err), w)
            | Inr bin \<Rightarrow>
              (case read_file (fs w) sigpath of
                 Inl err \<Rightarrow> (Inl (errorf ''CheckSignature sig'' err), w)
               | Inr sig \<Rightarrow>
                 (case pgp_verify e pk sig bin of
                    Some _ \<Rightarrow> UnpackUpdater e t w binpath
                  | None \<Rightarrow> (Inl (errorf ''CheckSignature'' ''signature check failed''), w))))))"

definition BoolCheckSignature :: "env \<Rightarrow> TBDownloader \<Rightarrow> world \<Rightarrow> path \<Rightarrow> path \<Rightarrow> bool \<times> world" where
  "BoolCheckSignature e t w binpath sigpath =
     (let (r, w') = CheckSignature e t w binpath sigpath in (case r of Inl _ \<Rightarrow> False | Inr _ \<Rightarrow> True, w'))"

text \<open>
  What the gate promises (its doc comment and the spec): the updater is installed only
  when the detached signature verifies over the binary with the key, i.e. when
  \<open>Verify(pk, bin, sig)\<close> returns no error.
\<close>

definition signature_valid :: "env \<Rightarrow> bytes \<Rightarrow> bytes \<Rightarrow> bytes \<Rightarrow> bool" where
  "signature_valid e pk bin sig \<longleftrightarrow> pgp_verify e pk bin sig = None"

text \<open>The four inputs of the gate, read from disk.\<close>

definition gate_inputs :: "env \<Rightarrow> TBDownloader \<Rightarrow> world \<Rightarrow> path \<Rightarrow> path \<Rightarrow> bytes \<Rightarrow> bytes \<Rightarrow> bytes \<Rightarrow> bool" where
  "gate_inputs e t w binpath sigpath pk bin sig \<longleftrightarrow>
     (\<exists>pkb. read_file (fs w) (join (DownloadPath t) ''TPO-signing-key.pub'') = Inr pkb \<and>
            pgp_entity e pkb = Inr pk) \<and>
     read_file (fs w) binpath = Inr bin \<and> read_file (fs w) sigpath = Inr sig"

text \<open>A verifier that accepts exactly one (message, signature) pair under one key.\<close>

definition strict_env :: "bytes \<Rightarrow> bytes \<Rightarrow> env" where
  "strict_env msg sg = offline_env\<lparr>pgp_entity := (\<lambda>b. if b = ''KEY'' then Inr ''PK'' else Inl ''openpgp: invalid data''),
     pgp_verify := (\<lambda>k m s. if k = ''PK'' \<and> m = msg \<and> s = sg then None else Some ''openpgp: invalid signature'')\<rparr>"

definition signed_world :: "bytes \<Rightarrow> bytes \<Rightarrow> world" where
  "signed_world bin sig = ready_world\<lparr>fs := (fs ready_world)([''tb'', ''a.exe''] \<mapsto> File bin 438,
     [''tb'', ''a.exe.asc''] \<mapsto> File sig 438)\<rparr>"

section \<open>Lemmas\<close>

lemma gate_inputs_CheckSignature:
  assumes "gate_inputs e t w binpath sigpath pk bin sig"
  shows "CheckSignature e t w binpath sigpath =
    (case pgp_verify e pk sig bin of
       Some _ \<Rightarrow> UnpackUpdater e t w binpath
     | None \<Rightarrow> (Inl ''CheckSignature: signature check failed'', w))"
  using assms by (auto simp: gate_inputs_def CheckSignature_def errorf_def split: option.splits)

lemma CheckSignature_unchanged:
  "\<not> (\<exists>pk bin sig. gate_inputs e t w binpath sigpath pk bin sig \<and> pgp_verify e pk sig bin \<noteq> None) \<Longrightarrow>
   snd (CheckSignature e t w binpath sigpath) = w"
  by (auto simp: CheckSignature_def gate_inputs_def split: sum.splits option.splits)

lemma signed_world_facts:
  "fs_wf (fs (signed_world bin sig))"
  "read_file (fs (signed_world bin sig)) [''tb'', ''TPO-signing-key.pub''] = Inr ''KEY''"
  "read_file (fs (signed_world bin sig)) [''tb'', ''a.exe''] = Inr bin"
  "read_file (fs (signed_world bin sig)) [''tb'', ''a.exe.asc''] = Inr sig"
  by (simp_all add: signed_world_def ready_world_def fresh_world_def fs_wf_def read_file_def stat_def)

lemma signed_world_gate:
  "gate_inputs (strict_env m s) win_downloader (signed_world bin sig) [''tb'', ''a.exe''] [''tb'', ''a.exe.asc'']
     ''PK'' bin sig"
  by (simp add: gate_inputs_def signed_world_facts win_downloader_facts join_simple strict_env_def)

lemma check_wf:
  "run_keeps_wf e \<Longrightarrow> fs_wf (fs w) \<Longrightarrow> fs_wf (fs (snd (CheckSignature e t w binpath sigpath)))"
  using unpack_wf [of e w t binpath]
  by (auto simp: CheckSignature_def split: sum.splits option.splits)

section \<open>Properties\<close>


text \<open>C8: when that verify call succeeds, CheckSignature refuses with 'signature check failed' and leaves the world unchanged.\<close>

theorem gate_refuses_on_passed_check:
  assumes "gate_inputs e t w binpath sigpath pk bin sig" and "signature_valid e pk sig bin"
  shows "CheckSignature e t w binpath sigpath = (Inl ''CheckSignature: signature check failed'', w)"
  using gate_inputs_CheckSignature [OF assms(1)] assms(2) by (simp add: signature_valid_def)

text \<open>C2: with a verifier that accepts only the genuine binary and signature, a tampered binary is installed on Windows: the installer subprocess runs.\<close>

theorem tampered_binary_installed:
  "\<not> signature_valid (strict_env ''BIN'' ''SIG'') ''PK'' ''EVIL'' ''SIG'' \<and>
   CheckSignature (strict_env ''BIN'' ''SIG'') win_downloader (signed_world ''EVIL'' ''SIG'')
      [''tb'', ''a.exe''] [''tb'', ''a.exe.asc''] =
   (Inr [''up'', ''tor-browser_en-US''],
    signed_world ''EVIL'' ''SIG''\<lparr>ran := [[''/tb/a.exe'', ''/S'', ''/D=/up/tor-browser_en-US'']]\<rparr>)"
proof -
  have nb: "\<not> FileExists (fs (signed_world ''EVIL'' ''SIG'')) [''up'', ''tor-browser_en-US'']"
    by (simp add: signed_world_def ready_world_def fresh_world_def FileExists_def stat_def is_file_def)
  show ?thesis
    using gate_inputs_CheckSignature [OF signed_world_gate] nb
    by (simp add: signature_valid_def strict_env_def offline_env_def UnpackUpdater_def win_downloader_facts
        run_w_def nsis_argv_def path_str_def signed_world_def ready_world_def fresh_world_def)
qed

text \<open>Property: outside macOS with the browser directory present, BoolCheckSignature answers true for any binary whose swapped check fails, without running anything.\<close>

theorem bool_check_installed_dir:
  assumes "OS t \<noteq> ''osx''" and "FileExists (fs w) (BrowserDir t)"
    and "gate_inputs e t w binpath sigpath pk bin sig" and "\<not> signature_valid e pk sig bin"
  shows "BoolCheckSignature e t w binpath sigpath = (True, w)"
  using gate_inputs_CheckSignature [OF assms(3)] assms(1,2,4)
  by (auto simp: BoolCheckSignature_def signature_valid_def UnpackUpdater_def)

subsection \<open>Witnesses\<close>


theorem gate_refuses_on_passed_check_witness:
  "CheckSignature (strict_env ''SIG'' ''BIN'') win_downloader (signed_world ''BIN'' ''SIG'')
      [''tb'', ''a.exe''] [''tb'', ''a.exe.asc''] =
   (Inl ''CheckSignature: signature check failed'', signed_world ''BIN'' ''SIG'')"
  by (rule gate_refuses_on_passed_check [OF signed_world_gate])
    (simp add: signature_valid_def strict_env_def)

theorem bool_check_installed_dir_witness:
  "BoolCheckSignature (strict_env ''BIN'' ''SIG'') win_downloader
     ((signed_world ''EVIL'' ''SIG'')\<lparr>fs := (fs (signed_world ''EVIL'' ''SIG''))([''up'', ''tor-browser_en-US''] \<mapsto> Dir)\<rparr>)
     [''tb'', ''a.exe''] [''tb'', ''a.exe.asc''] =
   (True, (signed_world ''EVIL'' ''SIG'')\<lparr>fs := (fs (signed_world ''EVIL'' ''SIG''))([''up'', ''tor-browser_en-US''] \<mapsto> Dir)\<rparr>)"
proof -
  let ?w = "(signed_world ''EVIL'' ''SIG'')\<lparr>fs := (fs (signed_world ''EVIL'' ''SIG''))([''up'', ''tor-browser_en-US''] \<mapsto> Dir)\<rparr>"
  have g: "gate_inputs (strict_env ''BIN'' ''SIG'') win_downloader ?w [''tb'', ''a.exe''] [''tb'', ''a.exe.asc''] ''PK'' ''EVIL'' ''SIG''"
    by (simp add: gate_inputs_def signed_world_def ready_world_def fresh_world_def read_file_def stat_def
        win_downloader_facts join_simple strict_env_def)
  have ex: "FileExists (fs ?w) (BrowserDir win_downloader)"
    by (simp add: win_downloader_facts FileExists_def stat_def)
  show ?thesis
    by (rule bool_check_installed_dir [OF _ ex g]) (simp_all add: win_downloader_facts signature_valid_def strict_env_def)
qed

end
