(* ===== verification/Pipeline.thy ===== *)
theory Pipeline
  imports Signature
begin

text \<open>
  The operations a caller of package \<open>tbget\<close> performs on one downloader, composed into
  runs: bootstrap (\<open>MakeTBDirectory\<close>), fetch one artifact (\<open>SingleFileDownload\<close>),
  resolve and fetch the updater and its signature (\<open>DownloadUpdaterForLang\<close>), and
  check and install (\<open>CheckSignature\<close>).  A state is the downloader, the world and
  whether the process has exited (\<open>log.Fatal\<close> or a panic); an operation that never
  returns has no successor.  \<open>run_ops\<close> runs a sequence of operations; \<open>reachable\<close> is
  the step relation's reflexive-transitive closure from a start state.
\<close>

section \<open>Definitions\<close>

datatype operation =
    OpBootstrap
  | OpFetch string string
  | OpDownload string
  | OpCheck path path

record pstate =
  dl :: TBDownloader
  wd :: world
  halted :: bool

primrec is_abort :: "'a outcome \<Rightarrow> bool" where
  "is_abort (Ret _) = False"
| "is_abort (Abort _) = True"

primrec is_check :: "operation \<Rightarrow> bool" where
  "is_check OpBootstrap = False"
| "is_check (OpFetch _ _) = False"
| "is_check (OpDownload _) = False"
| "is_check (OpCheck _ _) = True"

definition exec_op :: "env \<Rightarrow> operation \<Rightarrow> pstate \<Rightarrow> pstate option" where
  "exec_op e op s =
     (if halted s then Some s
      else case op of
        OpBootstrap \<Rightarrow>
          (case MakeTBDirectory (dl s) (wd s) of (r, w') \<Rightarrow> Some (s\<lparr>wd := w', halted := is_abort r\<rparr>))
      | OpFetch url name \<Rightarrow>
          (case SingleFileDownload e (dl s) (wd s) url name of
             (r, w') \<Rightarrow> Some (s\<lparr>wd := w', halted := is_abort r\<rparr>))
      | OpDownload ietf \<Rightarrow>
          (case DownloadUpdaterForLang e (dl s) (wd s) ietf of
             None \<Rightarrow> None
           | Some (r, t', w') \<Rightarrow> Some \<lparr>dl = t', wd = w', halted = is_abort r\<rparr>)
      | OpCheck binpath sigpath \<Rightarrow>
          Some (s\<lparr>wd := snd (CheckSignature e (dl s) (wd s) binpath sigpath)\<rparr>))"

fun run_ops :: "env \<Rightarrow> operation list \<Rightarrow> pstate \<Rightarrow> pstate option" where
  "run_ops e [] s = Some s"
| "run_ops e (op # ops) s = (case exec_op e op s of None \<Rightarrow> None | Some s' \<Rightarrow> run_ops e ops s')"

inductive reachable :: "env \<Rightarrow> pstate \<Rightarrow> pstate \<Rightarrow> bool" for e s0 where
  reach_init: "reachable e s0 s0"
| reach_step: "reachable e s0 s \<Longrightarrow> exec_op e op s = Some s' \<Longrightarrow> reachable e s0 s'"

text \<open>A Linux archive whose one entry names the signing key through the unpack directory's parent.\<close>

definition key_header :: tar_header where
  "key_header = \<lparr>Name = ''../tb/TPO-signing-key.pub'', Typeflag = TypeReg, Mode = 420, Body = ''ATTACKER''\<rparr>"

definition key_swap_env :: env where
  "key_swap_env = (strict_env ''BIN'' ''SIG'')\<lparr>xz_tar := (\<lambda>_. Inr ([key_header], None))\<rparr>"

definition signed_state :: pstate where
  "signed_state = \<lparr>dl = sample_downloader, wd = signed_world ''BIN'' ''SIG'', halted = False\<rparr>"

section \<open>Lemmas\<close>

lemma exec_op_steady:
  assumes run: "exec_op e op s = Some s'" and nc: "\<not> is_check op"
  shows "steady (wd s) (wd s')"
proof (cases "halted s")
  case True
  with run show ?thesis by (simp add: exec_op_def steady_refl)
next
  case False
  show ?thesis
  proof (cases op)
    case OpBootstrap
    with run False show ?thesis using make_tb_steady [of "wd s" "dl s"]
      by (auto simp: exec_op_def split: prod.splits)
  next
    case (OpFetch url name)
    with run False show ?thesis using sfd_steady [of "wd s" e "dl s" url name]
      by (auto simp: exec_op_def split: prod.splits)
  next
    case (OpDownload ietf)
    with run False show ?thesis by (auto simp: exec_op_def dest: download_steady split: option.splits)
  next
    case (OpCheck b sg)
    with nc show ?thesis by simp
  qed
qed


lemma run_ops_reachable: "run_ops e ops s = Some s' \<Longrightarrow> reachable e s0 s \<Longrightarrow> reachable e s0 s'"
proof (induction ops arbitrary: s)
  case Nil
  then show ?case by simp
next
  case (Cons op ops)
  then obtain s1 where "exec_op e op s = Some s1" and "run_ops e ops s1 = Some s'"
    by (auto split: option.splits)
  with Cons show ?case by (blast intro: reach_step)
qed

lemma run_ops_total:
  "list_all (\<lambda>op. \<forall>l. op \<noteq> OpDownload l) ops \<Longrightarrow> \<exists>s'. run_ops e ops s = Some s'"
proof (induction ops arbitrary: s)
  case Nil
  then show ?case by simp
next
  case (Cons op ops)
  then have "exec_op e op s \<noteq> None"
    by (cases op) (auto simp: exec_op_def split: prod.splits)
  then obtain s1 where "exec_op e op s = Some s1" by blast
  with Cons show ?case by simp
qed

lemma key_swap_gate:
  "gate_inputs key_swap_env sample_downloader (signed_world ''BIN'' ''SIG'') [''tb'', ''a.exe''] [''tb'', ''a.exe.asc'']
     ''PK'' ''BIN'' ''SIG''"
  by (simp add: gate_inputs_def signed_world_facts sample_downloader_def join_simple key_swap_env_def strict_env_def)

lemma key_swap_unpack:
  "UnpackUpdater key_swap_env sample_downloader (signed_world ''BIN'' ''SIG'') [''tb'', ''a.exe''] =
    (Inr [''up'', ''tor-browser_en-US''],
     (signed_world ''BIN'' ''SIG'')\<lparr>fs := (fs (signed_world ''BIN'' ''SIG''))([''tb'', ''TPO-signing-key.pub''] \<mapsto> File ''ATTACKER'' 420)\<rparr>)"
proof -
  let ?w = "signed_world ''BIN'' ''SIG''"
  have bd: "BrowserDir sample_downloader = [''up'', ''tor-browser_en-US'']"
    by (simp add: BrowserDir_def sample_downloader_def join_simple)
  have wf: "fs_wf (fs ?w)" and up: "fs ?w [''up''] = Some Dir"
    by (simp_all add: signed_world_facts) (simp add: signed_world_def ready_world_def fresh_world_def)
  have nb: "\<not> FileExists (fs ?w) [''up'', ''tor-browser_en-US'']"
    by (simp add: signed_world_def ready_world_def fresh_world_def FileExists_def stat_def is_file_def)
  have jk: "join [''up''] (Name key_header) = [''tb'', ''TPO-signing-key.pub'']"
    by (simp add: key_header_def join_def)
  have wr: "write_file (fs ?w) [''tb'', ''TPO-signing-key.pub''] ''ATTACKER'' 438 =
      (None, (fs ?w)([''tb'', ''TPO-signing-key.pub''] \<mapsto> File ''ATTACKER'' 420))"
    using write_child_file [of "fs ?w" "[''tb'']" "''TPO-signing-key.pub''" "''KEY''" 420 "''ATTACKER''" 438]
    by (simp add: signed_world_def ready_world_def fresh_world_def)
  have os: "OS sample_downloader = ''linux''" "UnpackPath sample_downloader = [''up'']"
    by (simp_all add: sample_downloader_def)
  have bin: "fs ?w [''tb'', ''a.exe''] = Some (File ''BIN'' 438)"
    by (simp add: signed_world_def)
  have xz: "xz_tar key_swap_env ''BIN'' = Inr ([key_header], None)" by (simp add: key_swap_env_def)
  have hd: "Typeflag key_header = TypeReg" "Body key_header = ''ATTACKER''" "tar_perm (Mode key_header) = 420"
    by (simp_all add: key_header_def tar_perm_def)
  have ut: "untar_entries [''up''] [key_header] None ?w =
      (Inr (), ?w\<lparr>fs := (fs ?w)([''tb'', ''TPO-signing-key.pub''] \<mapsto> File ''ATTACKER'' 420)\<rparr>)"
    using wr by (simp add: jk hd chmod_def)
  have "UnpackUpdater key_swap_env sample_downloader ?w [''tb'', ''a.exe''] =
      unpack_archive key_swap_env sample_downloader ?w [''tb'', ''a.exe'']"
    using nb by (simp add: UnpackUpdater_def os bd)
  also have "\<dots> = (Inr [''up'', ''tor-browser_en-US''],
     ?w\<lparr>fs := (fs ?w)([''tb'', ''TPO-signing-key.pub''] \<mapsto> File ''ATTACKER'' 420)\<rparr>)"
    by (simp add: unpack_archive_def Let_def os mkdir_all_existing [OF wf up] stat_Some up bin xz ut bd
        del: untar_entries.simps)
  finally show ?thesis .
qed

section \<open>Properties\<close>


text \<open>C17: a run that contains no check runs no subprocess: the
  bootstrap, the fetcher and the resolver never execute anything.\<close>

theorem subprocess_only_in_check:
  "run_ops e ops s0 = Some s \<Longrightarrow> list_all (\<lambda>op. \<not> is_check op) ops \<Longrightarrow> ran (wd s) = ran (wd s0)"
proof (induction ops arbitrary: s0)
  case Nil
  then show ?case by simp
next
  case (Cons op ops)
  then obtain s1 where st: "exec_op e op s0 = Some s1" and rest: "run_ops e ops s1 = Some s"
    by (auto split: option.splits)
  have "ran (wd s1) = ran (wd s0)" using steady_ran [OF exec_op_steady [OF st]] Cons.prems(2) by simp
  with Cons.IH [OF rest] Cons.prems(2) show ?case by simp
qed

text \<open>C3: the trusted key is not safe from the installer:
  an archive whose entry names \<open>../tb/TPO-signing-key.pub\<close> replaces the key during a check,
  and the next bootstrap keeps the replacement because a key file exists.\<close>

theorem archive_replaces_trusted_key:
  "read_file (fs (wd signed_state)) (key_path sample_downloader) = Inr ''KEY'' \<and>
   run_ops key_swap_env [OpCheck [''tb'', ''a.exe''] [''tb'', ''a.exe.asc''], OpBootstrap] signed_state =
     Some \<lparr>dl = sample_downloader,
           wd = (signed_world ''BIN'' ''SIG'')\<lparr>fs := (fs (signed_world ''BIN'' ''SIG''))([''tb'', ''TPO-signing-key.pub''] \<mapsto> File ''ATTACKER'' 420)\<rparr>,
           halted = False\<rparr> \<and>
   read_file ((fs (signed_world ''BIN'' ''SIG''))([''tb'', ''TPO-signing-key.pub''] \<mapsto> File ''ATTACKER'' 420))
     (key_path sample_downloader) = Inr ''ATTACKER''"
proof -
  let ?w1 = "(signed_world ''BIN'' ''SIG'')\<lparr>fs := (fs (signed_world ''BIN'' ''SIG''))([''tb'', ''TPO-signing-key.pub''] \<mapsto> File ''ATTACKER'' 420)\<rparr>"
  have kp: "key_path sample_downloader = [''tb'', ''TPO-signing-key.pub'']"
    by (simp add: key_path_simple sample_downloader_def)
  have chk: "CheckSignature key_swap_env sample_downloader (signed_world ''BIN'' ''SIG'') [''tb'', ''a.exe''] [''tb'', ''a.exe.asc''] =
      (Inr [''up'', ''tor-browser_en-US''], ?w1)"
    using gate_inputs_CheckSignature [OF key_swap_gate] key_swap_unpack
    by (simp add: key_swap_env_def strict_env_def)
  have boot: "MakeTBDirectory sample_downloader ?w1 = (Ret (), ?w1)"
    by (rule bootstrapped_noop)
      (simp add: bootstrapped_def signed_world_def ready_world_def fresh_world_def sample_downloader_def
        key_path_simple xpi_paths_simple FileExists_def stat_def mkdir_all_def)
  show ?thesis
    using chk boot
    by (simp add: kp exec_op_def signed_state_def read_file_def stat_def signed_world_def ready_world_def
        fresh_world_def)
qed

subsection \<open>Witnesses\<close>


theorem subprocess_only_in_check_witness:
  "ran (wd (the (run_ops offline_env [OpBootstrap, OpFetch ''https://dist/a'' ''a.tar.xz''] signed_state))) = []"
proof -
  obtain s where r: "run_ops offline_env [OpBootstrap, OpFetch ''https://dist/a'' ''a.tar.xz''] signed_state = Some s"
    using run_ops_total [of "[OpBootstrap, OpFetch ''https://dist/a'' ''a.tar.xz'']"] by auto
  have "ran (wd s) = ran (wd signed_state)"
    by (rule subprocess_only_in_check [OF r]) simp
  with r show ?thesis by (simp add: signed_state_def signed_world_def ready_world_def fresh_world_def)
qed

end
