(* ===== verification/Command.thy ===== *)
theory Command
  imports Signature
begin

text \<open>
  The command (src/main.go): download the updater and its signature for the language
  \<open>""\<close>, then check the signature, panicking when the download fails and when the check
  returns no error.  main.go calls \<open>DownloadUpdaterForLang\<close> and \<open>CheckSignature\<close> as
  package functions, which package \<open>tbget\<close> does not declare (they are methods of
  \<open>TBDownloader\<close>); the model calls both methods on one downloader, the receiver the
  calls need, in the order main.go makes them.
\<close>

section \<open>Definitions\<close>

definition main_go :: "env \<Rightarrow> TBDownloader \<Rightarrow> world \<Rightarrow> (unit outcome \<times> world) option" where
  "main_go e t w =
     (case DownloadUpdaterForLang e t w '''' of
        None \<Rightarrow> None
      | Some (Abort a, t1, w1) \<Rightarrow> Some (Abort a, w1)
      | Some (Ret (Inl (err, _)), t1, w1) \<Rightarrow> Some (Abort (Panic err), w1)
      | Some (Ret (Inr (bin, sig)), t1, w1) \<Rightarrow>
          (case CheckSignature e t1 w1 bin sig of
             (Inl err, w2) \<Rightarrow> Some (Ret (), w2)
           | (Inr _, w2) \<Rightarrow> Some (Abort (Panic ''Signature check failed''), w2)))"

text \<open>A network that answers every URL with the same bytes, the sample manifest, and a
  verifier that accepts exactly those bytes as message and signature.\<close>

definition main_env :: env where
  "main_env = (strict_env ''BYTES'' ''BYTES'')\<lparr>http_get := (\<lambda>_. Inr ''BYTES''),
     json_decode := (\<lambda>_. Inr sample_manifest)\<rparr>"

text \<open>The language map the sample manifest gives the platform key \<open>linux64\<close>.\<close>

abbreviation "main_um \<equiv> obj_lookup [(''en-US'', entry ''https://dist/en-US.tar.xz''), (''fr'', entry ''https://dist/fr.tar.xz''),
       (''de'', JObj [(''binary'', JStr ''https://dist/de.tar.xz'')])]"

section \<open>Lemmas\<close>

lemma main_env_facts:
  "GetRuntimePair main_env sample_downloader = (''linux64'', sample_downloader)"
  "http_get main_env u = Inr ''BYTES''"
  "manifest_updater main_env ''BYTES'' ''linux64'' = Some main_um"
  by (simp_all add: main_env_def strict_env_def offline_env_def GetRuntimePair_def sample_downloader_def Let_def
      manifest_updater_def sample_manifest_def unmarshal_map_def as_map_def obj_lookup_def)

lemma main_download:
  "\<exists>w1. DownloadUpdaterForLang main_env sample_downloader ready_world '''' =
     Some (Ret (Inr ([''tb'', ''torbrowser-linux64-.tar.xz''], [''tb'', ''torbrowser-linux64-.tar.xz.asc''])),
           sample_downloader, w1) \<and>
     fs w1 [''tb'', ''TPO-signing-key.pub''] = Some (File ''KEY'' 420) \<and>
     fs w1 [''tb'', ''torbrowser-linux64-.tar.xz''] = Some (File ''BYTES'' 438) \<and>
     fs w1 [''tb'', ''torbrowser-linux64-.tar.xz.asc''] = Some (File ''BYTES'' 438) \<and> ran w1 = []"
proof -
  let ?t = sample_downloader and ?e = main_env
  let ?w1 = "ready_world\<lparr>fetched := fetched ready_world @ [TOR_UPDATES_URL]\<rparr>"
  have dlp: "DownloadPath ?t = [''tb'']" by (simp add: sample_downloader_def)
  have b1: "bootstrapped ?t (fs ?w1)" using ready_world_facts(1) by simp
  have n1: "fs ?w1 ([''tb''] @ [''downloads.json'']) = None" by (simp add: ready_world_def fresh_world_def)
  have wr: "write_file (fs ?w1) (join (DownloadPath ?t) ''downloads.json'') ''BYTES'' 420 =
      (None, (fs ?w1)([''tb''] @ [''downloads.json''] \<mapsto> File ''BYTES'' 420))"
    using write_child_new [of "fs ?w1" "[''tb'']" "''downloads.json''" "''BYTES''" 420] n1 ready_world_facts(3)
    by (simp add: dlp join_simple)
  let ?w2 = "?w1\<lparr>fs := (fs ?w1)([''tb''] @ [''downloads.json''] \<mapsto> File ''BYTES'' 420)\<rparr>"
  have b2: "bootstrapped ?t (fs ?w2)"
    using bootstrapped_grows [OF b1 fs_grows_new [of "fs ?w1" "[''tb''] @ [''downloads.json'']" "File ''BYTES'' 420"]] n1
    by simp
  have mk2: "MakeTBDirectory ?t ?w2 = (Ret (), ?w2)" by (rule bootstrapped_noop [OF b2])
  have res: "GetUpdaterForLangFromJSONBytes ?e ''BYTES'' '''' ?t ?w2 =
      Some (updater_urls (entry ''https://dist/en-US.tar.xz''), ?t, ?w2)"
  proof -
    have "GetUpdaterForLangFromJSONBytes ?e ''BYTES'' '''' ?t ?w2 =
        GetUpdaterForLangFromJSONBytes ?e ''BYTES'' (Lang ?t) ?t ?w2"
      by (rule resolve_recurs [OF mk2 main_env_facts(1) main_env_facts(3)])
        (simp_all add: obj_lookup_def lang_prefix_def)
    also have "\<dots> = Some (updater_urls (entry ''https://dist/en-US.tar.xz''), ?t, ?w2)"
      by (rule resolve_found [OF mk2 main_env_facts(1) main_env_facts(3)])
        (simp add: obj_lookup_def sample_downloader_def)
    finally show ?thesis .
  qed
  have get: "GetUpdaterForLang ?e '''' ?t ready_world =
      Some (Ret (Inr (''https://dist/en-US.tar.xz'', ''https://dist/en-US.tar.xz.asc'')), ?t, ?w2)"
    using res wr bootstrapped_noop [OF b1]
    by (simp add: GetUpdaterForLang_def GetUpdaterForLangFromJSON_def http_get_w_def main_env_facts(2)
        updater_urls_def entry_def as_map_def as_string_def obj_lookup_def)
  have npp: "NamePerPlatform ?e ?t '''' = (''torbrowser-linux64-.tar.xz'', ?t)"
    using main_env_facts(1) by (simp add: NamePerPlatform_def sample_downloader_def)
  have wf2: "fs_wf (fs ?w2)" using write_file_wf [OF _ wr] ready_world_facts(2) by simp
  have d2: "fs ?w2 (DownloadPath ?t) = Some Dir" using ready_world_facts(3) by (simp add: dlp)
  let ?s = "''torbrowser-linux64-.tar.xz.asc''" and ?n = "''torbrowser-linux64-.tar.xz''"
  have ns: "fs ?w2 (DownloadPath ?t @ [?s]) = None" by (simp add: dlp ready_world_def fresh_world_def)
  have s1: "SingleFileDownload ?e ?t ?w2 ''https://dist/en-US.tar.xz.asc'' ?s =
      (Ret (Inr (DownloadPath ?t @ [?s])), ?w2\<lparr>fetched := fetched ?w2 @ [''https://dist/en-US.tar.xz.asc''],
         fs := (fs ?w2)(DownloadPath ?t @ [?s] \<mapsto> File ''BYTES'' 438)\<rparr>)"
    by (rule sfd_first [OF b2 wf2 d2 _ ns main_env_facts(2)]) (simp add: plain_name_def)
  let ?w3 = "?w2\<lparr>fetched := fetched ?w2 @ [''https://dist/en-US.tar.xz.asc''],
         fs := (fs ?w2)(DownloadPath ?t @ [?s] \<mapsto> File ''BYTES'' 438)\<rparr>"
  have b3: "bootstrapped ?t (fs ?w3)"
    using bootstrapped_grows [OF b2 fs_grows_new [of "fs ?w2" "DownloadPath ?t @ [?s]" "File ''BYTES'' 438"]] ns by simp
  have wf3: "fs_wf (fs ?w3)"
    using write_file_wf [OF wf2 write_child_new [of "fs ?w2" "DownloadPath ?t" ?s "''BYTES''" 438]] d2 ns by simp
  have d3: "fs ?w3 (DownloadPath ?t) = Some Dir" using d2 by (simp add: dlp)
  have nn: "fs ?w3 (DownloadPath ?t @ [?n]) = None" by (simp add: dlp ready_world_def fresh_world_def)
  have s2: "SingleFileDownload ?e ?t ?w3 ''https://dist/en-US.tar.xz'' ?n =
      (Ret (Inr (DownloadPath ?t @ [?n])), ?w3\<lparr>fetched := fetched ?w3 @ [''https://dist/en-US.tar.xz''],
         fs := (fs ?w3)(DownloadPath ?t @ [?n] \<mapsto> File ''BYTES'' 438)\<rparr>)"
    by (rule sfd_first [OF b3 wf3 d3 _ nn main_env_facts(2)]) (simp add: plain_name_def)
  show ?thesis using get npp s1 s2
    by (simp add: DownloadUpdaterForLang_def dlp ready_world_def fresh_world_def)
qed


lemma main_go_downloaded:
  "DownloadUpdaterForLang e t w '''' = Some (Ret (Inr (bin, sig)), t1, w1) \<Longrightarrow>
   main_go e t w = (case CheckSignature e t1 w1 bin sig of
       (Inl err, w2) \<Rightarrow> Some (Ret (), w2)
     | (Inr _, w2) \<Rightarrow> Some (Abort (Panic ''Signature check failed''), w2))"
  by (simp add: main_go_def)

section \<open>Properties\<close>

text \<open>C5: with the artifacts downloaded and the four inputs of the gate read, the command
  exits normally exactly when the verify call as written accepts, having installed
  nothing, and otherwise runs the installer and panics with "Signature check failed"
  when it succeeds.\<close>

theorem main_reports_inverted:
  assumes dl: "DownloadUpdaterForLang e t w '''' = Some (Ret (Inr (bin, sig)), t1, w1)"
    and g: "gate_inputs e t1 w1 bin sig pk b s"
  shows "main_go e t w =
    (if pgp_verify e pk s b = None then Some (Ret (), w1)
     else case UnpackUpdater e t1 w1 bin of
       (Inl _, w2) \<Rightarrow> Some (Ret (), w2)
     | (Inr _, w2) \<Rightarrow> Some (Abort (Panic ''Signature check failed''), w2))"
  using main_go_downloaded [OF dl] gate_inputs_CheckSignature [OF g]
  by (auto split: option.splits sum.splits prod.splits)

subsection \<open>Witnesses\<close>

theorem main_reports_inverted_witness:
  "\<exists>w'. main_go main_env sample_downloader ready_world = Some (Ret (), w') \<and> ran w' = []"
proof -
  obtain w1 where d: "DownloadUpdaterForLang main_env sample_downloader ready_world '''' =
     Some (Ret (Inr ([''tb'', ''torbrowser-linux64-.tar.xz''], [''tb'', ''torbrowser-linux64-.tar.xz.asc''])),
           sample_downloader, w1)"
    and k: "fs w1 [''tb'', ''TPO-signing-key.pub''] = Some (File ''KEY'' 420)"
    and b: "fs w1 [''tb'', ''torbrowser-linux64-.tar.xz''] = Some (File ''BYTES'' 438)"
    and s: "fs w1 [''tb'', ''torbrowser-linux64-.tar.xz.asc''] = Some (File ''BYTES'' 438)"
    and r: "ran w1 = []"
    using main_download by blast
  have g: "gate_inputs main_env sample_downloader w1 [''tb'', ''torbrowser-linux64-.tar.xz'']
      [''tb'', ''torbrowser-linux64-.tar.xz.asc''] ''PK'' ''BYTES'' ''BYTES''"
    using k b s by (simp add: gate_inputs_def read_file_File sample_downloader_def join_simple main_env_def strict_env_def)
  have "pgp_verify main_env ''PK'' ''BYTES'' ''BYTES'' = None" by (simp add: main_env_def strict_env_def)
  with main_reports_inverted [OF d g] r show ?thesis by simp
qed

end
