(* ===== verification/Proxy.thy ===== *)
theory Proxy
  imports Prelude
begin

text \<open>
  The proxy readiness gate (get.go, \<open>TestHTTPDefaultProxy\<close>, \<open>TestHTTPProxy\<close>,
  \<open>TestHTTPBackupProxy\<close>, \<open>Seconds\<close>, \<open>hTTPProxy\<close>).  Both polling functions run
  the same loop: probe; on failure count an attempt whenever the seconds counter is 0,
  sleep a second and step the counter modulo 11, and stop once ten attempts are counted.
  The loop is one \<open>partial_function (option)\<close> over the probe, so that its
  termination is a theorem and not an assumption.
\<close>

section \<open>Definitions\<close>

text \<open>\<open>Seconds\<close>: sleep one second, then step the counter, wrapping from 10 to 0.\<close>

definition Seconds :: "nat \<Rightarrow> world \<Rightarrow> nat \<times> world" where
  "Seconds now w = (if now = 10 then 0 else now + 1, w\<lparr>slept := slept w + 1\<rparr>)"

definition proxy_url :: "string \<Rightarrow> string \<Rightarrow> string" where
  "proxy_url host port = ''http://'' @ host @ '':'' @ port"

text \<open>
  \<open>url.Parse\<close> of \<open>http://host:port\<close> rejects a port that is not all digits; the
  host is taken to be a name or an IPv4 literal, which it accepts.
\<close>

definition valid_port :: "string \<Rightarrow> bool" where
  "valid_port port = list_all (\<lambda>c. c \<in> set ''0123456789'') port"

text \<open>One probe: \<open>GET http://proxy.i2p/\<close> through the proxy, and \<open>strings.Contains\<close> on the body.\<close>

definition probe_ok :: "env \<Rightarrow> string \<Rightarrow> string \<Rightarrow> nat \<Rightarrow> bool" where
  "probe_ok e host port t =
     (case proxy_get e (proxy_url host port) t of
        Inl _ \<Rightarrow> False
      | Inr body \<Rightarrow> sublist ''I2P HTTP proxy OK'' body)"

definition hTTPProxy :: "env \<Rightarrow> string \<Rightarrow> string \<Rightarrow> world \<Rightarrow> bool outcome \<times> world" where
  "hTTPProxy e host port w =
     (if \<not> valid_port port
      then (Abort (Panic (''parse \"'' @ proxy_url host port @ ''\": invalid port \":'' @ port @ ''\" after host'')), w)
      else (Ret (probe_ok e host port (slept w)), w\<lparr>fetched := fetched w @ [''http://proxy.i2p/'']\<rparr>))"

text \<open>The attempt counter: \<open>if now == 0 { ...; limit++ }\<close>.\<close>

definition count_attempt :: "nat \<Rightarrow> nat \<Rightarrow> nat" where
  "count_attempt now limit = (if now = 0 then limit + 1 else limit)"

text \<open>The loop shared by \<open>TestHTTPProxy\<close> and \<open>TestHTTPBackupProxy\<close>, from its \<open>for\<close> on.\<close>

partial_function (option) wait_loop ::
  "(world \<Rightarrow> bool outcome \<times> world) \<Rightarrow> nat \<Rightarrow> nat \<Rightarrow> world \<Rightarrow> (bool outcome \<times> world) option" where
  "wait_loop probe now limit w =
     (case probe w of
        (Abort a, w1) \<Rightarrow> Some (Abort a, w1)
      | (Ret proxy, w1) \<Rightarrow>
          (if proxy then Some (Ret True, w1)
           else case Seconds now w1 of
             (now1, w2) \<Rightarrow>
               if count_attempt now limit = 10 then Some (Ret False, w2)
               else wait_loop probe now1 (count_attempt now limit) w2))"

definition TestHTTPProxy :: "env \<Rightarrow> string \<Rightarrow> string \<Rightarrow> world \<Rightarrow> (bool outcome \<times> world) option" where
  "TestHTTPProxy e host port w = wait_loop (hTTPProxy e host port) 0 0 w"

definition TestHTTPDefaultProxy :: "env \<Rightarrow> world \<Rightarrow> (bool outcome \<times> world) option" where
  "TestHTTPDefaultProxy e w = TestHTTPProxy e ''127.0.0.1'' ''4444'' w"

text \<open>
  \<open>net.Listen(\"tcp\", addr)\<close>: fails when another process or this one holds the
  address; on success the listener is kept (the code never closes it).
\<close>

definition net_listen :: "env \<Rightarrow> string \<Rightarrow> world \<Rightarrow> goerror option \<times> world" where
  "net_listen e addr w =
     (if port_in_use e addr (slept w) \<or> addr \<in> set (listening w)
      then (Some (''listen tcp '' @ addr @ '': bind: address already in use''), w)
      else (None, w\<lparr>listening := listening w @ [addr]\<rparr>))"

definition listen_probe :: "env \<Rightarrow> world \<Rightarrow> bool outcome \<times> world" where
  "listen_probe e w =
     (case net_listen e ''127.0.0.1:4444'' w of
        (Some _, w1) \<Rightarrow> (Ret True, w1)
      | (None, w1) \<Rightarrow> (Ret False, w1))"

definition TestHTTPBackupProxy :: "env \<Rightarrow> world \<Rightarrow> (bool outcome \<times> world) option" where
  "TestHTTPBackupProxy e w = wait_loop (listen_probe e) 0 0 w"

text \<open>How many probes the loop makes from a counter state when every probe fails.\<close>

definition probes_left :: "nat \<Rightarrow> nat \<Rightarrow> nat" where
  "probes_left now limit = (if now = 0 then 0 else 11 - now) + 11 * (9 - limit) + 1"

text \<open>A proxy that starts answering after \<open>n\<close> seconds.\<close>

definition late_proxy_env :: "nat \<Rightarrow> env" where
  "late_proxy_env n = offline_env\<lparr>proxy_get := (\<lambda>u t. if n \<le> t then Inr ''<p>I2P HTTP proxy OK</p>''
                                           else Inl ''proxyconnect tcp: connection refused'')\<rparr>"

section \<open>Lemmas\<close>

lemma late_proxy_body: "sublist ''I2P HTTP proxy OK'' ''<p>I2P HTTP proxy OK</p>''"
  unfolding sublist_def by (rule exI [of _ "''<p>''"], rule exI [of _ "''</p>''"]) simp

lemma probes_left_step:
  assumes "now \<le> 10" "limit \<le> 9" "\<not> (now = 0 \<and> limit = 9)"
  shows "probes_left (fst (Seconds now w)) (count_attempt now limit) = probes_left now limit - 1 \<and>
    fst (Seconds now w) \<le> 10 \<and> count_attempt now limit \<le> 9"
  using assms by (auto simp: probes_left_def Seconds_def count_attempt_def)


lemma probes_left_pos: "\<exists>k. probes_left now limit = Suc k"
  by (simp add: probes_left_def)

lemma probe_fails_step:
  "valid_port port \<Longrightarrow> \<not> probe_ok e host port (slept w) \<Longrightarrow>
   hTTPProxy e host port w = (Ret False, w\<lparr>fetched := fetched w @ [''http://proxy.i2p/'']\<rparr>)"
  by (simp add: hTTPProxy_def)

lemma proxy_loop_fails:
  assumes "valid_port port" "now \<le> 10" "limit \<le> 9"
    and "\<forall>j < probes_left now limit. \<not> probe_ok e host port (slept w + j)"
  shows "wait_loop (hTTPProxy e host port) now limit w =
    Some (Ret False, w\<lparr>fetched := fetched w @ replicate (probes_left now limit) ''http://proxy.i2p/'',
                      slept := slept w + probes_left now limit\<rparr>)"
  using assms
proof (induction "probes_left now limit" arbitrary: now limit w rule: less_induct)
  case less
  let ?p = "''http://proxy.i2p/''"
  let ?w1 = "w\<lparr>fetched := fetched w @ [?p]\<rparr>"
  obtain k where n: "probes_left now limit = Suc k" using probes_left_pos by blast
  have probe: "hTTPProxy e host port w = (Ret False, ?w1)"
    using probe_fails_step [OF less.prems(1)] less.prems(4) [rule_format, of 0] n by simp
  show ?case
  proof (cases "now = 0 \<and> limit = 9")
    case True
    then show ?thesis using probe
      by (subst wait_loop.simps) (simp add: Seconds_def count_attempt_def probes_left_def)
  next
    case False
    let ?w2 = "snd (Seconds now ?w1)" and ?n1 = "fst (Seconds now ?w1)" and ?l1 = "count_attempt now limit"
    have st: "probes_left ?n1 ?l1 = k \<and> ?n1 \<le> 10 \<and> ?l1 \<le> 9"
      using probes_left_step [OF less.prems(2,3) False, where w = ?w1] n by simp
    have rest: "\<forall>j < probes_left ?n1 ?l1. \<not> probe_ok e host port (slept ?w2 + j)"
    proof (intro allI impI)
      fix j assume "j < probes_left ?n1 ?l1"
      then show "\<not> probe_ok e host port (slept ?w2 + j)"
        using less.prems(4) [rule_format, of "Suc j"] st n by (simp add: Seconds_def)
    qed
    have "wait_loop (hTTPProxy e host port) ?n1 ?l1 ?w2 =
      Some (Ret False, ?w2\<lparr>fetched := fetched ?w2 @ replicate k ?p, slept := slept ?w2 + k\<rparr>)"
      using less.hyps [OF _ less.prems(1) _ _ rest] st n by simp
    moreover have "?l1 \<noteq> 10" using st by simp
    ultimately show ?thesis using probe n
      by (subst wait_loop.simps) (simp add: Seconds_def prod.case_eq_if)
  qed
qed

lemma proxy_loop_answers:
  assumes "valid_port port" "now \<le> 10" "limit \<le> 9" "k < probes_left now limit"
    and "\<forall>j < k. \<not> probe_ok e host port (slept w + j)" and "probe_ok e host port (slept w + k)"
  shows "wait_loop (hTTPProxy e host port) now limit w =
    Some (Ret True, w\<lparr>fetched := fetched w @ replicate (Suc k) ''http://proxy.i2p/'', slept := slept w + k\<rparr>)"
  using assms
proof (induction k arbitrary: now limit w)
  case 0
  then show ?case by (subst wait_loop.simps) (simp add: hTTPProxy_def)
next
  case (Suc k)
  let ?p = "''http://proxy.i2p/''"
  let ?w1 = "w\<lparr>fetched := fetched w @ [?p]\<rparr>"
  have probe: "hTTPProxy e host port w = (Ret False, ?w1)"
    using probe_fails_step [OF Suc.prems(1)] Suc.prems(5) [rule_format, of 0] by simp
  have nb: "\<not> (now = 0 \<and> limit = 9)" using Suc.prems(4) by (auto simp: probes_left_def)
  let ?w2 = "snd (Seconds now ?w1)" and ?n1 = "fst (Seconds now ?w1)" and ?l1 = "count_attempt now limit"
  have st: "probes_left ?n1 ?l1 = probes_left now limit - 1 \<and> ?n1 \<le> 10 \<and> ?l1 \<le> 9"
    using probes_left_step [OF Suc.prems(2,3) nb, where w = ?w1] by simp
  have before: "\<forall>j < k. \<not> probe_ok e host port (slept ?w2 + j)"
  proof (intro allI impI)
    fix j assume "j < k"
    then show "\<not> probe_ok e host port (slept ?w2 + j)"
      using Suc.prems(5) [rule_format, of "Suc j"] by (simp add: Seconds_def)
  qed
  have at: "probe_ok e host port (slept ?w2 + k)" using Suc.prems(6) by (simp add: Seconds_def)
  have "wait_loop (hTTPProxy e host port) ?n1 ?l1 ?w2 =
    Some (Ret True, ?w2\<lparr>fetched := fetched ?w2 @ replicate (Suc k) ?p, slept := slept ?w2 + k\<rparr>)"
    using Suc.IH [OF Suc.prems(1) _ _ _ before at] st Suc.prems(4) by simp
  moreover have "?l1 \<noteq> 10" using st by simp
  ultimately show ?case using probe
    by (subst wait_loop.simps) (simp add: Seconds_def prod.case_eq_if)
qed

section \<open>Properties\<close>

text \<open>C9: against a proxy that never answers, the gate gives up
  after 100 probes and 100 seconds, not after the 10 attempts its log countdown and the spec
  announce: an attempt is counted only when the seconds counter wraps to 0, every 11 probes.\<close>

theorem proxy_gate_gives_up:
  assumes "valid_port port" and "\<forall>j < 100. \<not> probe_ok e host port (slept w + j)"
  shows "TestHTTPProxy e host port w =
    Some (Ret False, w\<lparr>fetched := fetched w @ replicate 100 ''http://proxy.i2p/'', slept := slept w + 100\<rparr>)"
proof -
  have "probes_left 0 0 = 100" by (simp add: probes_left_def)
  with proxy_loop_fails [of port 0 0 e host w] assms show ?thesis by (simp add: TestHTTPProxy_def)
qed

text \<open>Property: when the proxy first answers at the k-th probe,
  k < 100, the gate returns true after exactly k+1 probes and k seconds.\<close>

theorem proxy_gate_first_answer:
  assumes "valid_port port" and "k < 100"
    and "\<forall>j < k. \<not> probe_ok e host port (slept w + j)" and "probe_ok e host port (slept w + k)"
  shows "TestHTTPProxy e host port w =
    Some (Ret True, w\<lparr>fetched := fetched w @ replicate (Suc k) ''http://proxy.i2p/'', slept := slept w + k\<rparr>)"
proof -
  have "k < probes_left 0 0" using assms(2) by (simp add: probes_left_def)
  from proxy_loop_answers [OF assms(1) _ _ this assms(3,4)] show ?thesis by (simp add: TestHTTPProxy_def)
qed


text \<open>C34: TestHTTPBackupProxy reports the proxy open on the
  first or second attempt whatever runs on the port: a successful \<open>net.Listen\<close> keeps its
  listener, so the next \<open>Listen\<close> on the same address fails.\<close>

theorem backup_proxy_always_true:
  "\<exists>w'. TestHTTPBackupProxy e w = Some (Ret True, w') \<and> slept w' \<le> slept w + 1"
proof (cases "port_in_use e ''127.0.0.1:4444'' (slept w) \<or> ''127.0.0.1:4444'' \<in> set (listening w)")
  case True
  then show ?thesis
    by (auto simp: TestHTTPBackupProxy_def listen_probe_def net_listen_def wait_loop.simps)
next
  case False
  then show ?thesis
    by (simp add: TestHTTPBackupProxy_def listen_probe_def net_listen_def wait_loop.simps
        Seconds_def count_attempt_def)
qed

text \<open>Property: a port that is not all digits makes the first
  probe panic on the URL parse error, before any request.\<close>

theorem proxy_invalid_port_panics:
  "\<not> valid_port port \<Longrightarrow> TestHTTPProxy e host port w =
    Some (Abort (Panic (''parse \"http://'' @ host @ '':'' @ port @ ''\": invalid port \":'' @ port @ ''\" after host'')), w)"
  by (subst TestHTTPProxy_def, subst wait_loop.simps) (simp add: hTTPProxy_def proxy_url_def)

text \<open>C10: a proxy that answers at some probe within the gate's
  100 probes is detected: the gate returns true, whatever the proxy did before.\<close>

theorem proxy_gate_detects_ready:
  assumes v: "valid_port port" and ready: "\<exists>k < 100. probe_ok e host port (slept w + k)"
  shows "\<exists>w'. TestHTTPProxy e host port w = Some (Ret True, w')"
proof -
  define k where "k = (LEAST k. probe_ok e host port (slept w + k))"
  obtain k0 where k0: "k0 < 100" "probe_ok e host port (slept w + k0)" using ready by blast
  have ok: "probe_ok e host port (slept w + k)" unfolding k_def using k0(2) by (rule LeastI)
  have "k \<le> k0" unfolding k_def using k0(2) by (rule Least_le)
  then have lt: "k < probes_left 0 0" using k0(1) by (simp add: probes_left_def)
  have before: "\<forall>j < k. \<not> probe_ok e host port (slept w + j)"
    unfolding k_def using not_less_Least by blast
  from proxy_loop_answers [OF v _ _ lt before ok] show ?thesis by (simp add: TestHTTPProxy_def)
qed

subsection \<open>Witnesses\<close>

theorem proxy_gate_gives_up_witness:
  "TestHTTPDefaultProxy offline_env fresh_world =
    Some (Ret False, fresh_world\<lparr>fetched := replicate 100 ''http://proxy.i2p/'', slept := 100\<rparr>)"
  using proxy_gate_gives_up [of "''4444''" offline_env "''127.0.0.1''" fresh_world]
  by (simp add: TestHTTPDefaultProxy_def valid_port_def probe_ok_def offline_env_def fresh_world_def)

theorem proxy_gate_first_answer_witness:
  "TestHTTPDefaultProxy (late_proxy_env 42) fresh_world =
    Some (Ret True, fresh_world\<lparr>fetched := replicate 43 ''http://proxy.i2p/'', slept := 42\<rparr>)"
proof -
  have ok: "probe_ok (late_proxy_env 42) ''127.0.0.1'' ''4444'' t \<longleftrightarrow> 42 \<le> t" for t
    by (simp add: probe_ok_def late_proxy_env_def late_proxy_body)
  show ?thesis
    using proxy_gate_first_answer [of "''4444''" 42 "late_proxy_env 42" "''127.0.0.1''" fresh_world]
    by (simp add: TestHTTPDefaultProxy_def valid_port_def ok fresh_world_def)
qed

theorem proxy_invalid_port_panics_witness:
  "TestHTTPProxy offline_env ''127.0.0.1'' ''http'' fresh_world =
    Some (Abort (Panic ''parse \"http://127.0.0.1:http\": invalid port \":http\" after host''), fresh_world)"
  using proxy_invalid_port_panics [of "''http''" offline_env "''127.0.0.1''" fresh_world]
  by (simp add: valid_port_def)

theorem proxy_gate_detects_ready_witness:
  "\<exists>w'. TestHTTPDefaultProxy (late_proxy_env 7) fresh_world = Some (Ret True, w')"
proof -
  have "\<exists>k < 100. probe_ok (late_proxy_env 7) ''127.0.0.1'' ''4444'' (slept fresh_world + k)"
    by (rule exI [of _ 50]) (simp add: probe_ok_def late_proxy_env_def late_proxy_body fresh_world_def)
  from proxy_gate_detects_ready [OF _ this] show ?thesis
    by (simp add: TestHTTPDefaultProxy_def valid_port_def)
qed

end
