(* ===== verification/Mirror.thy ===== *)
theory Mirror
  imports Platform
begin

text \<open>
  The download mirror (get.go, \<open>ServeHTTP\<close>): the request path has every \<open>..\<close>
  removed (\<open>strings.Replace(path, "..", "", -1)\<close>), a \<open>.json\<close> request first gets
  the JSON content type and the snapshot \<open>mirror.json\<close>, and then the file at the
  path below the download directory is served if it exists.  The handler only reads the
  file system: its model takes the file system and returns the response, with no world.
\<close>

section \<open>Definitions\<close>

text \<open>\<open>strings.Replace(s, "..", "", -1)\<close>: leftmost, non-overlapping occurrences.\<close>

fun strip_dotdot :: "string \<Rightarrow> string" where
  "strip_dotdot (CHR ''.'' # CHR ''.'' # cs) = strip_dotdot cs"
| "strip_dotdot (c # cs) = c # strip_dotdot cs"
| "strip_dotdot [] = []"



text \<open>\<open>filepath.Ext\<close>: the suffix from the last dot of the last element, or empty.\<close>

definition Ext :: "string \<Rightarrow> string" where
  "Ext p = (let b = takeWhile (\<lambda>c. c \<noteq> CHR ''/'') (rev p)
            in if CHR ''.'' \<in> set b then ''.'' @ rev (takeWhile (\<lambda>c. c \<noteq> CHR ''.'') b) else [])"

text \<open>The response: the Content-Type header if one was set, and the files \<open>http.ServeFile\<close>
  wrote to the body, in order.\<close>

record response =
  ContentType :: "string option"
  served :: "path list"

definition mirror_json :: "TBDownloader \<Rightarrow> path" where
  "mirror_json t = join (DownloadPath t) ''mirror.json''"

definition ServeHTTP :: "TBDownloader \<Rightarrow> fsys \<Rightarrow> string \<Rightarrow> response" where
  "ServeHTTP t f url_path =
     (let p = strip_dotdot url_path;
          json = (Ext p = ''.json'');
          first = (if json \<and> FileExists f (mirror_json t) then [mirror_json t] else []);
          target = join (DownloadPath t) p
      in \<lparr>ContentType = (if json then Some ''application/json'' else None),
          served = first @ (if FileExists f target then [target] else [])\<rparr>)"

text \<open>
  \<open>Serve\<close>: open the SAM listener (\<open>sam.I2PListener\<close>, \<open>log.Fatal\<close> on its error) and
  hand it to \<open>http.Serve\<close>, which accepts connections until \<open>Accept\<close> fails and answers
  each with \<open>ServeHTTP\<close>; \<open>Serve\<close> drops the error \<open>http.Serve\<close> returns.  One request is
  taken per connection, and the handlers, which the library runs in goroutines, are
  listed in the order of their connections: they only read the file system.  The accept
  loop need not end, so it is a \<open>partial_function (option)\<close> over the number of the
  next connection.
\<close>

partial_function (option) serve_loop :: "env \<Rightarrow> TBDownloader \<Rightarrow> fsys \<Rightarrow> nat \<Rightarrow> response list option" where
  "serve_loop e t f n =
     (case accept e n of
        Inl err \<Rightarrow> Some []
      | Inr url_path \<Rightarrow> Option.bind (serve_loop e t f (Suc n)) (\<lambda>rs. Some (ServeHTTP t f url_path # rs)))"

definition Serve :: "env \<Rightarrow> TBDownloader \<Rightarrow> world \<Rightarrow> (unit outcome \<times> response list) option" where
  "Serve e t w =
     (case sam_listen e of
        Some err \<Rightarrow> Some (Abort (Fatal err), [])
      | None \<Rightarrow> map_option (\<lambda>rs. (Ret (), rs)) (serve_loop e t (fs w) 0))"

definition mirror_fs :: fsys where
  "mirror_fs = [[] \<mapsto> Dir, [''tb''] \<mapsto> Dir, [''tb'', ''mirror.json''] \<mapsto> File ''{}'' 420,
     [''tb'', ''downloads.json''] \<mapsto> File ''{\"version\": 1}'' 420, [''etc''] \<mapsto> Dir,
     [''etc'', ''passwd''] \<mapsto> File ''root:x:0:0'' 420]"

definition mirror_downloader :: TBDownloader where
  "mirror_downloader = \<lparr>UnpackPath = [''up''], DownloadPath = [''tb''], Lang = ''en-US'',
     OS = ''linux'', ARCH = ''64'', Verbose = False, Profile = Map.empty\<rparr>"

text \<open>A bridge that accepts two connections, for the two request paths, and then closes.\<close>

definition serve_env :: env where
  "serve_env = offline_env\<lparr>sam_listen := None,
     accept := (\<lambda>n. if n = 0 then Inr ''/downloads.json'' else if n = 1 then Inr ''/../etc/passwd''
                    else Inl ''use of closed network connection'')\<rparr>"

definition mirror_world :: world where
  "mirror_world = \<lparr>fs = mirror_fs, fetched = [], ran = [], slept = 0, listening = [],
     WORKING_DIR = [], cwd = [], pkgOS = [], pkgARCH = []\<rparr>"

section \<open>Lemmas\<close>

text \<open>No two adjacent dots survive, and the output never starts with a dot when the input does not.\<close>

lemma strip_dotdot_hd: "strip_dotdot s = CHR ''.'' # r \<Longrightarrow> \<exists>s'. s = CHR ''.'' # s'"
  by (induction s rule: strip_dotdot.induct) auto

lemma strip_dotdot_no_pair: "strip_dotdot s \<noteq> xs @ CHR ''.'' # CHR ''.'' # ys"
proof (induction s arbitrary: xs rule: strip_dotdot.induct)
  case (1 cs)
  then show ?case by simp
qed (case_tac xs, auto dest: strip_dotdot_hd)+

lemma strip_dotdot_no_sublist: "\<not> sublist ''..'' (strip_dotdot s)"
  using strip_dotdot_no_pair by (auto simp: sublist_def)

lemma split_on_ne: "split_on d s \<noteq> []"
  by (induction s) (auto split: list.splits)

lemma split_on_hd_prefix: "split_on d s = w # ws \<Longrightarrow> prefix w s"
proof (induction s arbitrary: w ws)
  case (Cons x xs)
  then show ?case by (auto split: if_splits list.splits)
qed simp

lemma split_on_sublist: "c \<in> set (split_on d s) \<Longrightarrow> sublist c s"
proof (induction s arbitrary: c)
  case (Cons x xs)
  show ?case
  proof (cases "x = d")
    case True
    with Cons show ?thesis by (auto simp: sublist_Cons_right)
  next
    case False
    then obtain w ws where sp: "split_on d xs = w # ws" "split_on d (x # xs) = (x # w) # ws"
      using split_on_ne [of d xs] by (cases "split_on d xs") auto
    have "prefix w xs" using split_on_hd_prefix [OF sp(1)] .
    then have "sublist (x # w) (x # xs)" by (simp add: prefix_imp_sublist)
    with Cons sp show ?thesis by (auto simp: sublist_Cons_right)
  qed
qed simp

lemma clean_comps_prefix: "\<forall>c\<in>set cs. c \<noteq> ''..'' \<Longrightarrow> prefix acc (clean_comps acc cs)"
proof (induction cs arbitrary: acc)
  case (Cons c cs)
  then show ?case by (auto intro: prefix_order.trans [of acc "acc @ [c]"])
qed simp

lemma clean_comps_no_up:
  "\<forall>c\<in>set cs. c \<noteq> ''..'' \<Longrightarrow> clean_comps acc cs = acc @ filter (\<lambda>c. c \<noteq> [] \<and> c \<noteq> ''.'') cs"
  by (induction cs arbitrary: acc) auto

lemma stripped_comps:
  "c \<in> set (split_on (CHR ''/'') (strip_dotdot s)) \<Longrightarrow> \<not> sublist ''..'' c"
  using split_on_sublist strip_dotdot_no_sublist sublist_order.order.trans by blast

lemma join_stripped_below: "prefix base (join base (strip_dotdot s))"
proof -
  have "\<forall>c\<in>set (split_on (CHR ''/'') (strip_dotdot s)). c \<noteq> ''..''"
    using stripped_comps by blast
  then show ?thesis by (simp add: join_def clean_comps_prefix)
qed






subsection \<open>The accept loop\<close>

lemma serve_loop_upto:
  assumes "\<forall>j<k. \<not> isl (accept e (n + j))" and "isl (accept e (n + k))"
  shows "serve_loop e t f n = Some (map (\<lambda>j. ServeHTTP t f (projr (accept e (n + j)))) [0..<k])"
  using assms
proof (induction k arbitrary: n)
  case 0
  then show ?case by (subst serve_loop.simps) (auto split: sum.splits)
next
  case (Suc k)
  have h: "\<not> isl (accept e n)" using Suc.prems(1) by (metis add_0_right zero_less_Suc)
  have ih: "serve_loop e t f (Suc n) = Some (map (\<lambda>j. ServeHTTP t f (projr (accept e (Suc n + j)))) [0..<k])"
    using Suc.prems by (intro Suc.IH) auto
  show ?case using h
    by (subst serve_loop.simps) (auto simp del: upt_Suc simp: ih map_upt_Suc split: sum.splits)
qed

lemma serve_loop_returns_closed:
  assumes "serve_loop e t f n = Some rs"
  shows "\<exists>m\<ge>n. isl (accept e m)"
  apply (rule serve_loop.raw_induct
      [where P = "\<lambda>e t f n rs. \<exists>m\<ge>n. isl (accept e m)", OF _ assms])
  apply (auto split: sum.splits Option.bind_splits)
  apply (metis Suc_leD)
  done

lemma serve_loop_returns_iff:
  "(\<exists>rs. serve_loop e t f n = Some rs) \<longleftrightarrow> (\<exists>m\<ge>n. isl (accept e m))"
proof
  assume "\<exists>m\<ge>n. isl (accept e m)"
  then have ex: "\<exists>k. isl (accept e (n + k))" by (metis le_add_diff_inverse)
  define k where "k = (LEAST k. isl (accept e (n + k)))"
  have "isl (accept e (n + k))" unfolding k_def using ex by (rule LeastI_ex)
  moreover have "\<forall>j<k. \<not> isl (accept e (n + j))" unfolding k_def using not_less_Least by blast
  ultimately show "\<exists>rs. serve_loop e t f n = Some rs" using serve_loop_upto by blast
qed (auto dest: serve_loop_returns_closed)

section \<open>Properties\<close>

text \<open>C11: every file the mirror serves lies below the download
  directory, whatever the request path: after the dots are stripped no component can climb.\<close>

theorem mirror_confined:
  "\<forall>p \<in> set (served (ServeHTTP t f url_path)). prefix (DownloadPath t) p"
  by (auto simp: ServeHTTP_def Let_def mirror_json_def join_simple join_stripped_below)

text \<open>C40: a file directly in the download directory
  whose name contains two adjacent dots is never served as the requested file: stripping
  rewrites every request that would name it.\<close>

theorem mirror_dotdot_names_unreachable:
  assumes "sublist ''..'' n"
  shows "join (DownloadPath t) (strip_dotdot url_path) \<noteq> DownloadPath t @ [n]"
proof
  let ?cs = "split_on (CHR ''/'') (strip_dotdot url_path)"
  assume eq: "join (DownloadPath t) (strip_dotdot url_path) = DownloadPath t @ [n]"
  have up: "\<forall>c\<in>set ?cs. c \<noteq> ''..''" using stripped_comps by blast
  from eq have "filter (\<lambda>c. c \<noteq> [] \<and> c \<noteq> ''.'') ?cs = [n]"
    by (simp add: join_def clean_comps_no_up [OF up])
  then have "n \<in> set (filter (\<lambda>c. c \<noteq> [] \<and> c \<noteq> ''.'') ?cs)" by simp
  then have "n \<in> set ?cs" by simp
  with stripped_comps assms show False by blast
qed


subsection \<open>Witnesses\<close>

theorem mirror_confined_witness:
  "served (ServeHTTP mirror_downloader mirror_fs ''/../downloads.json'') =
     [[''tb'', ''mirror.json''], [''tb'', ''downloads.json'']] \<and>
   prefix [''tb''] [''tb'', ''mirror.json''] \<and> prefix [''tb''] [''tb'', ''downloads.json'']"
proof -
  have st: "strip_dotdot ''/../downloads.json'' = ''//downloads.json''" by simp
  have j: "join [''tb''] ''//downloads.json'' = [''tb'', ''downloads.json'']" by (simp add: join_def)
  have sv: "served (ServeHTTP mirror_downloader mirror_fs ''/../downloads.json'') =
     [[''tb'', ''mirror.json''], [''tb'', ''downloads.json'']]"
    unfolding ServeHTTP_def Let_def st
    by (simp add: mirror_downloader_def j mirror_json_def join_simple Ext_def mirror_fs_def FileExists_def stat_def)
  have dl: "DownloadPath mirror_downloader = [''tb'']" by (simp add: mirror_downloader_def)
  from mirror_confined [of mirror_downloader mirror_fs "''/../downloads.json''"] show ?thesis
    unfolding sv dl by simp
qed

theorem mirror_dotdot_names_unreachable_witness:
  "join [''tb''] (strip_dotdot ''/a..b'') \<noteq> [''tb'', ''a..b''] \<and> join [''tb''] (strip_dotdot ''/a..b'') = [''tb'', ''ab'']"
proof -
  have "sublist ''..'' ''a..b''" unfolding sublist_def by (rule exI [of _ "''a''"], rule exI [of _ "''b''"]) simp
  from mirror_dotdot_names_unreachable [OF this, of mirror_downloader "''/a..b''"] show ?thesis
    by (simp add: mirror_downloader_def join_def)
qed






text \<open>C14: \<open>Serve\<close> returns (with \<open>log.Fatal\<close> or normally) exactly when
  the SAM listener cannot be opened or some \<open>Accept\<close> fails; while the bridge keeps
  handing out connections it never returns.\<close>

theorem serve_returns_iff:
  "(\<exists>r. Serve e t w = Some r) \<longleftrightarrow> sam_listen e \<noteq> None \<or> (\<exists>m. isl (accept e m))"
  by (cases "sam_listen e") (auto simp: Serve_def serve_loop_returns_iff)


theorem serve_returns_iff_witness:
  "\<exists>r. Serve serve_env mirror_downloader mirror_world = Some r"
  using serve_returns_iff [of serve_env mirror_downloader mirror_world]
  by (auto simp: serve_env_def intro: exI [of _ 2])


end
