(* ===== verification/Template.thy ===== *)
theory Template
  imports Platform
begin

text \<open>
  The status-page templates (serve/template.go, \<open>PageHTML\<close>, \<open>TorOnStatusHTML\<close>,
  \<open>TorOffStatusHTML\<close>): each reads a Markdown file from the language directory beside the
  download directory and renders it, or renders a built-in default when the read fails.
  The receiver's \<open>m.TBD\<close> is the downloader argument (the \<open>Client\<close> type is not
  declared in the repository); \<open>blackfriday.MarkdownCommon\<close> is the renderer oracle.
\<close>

section \<open>Definitions\<close>

definition md_lines :: "string list \<Rightarrow> string" where
  "md_lines ls = concat (map (\<lambda>l. l @ [CHR 0x0A]) ls)"

definition defaultmd :: bytes where
  "defaultmd = [CHR 0x0A] @ md_lines [''# Tor Binary Manager'', [],
     ''This plugin manages the Tor Browser Bundle and a Tor binary'',
     ''for you. Combined with a SOCKS5 plugin for I2P, it acts as'',
     ''an alternative to a fixed outproxy by using Tor, and also'',
     ''provides a way to run I2P in the Tor Browser without any other'',
     ''configuration.'', [],
     '' - [![Launch I2P in Tor Browser](garliconion.png) - Launch I2P in Tor Browser](/launch-i2p-browser)'',
     '' - [![Launch Tor Browser](onion.png) - Launch Tor Browser](/launch-tor-browser)'',
     '' '', ''## Tor Controls'', []]"

definition torstart :: bytes where
  "torstart = [CHR 0x0A] @ md_lines [''- [![Stop Tor](/stop-tor.png)](/stop-tor) '']"

definition torstop :: bytes where
  "torstop = [CHR 0x0A] @ md_lines [''- [![Start Tor](/start-tor.png)](/start-tor)'']"

definition torrunning :: bytes where
  "torrunning = [CHR 0x0A] @ md_lines [''- Tor is Running as a System Service'']"

definition torstopped :: bytes where
  "torstopped = [CHR 0x0A] @ md_lines [''- Tor is Stopped and there is no System Service'']"

text \<open>\<open>filepath.Join(filepath.Dir(m.TBD.DownloadPath), m.TBD.Lang, name)\<close>.\<close>

definition md_path :: "TBDownloader \<Rightarrow> string \<Rightarrow> path" where
  "md_path t name = join (join (butlast (DownloadPath t)) (Lang t)) name"

text \<open>The pattern every function repeats: read the file, render it, or render the default.\<close>

definition render_or :: "env \<Rightarrow> fsys \<Rightarrow> path \<Rightarrow> bytes \<Rightarrow> bytes" where
  "render_or e f p dflt = (case read_file f p of Inl _ \<Rightarrow> markdown e dflt | Inr md \<Rightarrow> markdown e md)"

definition PageHTML :: "env \<Rightarrow> TBDownloader \<Rightarrow> fsys \<Rightarrow> bytes" where
  "PageHTML e t f = render_or e f (md_path t ''index.md'') defaultmd"

definition TorOnStatusHTML :: "env \<Rightarrow> TBDownloader \<Rightarrow> fsys \<Rightarrow> bool \<Rightarrow> bytes" where
  "TorOnStatusHTML e t f ours =
     (if ours then render_or e f (md_path t ''stoptor.md'') torstop
      else render_or e f (md_path t ''toron.md'') torrunning)"

definition TorOffStatusHTML :: "env \<Rightarrow> TBDownloader \<Rightarrow> fsys \<Rightarrow> bool \<Rightarrow> bytes" where
  "TorOffStatusHTML e t f ours =
     (if ours then render_or e f (md_path t ''stoptor.md'') torstart
      else render_or e f (md_path t ''toron.md'') torstopped)"

definition page_downloader :: TBDownloader where
  "page_downloader = \<lparr>UnpackPath = [''up''], DownloadPath = [''tb''], Lang = ''en-US'',
     OS = ''linux'', ARCH = ''64'', Verbose = False, Profile = Map.empty\<rparr>"

definition page_fs :: fsys where
  "page_fs = [[] \<mapsto> Dir, [''en-US''] \<mapsto> Dir, [''en-US'', ''stoptor.md''] \<mapsto> File ''# Stop'' 420,
     [''en-US'', ''toron.md''] \<mapsto> File ''# On'' 420]"

section \<open>Properties\<close>

text \<open>C36: once the language directory holds stoptor.md and
  toron.md, the Tor-on and Tor-off status pages are the same page, for both values of
  \<open>ours\<close>: TorOffStatusHTML reads the files of TorOnStatusHTML.\<close>

theorem status_pages_identical:
  assumes "read_file f (md_path t ''stoptor.md'') = Inr a" and "read_file f (md_path t ''toron.md'') = Inr b"
  shows "TorOffStatusHTML e t f ours = TorOnStatusHTML e t f ours"
  using assms by (simp add: TorOnStatusHTML_def TorOffStatusHTML_def render_or_def)

text \<open>C37: without the custom files, the page for a running
  Tor that this plugin controls offers the Start Tor link and the page for a stopped Tor
  offers Stop Tor: the built-in defaults are swapped.\<close>

theorem status_default_links_swapped:
  assumes "read_file f (md_path t ''stoptor.md'') = Inl err"
  shows "TorOnStatusHTML e t f True = markdown e torstop \<and> TorOffStatusHTML e t f True = markdown e torstart \<and>
    sublist ''[![Start Tor]'' torstop \<and> \<not> sublist ''Stop Tor'' torstop \<and>
    sublist ''[![Stop Tor]'' torstart \<and> \<not> sublist ''Start Tor'' torstart"
proof -
  have "sublist ''[![Start Tor]'' torstop"
    unfolding sublist_def torstop_def md_lines_def
    by (rule exI [of _ "[CHR 0x0A] @ ''- ''"], rule exI [of _ "''(/start-tor.png)](/start-tor)'' @ [CHR 0x0A]"]) simp
  moreover have "sublist ''[![Stop Tor]'' torstart"
    unfolding sublist_def torstart_def md_lines_def
    by (rule exI [of _ "[CHR 0x0A] @ ''- ''"], rule exI [of _ "''(/stop-tor.png)](/stop-tor) '' @ [CHR 0x0A]"]) simp
  moreover have "\<not> sublist ''Stop Tor'' torstop" "\<not> sublist ''Start Tor'' torstart"
    by (simp_all add: torstop_def torstart_def md_lines_def sublist_Cons_right)
  ultimately show ?thesis using assms
    by (auto simp: TorOnStatusHTML_def TorOffStatusHTML_def render_or_def split: sum.splits)
qed

subsection \<open>Witnesses\<close>

lemma page_paths:
  "md_path page_downloader ''stoptor.md'' = [''en-US'', ''stoptor.md'']"
  "md_path page_downloader ''toron.md'' = [''en-US'', ''toron.md'']"
  by (simp_all add: md_path_def page_downloader_def join_simple)

theorem status_pages_identical_witness:
  "TorOffStatusHTML offline_env page_downloader page_fs False = ''# On'' \<and>
   TorOffStatusHTML offline_env page_downloader page_fs False = TorOnStatusHTML offline_env page_downloader page_fs False"
proof -
  have a: "read_file page_fs (md_path page_downloader ''stoptor.md'') = Inr ''# Stop''"
    and b: "read_file page_fs (md_path page_downloader ''toron.md'') = Inr ''# On''"
    by (simp_all add: page_paths page_fs_def read_file_def stat_def)
  from status_pages_identical [OF a b, of offline_env False] b show ?thesis
    by (simp add: TorOnStatusHTML_def render_or_def offline_env_def)
qed

theorem status_default_links_swapped_witness:
  "TorOnStatusHTML offline_env page_downloader [[] \<mapsto> Dir] True = torstop \<and>
   TorOffStatusHTML offline_env page_downloader [[] \<mapsto> Dir] True = torstart \<and> sublist ''[![Start Tor]'' torstop"
proof -
  have "read_file [[] \<mapsto> Dir] (md_path page_downloader ''stoptor.md'') = Inl ''ENOENT''"
    by (simp add: page_paths read_file_def stat_def is_file_def)
  from status_default_links_swapped [OF this, of offline_env] show ?thesis by (simp add: offline_env_def)
qed

end
