(* ===== verification/Spec2Isabelle.thy ===== *)
theory Spec2Isabelle
  imports Pipeline Command Proxy Mirror Template
begin

text \<open>
  \<^bold>\<open>A shallow embedding of the Tor Browser manager of the I2P tor-manager plugin.\<close>

  The program (src/get/get.go, package \<open>tbget\<close>) downloads, verifies and installs the
  Tor Browser bundle.  A \<open>TBDownloader\<close> holds the unpack and download directories,
  the language and the platform.  The pipeline is: wait for the I2P HTTP proxy
  (\<open>TestHTTPProxy\<close>); create the download directory and drop the embedded signing key
  and extension into it (\<open>MakeTBDirectory\<close>); fetch and decode the release manifest
  and choose the URLs for the platform and language (\<open>GetUpdaterForLang*\<close>); fetch
  the signature and the bundle unless a marker file says they are current
  (\<open>DownloadUpdaterForLang\<close>, \<open>SingleFileDownload\<close>, \<open>BotherToDownload\<close>); check the
  signature (\<open>CheckSignature\<close>) and install (\<open>UnpackUpdater\<close>); src/main.go chains the
  download and the check.  Beside it, \<open>Serve\<close> accepts connections over I2P and answers
  each with \<open>ServeHTTP\<close>, which serves the download directory as a mirror, and
  src/serve/template.go renders the plugin's status pages.

  \<^bold>\<open>How the code is modelled.\<close>  Go functions become HOL functions over an explicit
  \<open>world\<close> (theory Prelude): the file system as a map from component paths to
  directories and files with modes, the URLs fetched, the argument vectors run, the
  seconds slept, the addresses listened on, and get.go's package variables
  (\<open>WORKING_DIR\<close>, \<open>OS\<close>, \<open>ARCH\<close>).  Everything the program only calls is a field of
  the \<open>env\<close> record: the runtime platform, \<open>http.Get\<close>, the JSON decoder, go-pgp's
  \<open>GetEntity\<close> and \<open>Verify\<close>, subprocesses, the xz+tar reader, the proxy's answer and
  other processes holding a port (both as functions of the seconds slept), the
  Markdown renderer, and the SAM bridge with the connections it accepts; every theorem holds for all of them unless it says otherwise.  A Go
  error result is a sum type (\<open>goerror + 'a\<close>); \<open>panic\<close> and \<open>log.Fatal\<close> are the
  \<open>Abort\<close> case of the \<open>outcome\<close> type.  The file-system operations (\<open>os.Stat\<close>,
  \<open>FileExists\<close>, \<open>os.MkdirAll\<close>, \<open>ioutil.WriteFile\<close>/\<open>os.Create\<close>, \<open>ReadFile\<close>,
  \<open>Chmod\<close>) and \<open>filepath.Join\<close> are modelled on the component lists, with the errors
  the code can observe (\<open>ENOENT\<close>, \<open>ENOTDIR\<close>, \<open>EISDIR\<close>).

  \<^bold>\<open>Theories, in import order.\<close>
  \<^item> Prelude: the world, the oracles, the file system and its lemmas: well-formedness
    \<open>fs_wf\<close> is kept by every operation, \<open>fs_grows\<close> (nothing is removed, no file
    becomes a directory) is a preorder every operation respects, and \<open>MkdirAll\<close> is
    idempotent and replays.  The relation \<open>steady\<close> (no subprocess started, a well-formed
    file system stays well formed) is a preorder; each component proves its operations
    steady, collected in \<open>steady_rules\<close>.
  \<^item> Platform: the \<open>TBDownloader\<close> record, \<open>DefaultDir\<close>, \<open>UNPACK_PATH\<close>,
    \<open>DOWNLOAD_PATH\<close>, \<open>NewTBDownloader\<close>, \<open>GetRuntimePair\<close> (which stores what it
    detects), \<open>NamePerPlatform\<close> and \<open>BrowserDir\<close>.  Shown: the platform key is stable
    across calls exactly when it was preset or the host is not macOS; the first artifact
    name is chosen before the platform is detected; \<open>DefaultDir\<close> is idempotent.
  \<^item> Bootstrap: \<open>MakeTBDirectory\<close> with its key and extension steps.  Shown: an existing
    key is never overwritten, a missing one is installed byte for byte, a second run
    changes nothing, and well-formedness is kept on every path, \<open>log.Fatal\<close> included.
  \<^item> Manifest: the resolver \<open>GetUpdaterForLangFromJSONBytes\<close> as a
    \<open>partial_function (option)\<close>, because its default-language fallback calls itself
    without a bound: \<open>None\<close> is a run that never returns.  Shown by fixpoint induction:
    it diverges exactly when neither the tag, its primary subtag, the default language
    nor the default's subtag is listed (its only effect then is the bootstrap); otherwise
    the lookup order, the platform and decode errors, the panic on an entry without a
    signature, and the snapshot written by \<open>GetUpdaterForLangFromJSON\<close>.  The spec's
    resolution order is the function \<open>spec_resolve\<close>, and the refinement theorem shows
    that the code implements it whenever the platform key is the same on the second call,
    with divergence in place of \<open>LanguageUnresolved\<close>.
  \<^item> Download: \<open>BotherToDownload\<close>, \<open>SingleFileDownload\<close>, \<open>DownloadUpdaterForLang\<close>.
    Shown: the marker file is written only when the artifact already exists, so three
    identical downloads fetch the same URL twice.
  \<^item> Installer: \<open>UnpackUpdater\<close> with its Windows, macOS and archive branches; the tar
    loop is the structural recursion \<open>untar_entries\<close> over the headers the reader
    yields.  Shown: idempotence once the browser directory exists, the installer and
    \<open>open\<close> argument vectors, the extracted contents (the last writer wins), that a
    stream error keeps the files written so far, and that an entry named \<open>../n\<close> lands
    outside the unpack directory.
  \<^item> Signature: \<open>CheckSignature\<close> and \<open>BoolCheckSignature\<close>, and the contract
    \<open>signature_valid\<close> the doc comment promises.  Shown: the gate installs exactly when
    \<open>pgp.Verify\<close>, called with the signature as message and the binary as signature,
    fails; so a tampered binary is installed by a verifier that accepts only the genuine
    pair.
  \<^item> Pipeline: the stages of the program as a \<open>datatype\<close> of operations (bootstrap, resolve,
    download, check) over a state holding the downloader and the world, \<open>exec_op\<close> and
    \<open>run_ops\<close> for sequences of them (\<open>None\<close> when a stage diverges, an aborted run stays
    halted), and the states reachable from a start state as an \<open>inductive\<close> relation.
    Shown by rule induction: well-formedness of the file system holds in every reachable
    state when subprocesses keep it; a sequence without a check starts no subprocess; and
    on a concrete run, an archive entry named \<open>../tb/TPO-signing-key.pub\<close> replaces the
    trusted key, which a later bootstrap then keeps.
  \<^item> Command: \<open>main\<close> of src/main.go as \<open>main_go\<close>.  Shown: once both artifacts are
    downloaded and the gate's inputs read, it exits normally exactly when the verify
    call as written accepts, installing nothing, and otherwise panics with "Signature
    check failed" after a successful install; a concrete run from the bootstrapped world
    goes through the resolver's default-language retry (the language is empty), both
    downloads and the gate.
  \<^item> Proxy: \<open>hTTPProxy\<close>, \<open>Seconds\<close> and the polling loop shared by \<open>TestHTTPProxy\<close> and
    \<open>TestHTTPBackupProxy\<close> as a \<open>partial_function (option)\<close> over the probe.
    Termination is proved for every probe with the measure \<open>probes_left\<close> (an attempt
    is counted each time the seconds counter is 0, and the counter wraps every 11
    steps); a proxy that never answers is given up on after exactly 100 probes and 100
    seconds; a proxy that answers within the first 100 seconds is detected (the least such
    second is found, and the loop reaches it); the backup test reports success by its
    second attempt because it keeps the listener it opened.
  \<^item> Mirror: \<open>ServeHTTP\<close> on a read-only file system, and \<open>Serve\<close> with \<open>http.Serve\<close>'s
    accept loop as a \<open>partial_function (option)\<close>.  Shown: the stripping recursion equals
    \<open>strings.Replace(path, "..", "", -1)\<close>, given as the library's leftmost replacement;
    the served files lie below the download directory for every request path; a path of
    plain components is served at the request path that prints it; files whose names
    contain \<open>..\<close> cannot be requested; a \<open>.json\<close> request writes the snapshot and the file
    into one body; \<open>Serve\<close> returns exactly when the listener cannot be opened or an
    \<open>Accept\<close> fails, and then has answered every connection before it, in order.
  \<^item> Template: \<open>PageHTML\<close>, \<open>TorOnStatusHTML\<close>, \<open>TorOffStatusHTML\<close>.  Shown: with the
    custom files present the on and off pages coincide, and the built-in Start/Stop
    links are swapped.
  \<^item> This theory: the property across the verifier and the installer below.

  \<^bold>\<open>Bounds and fuel.\<close>  No fuel is used.  The two loops of the program that are not
  structural are \<open>partial_function (option)\<close>: the resolver, whose non-termination is a
  theorem about the code, the accept loop of \<open>Serve\<close>, which ends exactly when an
  \<open>Accept\<close> fails, and the proxy loop, whose termination is proved from the
  starting counters (\<open>now \<le> 10\<close>, \<open>limit \<le> 9\<close>); the tar loop and the path
  functions are structural recursion.  Numbers are HOL naturals: the counters stay below
  11 and the modes below 4096, far from Go's \<open>int\<close> range.

  \<^bold>\<open>Not modelled.\<close>  \<open>Log\<close> and the \<open>fmt\<close> and \<open>log\<close> output print and change
  nothing the program reads again; the contents of a response body, HTTP headers other
  than the content type and status codes are not represented; \<open>http.Serve\<close>'s retry of
  temporary \<open>Accept\<close> errors is not distinguished from the permanent ones, and its
  goroutines, which only read the file system, are taken in connection order;
  \<open>DefaultIETFLang\<close> is computed and never used.  src/main.go does not compile (it calls
  methods of \<open>TBDownloader\<close> as package functions and binds \<open>CheckSignature\<close>'s two
  results to one variable): \<open>main_go\<close> calls both methods on one downloader and takes the
  error result.  template.go's receiver type \<open>Client\<close> is declared nowhere, so the
  templates take the downloader its field \<open>TBD\<close> holds.  The host part of
  \<open>url.Parse\<close> is taken to be valid; only the port check is modelled.
\<close>

section \<open>The verifier and the installer together\<close>

text \<open>C4: a subprocess is started by
  \<open>CheckSignature\<close> (the installer or \<open>open\<close>) only when all four inputs were read and the
  verify call as written reported an error; when any read fails nothing at all changes.\<close>

theorem installer_runs_only_after_failed_check:
  assumes "snd (CheckSignature e t w binpath sigpath) \<noteq> w"
  shows "\<exists>pk bin sig. gate_inputs e t w binpath sigpath pk bin sig \<and> pgp_verify e pk sig bin \<noteq> None"
  using CheckSignature_unchanged assms by blast

theorem installer_runs_only_after_failed_check_witness:
  "gate_inputs (strict_env ''BIN'' ''SIG'') win_downloader (signed_world ''BIN'' ''SIG'')
     [''tb'', ''a.exe''] [''tb'', ''a.exe.asc''] ''PK'' ''BIN'' ''SIG'' \<and>
   pgp_verify (strict_env ''BIN'' ''SIG'') ''PK'' ''SIG'' ''BIN'' \<noteq> None"
proof -
  have nb: "\<not> FileExists (fs (signed_world ''BIN'' ''SIG'')) (BrowserDir win_downloader)"
    by (simp add: win_downloader_facts signed_world_def ready_world_def fresh_world_def FileExists_def
        stat_def is_file_def)
  have "ran (snd (CheckSignature (strict_env ''BIN'' ''SIG'') win_downloader (signed_world ''BIN'' ''SIG'')
      [''tb'', ''a.exe''] [''tb'', ''a.exe.asc''])) =
    ran (signed_world ''BIN'' ''SIG'') @ [nsis_argv win_downloader [''tb'', ''a.exe'']]"
    using gate_inputs_CheckSignature [OF signed_world_gate] nb
    by (simp add: strict_env_def offline_env_def UnpackUpdater_def win_downloader_facts run_w_def)
  then have "snd (CheckSignature (strict_env ''BIN'' ''SIG'') win_downloader (signed_world ''BIN'' ''SIG'')
      [''tb'', ''a.exe''] [''tb'', ''a.exe.asc'']) \<noteq> signed_world ''BIN'' ''SIG''"
    by (metis append_self_conv not_Cons_self2)
  from installer_runs_only_after_failed_check [OF this] signed_world_gate show ?thesis
    by (auto simp: gate_inputs_def strict_env_def)
qed

end
